theory Spec2Isabelle
  imports Main
begin

section \<open>Token alphabet (token.hpp)\<close>

text \<open>
  The enumeration \<^verbatim>\<open>TokenType\<close>.  The enumerators \<^verbatim>\<open>INT\<close> and \<^verbatim>\<open>CHAR\<close> are
  written \<open>INT'\<close> and \<open>CHAR'\<close>, because \<open>INT\<close> and \<open>CHAR\<close> are input syntax of HOL;
  every other enumerator keeps its name.
\<close>

datatype (plugins only: code) TokenType =
    LPAREN | RPAREN | LBRACE | RBRACE | LBRACKET | RBRACKET
  | COMMA | DOT | MINUS | PLUS | SEMICOLON | SLASH | MULTIPLY
  | AMPERSAND | PIPE
  | NOT | NOT_EQUAL
  | EQUAL | EQUAL_EQUAL
  | LESS | LESS_EQUAL | LEFT_SHIFT
  | GREATER | GREATER_EQUAL | RIGHT_SHIFT
  | AND | OR
  | INCREMENT | DECREMENT
  | ARROW
  | PLUS_EQUAL | MINUS_EQUAL | MULTIPLY_EQUAL | DIVIDE_EQUAL
  | IDENTIFIER | STRING_LITERAL | CHAR_LITERAL
  | INTEGER_LITERAL | FLOAT_LITERAL | BOOL_LITERAL
  | IF | ELSE | WHILE | FOR | RETURN
  | INT' | FLOAT | CHAR' | VOID | BOOL
  | USING | NAMESPACE | STD
  | COUT | CIN | ENDL
  | TRUE | FALSE
  | HASH | INCLUDE
  | POINTER
  | END_OF_FILE

record Token =
  type :: TokenType
  lexeme :: string
  line :: nat

section \<open>Abstract syntax (ast.h)\<close>

text \<open>
  One constructor per concrete node class.  A child held in a \<^verbatim>\<open>unique_ptr\<close> that the
  parser may leave null (else branch, initializer, the three parts of a for header, the
  value of a return) is an \<open>option\<close>.
\<close>

datatype Expression =
    LiteralExpression string TokenType
  | IdentifierExpression string
  | UnaryExpression TokenType Expression
  | BinaryExpression Expression TokenType Expression
  | LogicalExpression Expression TokenType Expression
  | AssignExpression string TokenType Expression
  | CallExpression string "Expression list"

datatype Statement =
    ExpressionStatement Expression
  | BlockStatement "Statement list"
  | IfStatement Expression Statement "Statement option"
  | WhileStatement Expression Statement
  | ForStatement "Statement option" "Expression option" "Expression option" Statement
  | ReturnStatement "Expression option"
  | VariableDeclaration TokenType bool string "Expression option"
  | FunctionDeclaration string TokenType "(string \<times> TokenType) list" Statement

section \<open>IR emitter (codegen.h, codegen.cpp)\<close>

datatype OpCode =
    LOAD | STORE | ADD | SUB | MUL | DIV | CMP | JMP | JE | JNE | JG | JL
  | CALL | RET | PUSH | POP | PRINT | LABEL

record Instruction =
  opcode :: OpCode
  arg1 :: string
  arg2 :: string
  result :: string

text \<open>The constructor \<^verbatim>\<open>Instruction(op, a1 = "", a2 = "", res = "")\<close>.\<close>

definition Instr :: "OpCode \<Rightarrow> string \<Rightarrow> string \<Rightarrow> string \<Rightarrow> Instruction" where
  "Instr op a1 a2 res = \<lparr>opcode = op, arg1 = a1, arg2 = a2, result = res\<rparr>"

text \<open>
  The emitter's state.  The two \<^verbatim>\<open>int\<close> counters only ever count up from 0, so they
  are natural numbers here; the unused \<^verbatim>\<open>output\<close> stream is left out.
\<close>

record CodeGenerator =
  instructions :: "Instruction list"
  tempVarCounter :: nat
  labelCounter :: nat

definition CodeGenerator_new :: CodeGenerator where
  "CodeGenerator_new = \<lparr>instructions = [], tempVarCounter = 0, labelCounter = 0\<rparr>"

text \<open>\<^verbatim>\<open>std::to_string\<close> on a non-negative integer: its decimal digits.\<close>

fun to_string :: "nat \<Rightarrow> string" where
  "to_string n =
     (if n < 10 then [''0123456789'' ! n]
      else to_string (n div 10) @ [''0123456789'' ! (n mod 10)])"

declare to_string.simps [simp del]

definition generateTemp :: "CodeGenerator \<Rightarrow> string \<times> CodeGenerator" where
  "generateTemp g =
     (''t'' @ to_string (tempVarCounter g + 1), g\<lparr>tempVarCounter := tempVarCounter g + 1\<rparr>)"

definition generateLabel :: "CodeGenerator \<Rightarrow> string \<times> CodeGenerator" where
  "generateLabel g =
     (''L'' @ to_string (labelCounter g + 1), g\<lparr>labelCounter := labelCounter g + 1\<rparr>)"

definition emplace_back :: "Instruction \<Rightarrow> CodeGenerator \<Rightarrow> CodeGenerator" where
  "emplace_back i g = g\<lparr>instructions := instructions g @ [i]\<rparr>"

definition generateIdentifier :: "string \<Rightarrow> CodeGenerator \<Rightarrow> CodeGenerator" where
  "generateIdentifier name g =
     (let (temp, g1) = generateTemp g in emplace_back (Instr LOAD name [] temp) g1)"

definition generateLiteral :: "string \<Rightarrow> CodeGenerator \<Rightarrow> CodeGenerator" where
  "generateLiteral v g =
     (let (temp, g1) = generateTemp g in emplace_back (Instr STORE v [] temp) g1)"

text \<open>
  The \<^verbatim>\<open>switch\<close> of \<^verbatim>\<open>generateBinaryExpression\<close>: the instruction for an operator, or
  nothing for an operator the emitter only warns about.
\<close>

definition binaryInstruction ::
  "TokenType \<Rightarrow> string \<Rightarrow> string \<Rightarrow> string \<Rightarrow> Instruction option" where
  "binaryInstruction op leftTemp rightTemp resultTemp =
     (if op = PLUS then Some (Instr ADD leftTemp rightTemp resultTemp)
      else if op = MINUS then Some (Instr SUB leftTemp rightTemp resultTemp)
      else if op = MULTIPLY then Some (Instr MUL leftTemp rightTemp resultTemp)
      else if op = SLASH then Some (Instr DIV leftTemp rightTemp resultTemp)
      else if op \<in> {EQUAL_EQUAL, NOT_EQUAL, LESS, LESS_EQUAL, GREATER, GREATER_EQUAL}
        then Some (Instr CMP leftTemp rightTemp resultTemp)
      else None)"

text \<open>
  \<^verbatim>\<open>generateExpression\<close> with the four node kinds it lowers; a unary, logical or
  assignment node only prints a warning and emits nothing.  \<open>generateArguments\<close> is the
  first loop of \<^verbatim>\<open>generateFunctionCall\<close>: it lowers each argument, mints a temporary
  after it and collects these names.
\<close>

fun generateExpression :: "Expression \<Rightarrow> CodeGenerator \<Rightarrow> CodeGenerator"
  and generateArguments :: "Expression list \<Rightarrow> CodeGenerator \<Rightarrow> string list \<times> CodeGenerator"
where
  "generateExpression (BinaryExpression l op r) g =
     (let g1 = generateExpression l g;
          (leftTemp, g2) = generateTemp g1;
          g3 = generateExpression r g2;
          (rightTemp, g4) = generateTemp g3;
          (resultTemp, g5) = generateTemp g4
      in case binaryInstruction op leftTemp rightTemp resultTemp of
           Some i \<Rightarrow> emplace_back i g5
         | None \<Rightarrow> g5)"
| "generateExpression (IdentifierExpression name) g = generateIdentifier name g"
| "generateExpression (LiteralExpression v t) g = generateLiteral v g"
| "generateExpression (CallExpression callee args) g =
     (let (argTemps, g1) = generateArguments args g;
          g2 = fold (\<lambda>temp. emplace_back (Instr PUSH temp [] [])) argTemps g1;
          g3 = emplace_back (Instr CALL callee [] []) g2;
          g4 = fold (\<lambda>temp. emplace_back (Instr POP [] [] [])) argTemps g3;
          (resultTemp, g5) = generateTemp g4
      in emplace_back (Instr STORE ''retval'' [] resultTemp) g5)"
| "generateExpression (UnaryExpression op e) g = g"
| "generateExpression (LogicalExpression l op r) g = g"
| "generateExpression (AssignExpression name op v) g = g"
| "generateArguments [] g = ([], g)"
| "generateArguments (arg # args) g =
     (let g1 = generateExpression arg g;
          (temp, g2) = generateTemp g1;
          (temps, g3) = generateArguments args g2
      in (temp # temps, g3))"

text \<open>
  \<^verbatim>\<open>generateStatement\<close>; \<open>generateStatements\<close> is the loop shared by
  \<^verbatim>\<open>generate\<close> and \<^verbatim>\<open>generateBlock\<close>.
\<close>

fun generateStatement :: "Statement \<Rightarrow> CodeGenerator \<Rightarrow> CodeGenerator"
  and generateStatements :: "Statement list \<Rightarrow> CodeGenerator \<Rightarrow> CodeGenerator"
where
  "generateStatement (VariableDeclaration t isPointer name initializer) g =
     (let (v, g1) =
            (case initializer of
               Some init \<Rightarrow> generateTemp (generateExpression init g)
             | None \<Rightarrow> ([], g))
      in emplace_back (Instr STORE v [] name) g1)"
| "generateStatement (FunctionDeclaration name rt params body) g =
     (let g1 = emplace_back (Instr LABEL name [] []) g;
          g2 = generateStatement body g1
      in if instructions g2 = [] \<or> opcode (last (instructions g2)) \<noteq> RET
         then emplace_back (Instr RET [] [] []) g2 else g2)"
| "generateStatement (BlockStatement stmts) g = generateStatements stmts g"
| "generateStatement (IfStatement cond thenBranch elseBranch) g =
     (let (elseLabel, g1) = generateLabel g;
          (endLabel, g2) = generateLabel g1;
          g3 = generateExpression cond g2;
          g4 = emplace_back (Instr JE elseLabel [] []) g3;
          g5 = generateStatement thenBranch g4;
          g6 = emplace_back (Instr JMP endLabel [] []) g5;
          g7 = emplace_back (Instr LABEL elseLabel [] []) g6;
          g8 = (case elseBranch of Some s \<Rightarrow> generateStatement s g7 | None \<Rightarrow> g7)
      in emplace_back (Instr LABEL endLabel [] []) g8)"
| "generateStatement (WhileStatement cond body) g =
     (let (startLabel, g1) = generateLabel g;
          (endLabel, g2) = generateLabel g1;
          g3 = emplace_back (Instr LABEL startLabel [] []) g2;
          g4 = generateExpression cond g3;
          g5 = emplace_back (Instr JE endLabel [] []) g4;
          g6 = generateStatement body g5;
          g7 = emplace_back (Instr JMP startLabel [] []) g6
      in emplace_back (Instr LABEL endLabel [] []) g7)"
| "generateStatement (ForStatement init cond inc body) g =
     (let (startLabel, g1) = generateLabel g;
          (endLabel, g2) = generateLabel g1;
          g3 = (case init of Some s \<Rightarrow> generateStatement s g2 | None \<Rightarrow> g2);
          g4 = emplace_back (Instr LABEL startLabel [] []) g3;
          g5 = (case cond of
                  Some c \<Rightarrow> emplace_back (Instr JE endLabel [] []) (generateExpression c g4)
                | None \<Rightarrow> g4);
          g6 = generateStatement body g5;
          g7 = (case inc of Some e \<Rightarrow> generateExpression e g6 | None \<Rightarrow> g6);
          g8 = emplace_back (Instr JMP startLabel [] []) g7
      in emplace_back (Instr LABEL endLabel [] []) g8)"
| "generateStatement (ReturnStatement v) g =
     (let g1 = (case v of Some e \<Rightarrow> generateExpression e g | None \<Rightarrow> g)
      in emplace_back (Instr RET [] [] []) g1)"
| "generateStatement (ExpressionStatement e) g = generateExpression e g"
| "generateStatements [] g = g"
| "generateStatements (s # ss) g = generateStatements ss (generateStatement s g)"

definition generate :: "Statement list \<Rightarrow> CodeGenerator \<Rightarrow> CodeGenerator" where
  "generate statements g = generateStatements statements g"

subsection \<open>The peephole pass\<close>

text \<open>
  \<^verbatim>\<open>vector::erase(it)\<close> removes the element at the iterator and returns an iterator to
  the element that followed it: with the iterator as an index, the index stays.
\<close>

definition erase :: "nat \<Rightarrow> 'a list \<Rightarrow> 'a list" where
  "erase i xs = take i xs @ drop (Suc i) xs"

text \<open>
  The loop of \<^verbatim>\<open>optimize\<close>, with the iterator \<^verbatim>\<open>it\<close> as an index into the vector;
  \<^verbatim>\<open>it != instructions.end()\<close> is \<open>it < length ins\<close>.
\<close>

function optimize_loop :: "Instruction list \<Rightarrow> nat \<Rightarrow> Instruction list" where
  "optimize_loop ins it =
     (if it < length ins then
        (if opcode (ins ! it) = LOAD \<and> it + 1 < length ins \<and> opcode (ins ! (it + 1)) = STORE
         then optimize_loop (erase it (erase it ins)) it
         else optimize_loop ins (it + 1))
      else ins)"
  by pat_completeness auto
termination
  by (relation "measure (\<lambda>(ins, it). length ins - it)") (auto simp: erase_def)

declare optimize_loop.simps [simp del]

definition optimize :: "CodeGenerator \<Rightarrow> CodeGenerator" where
  "optimize g = g\<lparr>instructions := optimize_loop (instructions g) 0\<rparr>"

text \<open>
  The pass as the specification words it: one scan from the left; a LOAD directly
  followed by a STORE is dropped together with that STORE and the scan goes on behind
  the pair; everything else is kept.
\<close>

fun peephole_scan :: "Instruction list \<Rightarrow> Instruction list" where
  "peephole_scan (i # j # rest) =
     (if opcode i = LOAD \<and> opcode j = STORE then peephole_scan rest
      else i # peephole_scan (j # rest))"
| "peephole_scan [i] = [i]"
| "peephole_scan [] = []"

subsection \<open>Rendering (dumpCode)\<close>

text \<open>One line of \<^verbatim>\<open>dumpCode\<close>, without the end of line.\<close>

definition dumpInstruction :: "Instruction \<Rightarrow> string" where
  "dumpInstruction instr =
     ''  '' @
     (case opcode instr of
        LOAD \<Rightarrow> ''LOAD '' @ arg1 instr @ '' -> '' @ result instr
      | STORE \<Rightarrow> ''STORE '' @ arg1 instr @ '' -> '' @ result instr
      | ADD \<Rightarrow> ''ADD '' @ arg1 instr @ '', '' @ arg2 instr @ '' -> '' @ result instr
      | SUB \<Rightarrow> ''SUB '' @ arg1 instr @ '', '' @ arg2 instr @ '' -> '' @ result instr
      | MUL \<Rightarrow> ''MUL '' @ arg1 instr @ '', '' @ arg2 instr @ '' -> '' @ result instr
      | DIV \<Rightarrow> ''DIV '' @ arg1 instr @ '', '' @ arg2 instr @ '' -> '' @ result instr
      | CMP \<Rightarrow> ''CMP '' @ arg1 instr @ '', '' @ arg2 instr @ '' -> '' @ result instr
      | JMP \<Rightarrow> ''JMP '' @ arg1 instr
      | JE \<Rightarrow> ''JE '' @ arg1 instr
      | JNE \<Rightarrow> ''JNE '' @ arg1 instr
      | JG \<Rightarrow> ''JG '' @ arg1 instr
      | JL \<Rightarrow> ''JL '' @ arg1 instr
      | CALL \<Rightarrow> ''CALL '' @ arg1 instr
      | RET \<Rightarrow> ''RET''
      | PUSH \<Rightarrow> ''PUSH '' @ arg1 instr
      | POP \<Rightarrow> ''POP''
      | PRINT \<Rightarrow> ''PRINT '' @ arg1 instr
      | LABEL \<Rightarrow> arg1 instr @ '':'')"

definition dumpCode :: "CodeGenerator \<Rightarrow> string list" where
  "dumpCode g = map dumpInstruction (instructions g)"

section \<open>Symbol table (symboltable.h, symboltable.cpp)\<close>

datatype SymbolKind = VARIABLE | FUNCTION | PARAMETER

text \<open>
  A symbol.  The variable constructor leaves \<^verbatim>\<open>returnType\<close> without a value and the
  function constructor leaves \<^verbatim>\<open>type\<close> without one: such a field is \<open>None\<close>.
\<close>

record Symbol =
  name :: string
  symType :: "TokenType option"
  isPointer :: bool
  kind :: SymbolKind
  returnType :: "TokenType option"
  parameters :: "(string \<times> TokenType) list"

definition Symbol_variable :: "string \<Rightarrow> TokenType \<Rightarrow> bool \<Rightarrow> SymbolKind \<Rightarrow> Symbol" where
  "Symbol_variable n t p k =
     \<lparr>name = n, symType = Some t, isPointer = p, kind = k, returnType = None, parameters = []\<rparr>"

definition Symbol_function :: "string \<Rightarrow> TokenType \<Rightarrow> (string \<times> TokenType) list \<Rightarrow> Symbol" where
  "Symbol_function n rt ps =
     \<lparr>name = n, symType = None, isPointer = False, kind = FUNCTION, returnType = Some rt,
      parameters = ps\<rparr>"

type_synonym Scope = "string \<rightharpoonup> Symbol"

definition Scope_contains :: "Scope \<Rightarrow> string \<Rightarrow> bool" where
  "Scope_contains sc n = (sc n \<noteq> None)"

definition Scope_define :: "Symbol \<Rightarrow> Scope \<Rightarrow> bool \<times> Scope" where
  "Scope_define symbol sc =
     (if Scope_contains sc (name symbol) then (False, sc)
      else (True, sc(name symbol \<mapsto> symbol)))"

definition Scope_resolve :: "Scope \<Rightarrow> string \<Rightarrow> Symbol option" where
  "Scope_resolve sc n = (if Scope_contains sc n then sc n else None)"

text \<open>The vector of scopes: the global scope first, the innermost scope last.\<close>

record SymbolTable =
  scopes :: "Scope list"

definition enterScope :: "SymbolTable \<Rightarrow> SymbolTable" where
  "enterScope st = st\<lparr>scopes := scopes st @ [Map.empty]\<rparr>"

definition SymbolTable_new :: SymbolTable where
  "SymbolTable_new = enterScope \<lparr>scopes = []\<rparr>"

definition exitScope :: "SymbolTable \<Rightarrow> SymbolTable" where
  "exitScope st = (if length (scopes st) > 1 then st\<lparr>scopes := butlast (scopes st)\<rparr> else st)"

text \<open>
  \<^verbatim>\<open>scopes.back()\<close> needs a scope to be there, which the constructor and \<open>exitScope\<close>
  ensure; on no scope at all (undefined behaviour in the source) nothing is defined.
\<close>

definition SymbolTable_define :: "Symbol \<Rightarrow> SymbolTable \<Rightarrow> bool \<times> SymbolTable" where
  "SymbolTable_define symbol st =
     (if scopes st = [] then (False, st)
      else (let (ok, sc) = Scope_define symbol (last (scopes st))
            in (ok, st\<lparr>scopes := butlast (scopes st) @ [sc]\<rparr>)))"

fun resolve_from :: "Scope list \<Rightarrow> string \<Rightarrow> Symbol option" where
  "resolve_from [] n = None"
| "resolve_from (sc # rest) n =
     (case Scope_resolve sc n of Some symbol \<Rightarrow> Some symbol | None \<Rightarrow> resolve_from rest n)"

definition resolve :: "SymbolTable \<Rightarrow> string \<Rightarrow> Symbol option" where
  "resolve st n = resolve_from (rev (scopes st)) n"

definition resolveLocal :: "SymbolTable \<Rightarrow> string \<Rightarrow> Symbol option" where
  "resolveLocal st n = (if scopes st = [] then None else Scope_resolve (last (scopes st)) n)"

definition isGlobalScope :: "SymbolTable \<Rightarrow> bool" where
  "isGlobalScope st = (length (scopes st) = 1)"

text \<open>
  Sequences of scope calls, for the stack discipline: \<open>balanced_from d ops\<close> holds when
  every exit in \<open>ops\<close> closes an enter of \<open>ops\<close> that is still open or one of \<open>d\<close>
  enters before it, and nothing stays open at the end when \<open>d = 0\<close>.
\<close>

datatype ScopeCall = EnterScope | ExitScope

fun applyCall :: "ScopeCall \<Rightarrow> SymbolTable \<Rightarrow> SymbolTable" where
  "applyCall EnterScope st = enterScope st"
| "applyCall ExitScope st = exitScope st"

definition applyCalls :: "ScopeCall list \<Rightarrow> SymbolTable \<Rightarrow> SymbolTable" where
  "applyCalls ops st = fold applyCall ops st"

fun open_after :: "nat \<Rightarrow> ScopeCall list \<Rightarrow> nat option" where
  "open_after d [] = Some d"
| "open_after d (EnterScope # ops) = open_after (Suc d) ops"
| "open_after d (ExitScope # ops) = (case d of 0 \<Rightarrow> None | Suc d' \<Rightarrow> open_after d' ops)"

definition balanced :: "ScopeCall list \<Rightarrow> bool" where
  "balanced ops = (open_after 0 ops = Some 0)"

section \<open>Type checker: the type predicates (typechecker.cpp)\<close>

definition isNumericType :: "TokenType \<Rightarrow> bool" where
  "isNumericType t = (t = INTEGER_LITERAL \<or> t = FLOAT_LITERAL \<or> t = INT' \<or> t = FLOAT)"

definition isBooleanType :: "TokenType \<Rightarrow> bool" where
  "isBooleanType t = (t = BOOL \<or> t = BOOL_LITERAL \<or> t = TRUE \<or> t = FALSE)"

definition isPointerType :: "TokenType \<Rightarrow> bool" where
  "isPointerType t = (t = POINTER)"

definition isCompatibleType :: "TokenType \<Rightarrow> TokenType \<Rightarrow> bool" where
  "isCompatibleType left right =
     (if left = right then True
      else if isNumericType left \<and> isNumericType right then True
      else if isBooleanType left \<and> isBooleanType right then True
      else if isPointerType left \<and> right = INTEGER_LITERAL then True
      else False)"

section \<open>Type checker (typechecker.h, typechecker.cpp)\<close>

text \<open>
  Every \<^verbatim>\<open>throw TypeError(...)\<close> of the checker is one constructor, carrying what the
  message is built from.  \<open>FunctionAlreadyDefined\<close> is the message the first pass
  records without throwing; \<open>IndeterminateValue\<close> stands for reading a field of a
  symbol that its constructor left without a value.
\<close>

datatype TypeError =
    UnknownExpressionType
  | UndefinedVariable string
  | FunctionUsedAsVariable string
  | UnaryRequiresNumeric
  | IncrementRequiresNumeric
  | DereferenceNonPointer
  | UnsupportedUnaryOperator TokenType
  | BinaryRequiresNumeric TokenType TokenType TokenType
  | IncompatibleComparison TokenType TokenType
  | UnsupportedBinaryOperator TokenType
  | LeftOperandNotBoolean TokenType
  | RightOperandNotBoolean TokenType
  | AssignToUndeclared string
  | AssignToFunction string
  | AssignTypeMismatch TokenType TokenType
  | UndefinedFunction string
  | NotAFunction string
  | ArityMismatch string nat nat
  | ArgumentTypeMismatch nat string TokenType TokenType
  | UnknownStatementType
  | VariableAlreadyDefined string
  | InitializerTypeMismatch TokenType TokenType
  | FunctionNotInSymbolTable
  | IfConditionNotBoolean TokenType
  | WhileConditionNotBoolean TokenType
  | ForConditionNotBoolean TokenType
  | ReturnOutsideFunction
  | ReturnValueFromVoid
  | ReturnTypeMismatch string TokenType TokenType
  | MissingReturnValue string TokenType
  | FunctionAlreadyDefined string
  | IndeterminateValue

record TypeChecker =
  symbolTable :: SymbolTable
  currentFunctionReturnType :: TokenType
  inFunctionBody :: bool
  currentFunctionName :: string

definition TypeChecker_new :: TypeChecker where
  "TypeChecker_new =
     \<lparr>symbolTable = SymbolTable_new, currentFunctionReturnType = VOID,
      inFunctionBody = False, currentFunctionName = []\<rparr>"

text \<open>\<^verbatim>\<open>symbol->isPointer ? TokenType::POINTER : symbol->type\<close>.\<close>

definition symbolValueType :: "Symbol \<Rightarrow> TypeError + TokenType" where
  "symbolValueType symbol =
     (if isPointer symbol then Inr POINTER
      else case symType symbol of Some t \<Rightarrow> Inr t | None \<Rightarrow> Inl IndeterminateValue)"

definition checkIdentifier :: "TypeChecker \<Rightarrow> string \<Rightarrow> TypeError + TokenType" where
  "checkIdentifier tc n =
     (case resolve (symbolTable tc) n of
        None \<Rightarrow> Inl (UndefinedVariable n)
      | Some symbol \<Rightarrow>
          if kind symbol = FUNCTION then Inl (FunctionUsedAsVariable n)
          else symbolValueType symbol)"

text \<open>The \<^verbatim>\<open>switch\<close> of \<^verbatim>\<open>checkUnary\<close> on the operator, given the operand's type.\<close>

definition unaryResult :: "TokenType \<Rightarrow> TokenType \<Rightarrow> TypeError + TokenType" where
  "unaryResult op rightType =
     (if op = MINUS \<or> op = PLUS then
        (if \<not> isNumericType rightType then Inl UnaryRequiresNumeric else Inr rightType)
      else if op = NOT then Inr BOOL
      else if op = INCREMENT \<or> op = DECREMENT then
        (if \<not> isNumericType rightType then Inl IncrementRequiresNumeric else Inr rightType)
      else if op = MULTIPLY then
        (if rightType \<noteq> POINTER then Inl DereferenceNonPointer else Inr INT')
      else if op = AMPERSAND then Inr POINTER
      else Inl (UnsupportedUnaryOperator op))"

text \<open>\<^verbatim>\<open>checkBinary\<close> after both operands have been checked.\<close>

definition binaryResult :: "TokenType \<Rightarrow> TokenType \<Rightarrow> TokenType \<Rightarrow> TypeError + TokenType" where
  "binaryResult leftType op rightType =
     (if op = LEFT_SHIFT \<or> op = RIGHT_SHIFT then Inr leftType
      else if op = PLUS \<or> op = MINUS \<or> op = MULTIPLY \<or> op = SLASH then
        (if op = PLUS \<and> (leftType = STRING_LITERAL \<or> rightType = STRING_LITERAL)
           then Inr STRING_LITERAL
         else if (op = PLUS \<or> op = MINUS) \<and> leftType = POINTER \<and> isNumericType rightType
           then Inr POINTER
         else if (op = PLUS \<or> op = MINUS) \<and> rightType = POINTER \<and> op = PLUS
                 \<and> isNumericType leftType
           then Inr POINTER
         else if \<not> isNumericType leftType \<or> \<not> isNumericType rightType
           then Inl (BinaryRequiresNumeric op leftType rightType)
         else if leftType = FLOAT_LITERAL \<or> rightType = FLOAT_LITERAL then Inr FLOAT_LITERAL
         else Inr INTEGER_LITERAL)
      else if op = EQUAL_EQUAL \<or> op = NOT_EQUAL \<or> op = LESS \<or> op = LESS_EQUAL
              \<or> op = GREATER \<or> op = GREATER_EQUAL then
        (if \<not> isCompatibleType leftType rightType
           then Inl (IncompatibleComparison leftType rightType)
         else Inr BOOL)
      else Inl (UnsupportedBinaryOperator op))"

definition logicalResult :: "TokenType \<Rightarrow> TokenType \<Rightarrow> TypeError + TokenType" where
  "logicalResult leftType rightType =
     (if \<not> isBooleanType leftType then Inl (LeftOperandNotBoolean leftType)
      else if \<not> isBooleanType rightType then Inl (RightOperandNotBoolean rightType)
      else Inr BOOL)"

text \<open>
  The widening test shared by \<^verbatim>\<open>checkAssign\<close> and \<^verbatim>\<open>checkCall\<close>: the types differ
  and the target is not a FLOAT taking an INTEGER_LITERAL or an INT.
\<close>

definition strictMismatch :: "TokenType \<Rightarrow> TokenType \<Rightarrow> bool" where
  "strictMismatch target actual =
     (target \<noteq> actual \<and> \<not> (target = FLOAT \<and> (actual = INTEGER_LITERAL \<or> actual = INT')))"

text \<open>
  Checking an expression reads the checker's state and never changes it, so it is a
  function of the state.  \<open>checkArguments\<close> is the loop of \<^verbatim>\<open>checkCall\<close> over the
  argument index \<open>i\<close>, entered only when both vectors have the same size.
\<close>

fun checkExpression :: "TypeChecker \<Rightarrow> Expression \<Rightarrow> TypeError + TokenType"
  and checkArguments ::
    "TypeChecker \<Rightarrow> string \<Rightarrow> (string \<times> TokenType) list \<Rightarrow> nat \<Rightarrow> Expression list
      \<Rightarrow> TypeError + unit"
where
  "checkExpression tc (LiteralExpression v t) = Inr t"
| "checkExpression tc (IdentifierExpression n) = checkIdentifier tc n"
| "checkExpression tc (UnaryExpression op operand) =
     (case checkExpression tc operand of
        Inl e \<Rightarrow> Inl e
      | Inr rightType \<Rightarrow> unaryResult op rightType)"
| "checkExpression tc (BinaryExpression l op r) =
     (case checkExpression tc l of
        Inl e \<Rightarrow> Inl e
      | Inr leftType \<Rightarrow>
          (case checkExpression tc r of
             Inl e \<Rightarrow> Inl e
           | Inr rightType \<Rightarrow> binaryResult leftType op rightType))"
| "checkExpression tc (LogicalExpression l op r) =
     (case checkExpression tc l of
        Inl e \<Rightarrow> Inl e
      | Inr leftType \<Rightarrow>
          (case checkExpression tc r of
             Inl e \<Rightarrow> Inl e
           | Inr rightType \<Rightarrow> logicalResult leftType rightType))"
| "checkExpression tc (AssignExpression n op v) =
     (case resolve (symbolTable tc) n of
        None \<Rightarrow> Inl (AssignToUndeclared n)
      | Some symbol \<Rightarrow>
          if kind symbol = FUNCTION then Inl (AssignToFunction n)
          else (case symbolValueType symbol of
                  Inl e \<Rightarrow> Inl e
                | Inr leftType \<Rightarrow>
                    (case checkExpression tc v of
                       Inl e \<Rightarrow> Inl e
                     | Inr rightType \<Rightarrow>
                         if strictMismatch leftType rightType
                         then Inl (AssignTypeMismatch rightType leftType)
                         else Inr leftType)))"
| "checkExpression tc (CallExpression callee args) =
     (case resolve (symbolTable tc) callee of
        None \<Rightarrow> Inl (UndefinedFunction callee)
      | Some symbol \<Rightarrow>
          if kind symbol \<noteq> FUNCTION then Inl (NotAFunction callee)
          else if length (parameters symbol) \<noteq> length args
            then Inl (ArityMismatch callee (length (parameters symbol)) (length args))
          else (case checkArguments tc callee (parameters symbol) 0 args of
                  Inl e \<Rightarrow> Inl e
                | Inr u \<Rightarrow>
                    (case returnType symbol of
                       Some rt \<Rightarrow> Inr rt
                     | None \<Rightarrow> Inl IndeterminateValue)))"
| "checkArguments tc callee params i [] = Inr ()"
| "checkArguments tc callee params i (arg # args) =
     (case checkExpression tc arg of
        Inl e \<Rightarrow> Inl e
      | Inr argType \<Rightarrow>
          (let paramType = snd (params ! i)
           in if strictMismatch paramType argType
              then Inl (ArgumentTypeMismatch (i + 1) callee paramType argType)
              else checkArguments tc callee params (i + 1) args))"

definition tc_enterScope :: "TypeChecker \<Rightarrow> TypeChecker" where
  "tc_enterScope tc = tc\<lparr>symbolTable := enterScope (symbolTable tc)\<rparr>"

definition tc_exitScope :: "TypeChecker \<Rightarrow> TypeChecker" where
  "tc_exitScope tc = tc\<lparr>symbolTable := exitScope (symbolTable tc)\<rparr>"

definition tc_define :: "Symbol \<Rightarrow> TypeChecker \<Rightarrow> TypeChecker" where
  "tc_define symbol tc = tc\<lparr>symbolTable := snd (SymbolTable_define symbol (symbolTable tc))\<rparr>"

text \<open>The loop of \<^verbatim>\<open>checkFunctionDeclaration\<close> that adds the parameters.\<close>

definition defineParameters :: "(string \<times> TokenType) list \<Rightarrow> TypeChecker \<Rightarrow> TypeChecker" where
  "defineParameters params tc =
     fold (\<lambda>param. tc_define (Symbol_variable (fst param) (snd param) (snd param = POINTER)
                                PARAMETER)) params tc"

definition checkReturnStatement :: "Expression option \<Rightarrow> TypeChecker \<Rightarrow> TypeError option" where
  "checkReturnStatement v tc =
     (if \<not> inFunctionBody tc then Some ReturnOutsideFunction
      else case v of
        Some e \<Rightarrow>
          (case checkExpression tc e of
             Inl err \<Rightarrow> Some err
           | Inr rt \<Rightarrow>
               if currentFunctionReturnType tc = VOID then Some ReturnValueFromVoid
               else if \<not> isCompatibleType (currentFunctionReturnType tc) rt
                 then Some (ReturnTypeMismatch (currentFunctionName tc)
                              (currentFunctionReturnType tc) rt)
               else None)
      | None \<Rightarrow>
          if currentFunctionReturnType tc \<noteq> VOID
          then Some (MissingReturnValue (currentFunctionName tc) (currentFunctionReturnType tc))
          else None)"

text \<open>
  Checking a statement changes the checker: the result is the error thrown, if any, and
  the state the checker is left in.  A throw leaves the function at once, so whatever
  the source does after the throwing call (leaving the scope, restoring the function
  context) is not done on that path.  \<open>checkStatements\<close> is the loop of
  \<^verbatim>\<open>checkBlock\<close>.
\<close>

fun checkStatement :: "Statement \<Rightarrow> TypeChecker \<Rightarrow> TypeError option \<times> TypeChecker"
  and checkStatements :: "Statement list \<Rightarrow> TypeChecker \<Rightarrow> TypeError option \<times> TypeChecker"
where
  "checkStatement (ExpressionStatement e) tc =
     (case checkExpression tc e of Inl err \<Rightarrow> (Some err, tc) | Inr t \<Rightarrow> (None, tc))"
| "checkStatement (BlockStatement stmts) tc =
     (case checkStatements stmts (tc_enterScope tc) of
        (Some err, tc1) \<Rightarrow> (Some err, tc1)
      | (None, tc1) \<Rightarrow> (None, tc_exitScope tc1))"
| "checkStatement (VariableDeclaration t isPtr n initializer) tc =
     (if resolve (symbolTable tc) n \<noteq> None then (Some (VariableAlreadyDefined n), tc)
      else case (case initializer of
                   Some init \<Rightarrow>
                     (case checkExpression tc init of
                        Inl err \<Rightarrow> Some err
                      | Inr initType \<Rightarrow>
                          if \<not> isCompatibleType t initType
                          then Some (InitializerTypeMismatch (if isPtr then POINTER else t)
                                       initType)
                          else None)
                 | None \<Rightarrow> None) of
             Some err \<Rightarrow> (Some err, tc)
           | None \<Rightarrow> (None, tc_define (Symbol_variable n t isPtr VARIABLE) tc))"
| "checkStatement (FunctionDeclaration n rt params body) tc =
     (case resolve (symbolTable tc) n of
        None \<Rightarrow> (Some FunctionNotInSymbolTable, tc)
      | Some symbol \<Rightarrow>
          if kind symbol \<noteq> FUNCTION then (Some FunctionNotInSymbolTable, tc)
          else
            (let previousFunction = currentFunctionName tc;
                 previousReturnType = currentFunctionReturnType tc;
                 previousInFunction = inFunctionBody tc;
                 tc1 = tc\<lparr>currentFunctionName := n, currentFunctionReturnType := rt,
                          inFunctionBody := True\<rparr>;
                 tc2 = defineParameters params (tc_enterScope tc1)
             in case checkStatement body tc2 of
                  (Some err, tc3) \<Rightarrow> (Some err, tc3)
                | (None, tc3) \<Rightarrow>
                    (None, (tc_exitScope tc3)
                       \<lparr>currentFunctionName := previousFunction,
                        currentFunctionReturnType := previousReturnType,
                        inFunctionBody := previousInFunction\<rparr>)))"
| "checkStatement (IfStatement cond thenBranch elseBranch) tc =
     (case checkExpression tc cond of
        Inl err \<Rightarrow> (Some err, tc)
      | Inr condType \<Rightarrow>
          if \<not> isBooleanType condType then (Some (IfConditionNotBoolean condType), tc)
          else (case checkStatement thenBranch tc of
                  (Some err, tc1) \<Rightarrow> (Some err, tc1)
                | (None, tc1) \<Rightarrow>
                    (case elseBranch of
                       Some s \<Rightarrow> checkStatement s tc1
                     | None \<Rightarrow> (None, tc1))))"
| "checkStatement (WhileStatement cond body) tc =
     (case checkExpression tc cond of
        Inl err \<Rightarrow> (Some err, tc)
      | Inr condType \<Rightarrow>
          if \<not> isBooleanType condType then (Some (WhileConditionNotBoolean condType), tc)
          else checkStatement body tc)"
| "checkStatement (ForStatement init cond inc body) tc =
     (let tc1 = tc_enterScope tc
      in case (case init of Some s \<Rightarrow> checkStatement s tc1 | None \<Rightarrow> (None, tc1)) of
           (Some err, tc2) \<Rightarrow> (Some err, tc2)
         | (None, tc2) \<Rightarrow>
             (case (case cond of
                      Some c \<Rightarrow>
                        (case checkExpression tc2 c of
                           Inl err \<Rightarrow> Some err
                         | Inr condType \<Rightarrow>
                             if \<not> isBooleanType condType
                             then Some (ForConditionNotBoolean condType) else None)
                    | None \<Rightarrow> None) of
                Some err \<Rightarrow> (Some err, tc2)
              | None \<Rightarrow>
                  (case (case inc of
                           Some e \<Rightarrow>
                             (case checkExpression tc2 e of
                                Inl err \<Rightarrow> Some err
                              | Inr t \<Rightarrow> None)
                         | None \<Rightarrow> None) of
                     Some err \<Rightarrow> (Some err, tc2)
                   | None \<Rightarrow>
                       (case checkStatement body tc2 of
                          (Some err, tc3) \<Rightarrow> (Some err, tc3)
                        | (None, tc3) \<Rightarrow> (None, tc_exitScope tc3)))))"
| "checkStatement (ReturnStatement v) tc = (checkReturnStatement v tc, tc)"
| "checkStatements [] tc = (None, tc)"
| "checkStatements (s # ss) tc =
     (case checkStatement s tc of
        (Some err, tc1) \<Rightarrow> (Some err, tc1)
      | (None, tc1) \<Rightarrow> checkStatements ss tc1)"

text \<open>
  The two passes of \<^verbatim>\<open>check\<close>, each threading the list of collected messages.  The
  first registers every top-level function, the second checks each top-level statement
  and catches what it throws.
\<close>

fun registerFunctions ::
  "Statement list \<Rightarrow> TypeError list \<times> TypeChecker \<Rightarrow> TypeError list \<times> TypeChecker" where
  "registerFunctions [] acc = acc"
| "registerFunctions (FunctionDeclaration n rt params body # rest) (errors, tc) =
     (let (ok, st) = SymbolTable_define (Symbol_function n rt params) (symbolTable tc)
      in registerFunctions rest
           (if ok then errors else errors @ [FunctionAlreadyDefined n],
            tc\<lparr>symbolTable := st\<rparr>))"
| "registerFunctions (s # rest) acc = registerFunctions rest acc"

fun checkTopLevel ::
  "Statement list \<Rightarrow> TypeError list \<times> TypeChecker \<Rightarrow> TypeError list \<times> TypeChecker" where
  "checkTopLevel [] acc = acc"
| "checkTopLevel (s # rest) (errors, tc) =
     (case checkStatement s tc of
        (Some err, tc1) \<Rightarrow> checkTopLevel rest (errors @ [err], tc1)
      | (None, tc1) \<Rightarrow> checkTopLevel rest (errors, tc1))"

text \<open>
  \<^verbatim>\<open>check\<close>: the collected messages and the final state.  The source throws the
  aggregate \<^verbatim>\<open>TypeError\<close> exactly when the list is not empty.
\<close>

definition check :: "Statement list \<Rightarrow> TypeChecker \<Rightarrow> TypeError list \<times> TypeChecker" where
  "check statements tc = checkTopLevel statements (registerFunctions statements ([], tc))"

section \<open>Lexer (lexer.h, lexer.cpp)\<close>

text \<open>The \<^verbatim>\<open>std::runtime_error\<close>s the lexer throws.\<close>

datatype LexError = UnterminatedString | InvalidCharacterLiteral | UnexpectedCharacter char

text \<open>
  The scanner's state.  The field \<^verbatim>\<open>line\<close> is \<open>lineNo\<close> here, as \<open>line\<close> is the
  field of a token; the keyword table is the constant \<open>lx_keywords\<close> and the unused
  vector \<^verbatim>\<open>tokens\<close> is left out.
\<close>

record Lexer =
  source :: string
  position :: nat
  lineNo :: nat
  column :: nat

definition Lexer_new :: "string \<Rightarrow> Lexer" where
  "Lexer_new src = \<lparr>source = src, position = 0, lineNo = 1, column = 1\<rparr>"

definition mkToken :: "TokenType \<Rightarrow> string \<Rightarrow> nat \<Rightarrow> Token" where
  "mkToken t l n = \<lparr>type = t, lexeme = l, line = n\<rparr>"

definition lx_keywords :: "string \<rightharpoonup> TokenType" where
  "lx_keywords = map_of
     [(''int'', INT'), (''float'', FLOAT), (''char'', CHAR'), (''void'', VOID), (''bool'', BOOL),
      (''string'', STRING_LITERAL), (''if'', IF), (''else'', ELSE), (''while'', WHILE),
      (''for'', FOR), (''return'', RETURN), (''true'', TRUE), (''false'', FALSE),
      (''cout'', COUT), (''cin'', CIN), (''endl'', ENDL), (''using'', USING),
      (''namespace'', NAMESPACE), (''std'', STD), (''include'', INCLUDE)]"

text \<open>
  The character classes of \<^verbatim>\<open><cctype>\<close> in the C locale, on the byte value of the
  character.
\<close>

definition isspace :: "char \<Rightarrow> bool" where
  "isspace c = (let n = (of_char c :: nat) in n = 32 \<or> (9 \<le> n \<and> n \<le> 13))"

definition isdigit :: "char \<Rightarrow> bool" where
  "isdigit c = (let n = (of_char c :: nat) in 48 \<le> n \<and> n \<le> 57)"

definition isalpha :: "char \<Rightarrow> bool" where
  "isalpha c = (let n = (of_char c :: nat) in (65 \<le> n \<and> n \<le> 90) \<or> (97 \<le> n \<and> n \<le> 122))"

definition isalnum :: "char \<Rightarrow> bool" where
  "isalnum c = (isalpha c \<or> isdigit c)"

definition peek :: "Lexer \<Rightarrow> char" where
  "peek lx = (if position lx \<ge> length (source lx) then CHR 0x00 else source lx ! position lx)"

definition lx_advance :: "Lexer \<Rightarrow> char \<times> Lexer" where
  "lx_advance lx =
     (let current = peek lx;
          lx1 = lx\<lparr>position := position lx + 1\<rparr>
      in (current,
          if current = CHR 0x0A then lx1\<lparr>lineNo := lineNo lx + 1, column := 1\<rparr>
          else lx1\<lparr>column := column lx + 1\<rparr>))"

definition lx_match :: "char \<Rightarrow> Lexer \<Rightarrow> bool \<times> Lexer" where
  "lx_match expected lx =
     (if peek lx = expected then (True, snd (lx_advance lx)) else (False, lx))"

lemma source_lx_advance [simp]: "source (snd (lx_advance lx)) = source lx"
  by (simp add: lx_advance_def Let_def)

lemma position_lx_advance [simp]: "position (snd (lx_advance lx)) = Suc (position lx)"
  by (simp add: lx_advance_def Let_def)

lemma peek_inside: "peek lx \<noteq> CHR 0x00 \<Longrightarrow> position lx < length (source lx)"
  by (auto simp: peek_def split: if_splits)

lemma peek_char_inside: "peek lx = c \<Longrightarrow> c \<noteq> CHR 0x00 \<Longrightarrow> position lx < length (source lx)"
  by (rule peek_inside) simp

lemma isspace_inside: "isspace (peek lx) \<Longrightarrow> position lx < length (source lx)"
  by (rule peek_inside) (auto simp: isspace_def)

lemma isalpha_inside: "isalpha (peek lx) \<Longrightarrow> position lx < length (source lx)"
  by (rule peek_inside) (auto simp: isalpha_def)

lemma isdigit_inside: "isdigit (peek lx) \<Longrightarrow> position lx < length (source lx)"
  by (rule peek_inside) (auto simp: isdigit_def)

function skipWhitespace :: "Lexer \<Rightarrow> Lexer" where
  "skipWhitespace lx =
     (if isspace (peek lx) then skipWhitespace (snd (lx_advance lx)) else lx)"
  by pat_completeness auto
termination
  by (relation "measure (\<lambda>lx. length (source lx) - position lx)")
     (auto dest: isspace_inside)

declare skipWhitespace.simps [simp del]

text \<open>The two loops of \<^verbatim>\<open>skipComment\<close>.\<close>

function skipLineComment :: "Lexer \<Rightarrow> Lexer" where
  "skipLineComment lx =
     (if peek lx \<noteq> CHR 0x0A \<and> peek lx \<noteq> CHR 0x00
      then skipLineComment (snd (lx_advance lx)) else lx)"
  by pat_completeness auto
termination
  by (relation "measure (\<lambda>lx. length (source lx) - position lx)")
     (auto dest: peek_inside)

declare skipLineComment.simps [simp del]

function skipBlockComment :: "Lexer \<Rightarrow> Lexer" where
  "skipBlockComment lx =
     (if position lx + 1 < length (source lx) then
        (if peek lx = CHR ''*'' \<and> source lx ! (position lx + 1) = CHR ''/''
         then snd (lx_advance (snd (lx_advance lx)))
         else skipBlockComment (snd (lx_advance lx)))
      else lx)"
  by pat_completeness auto
termination
  by (relation "measure (\<lambda>lx. length (source lx) - position lx)") auto

declare skipBlockComment.simps [simp del]

definition skipComment :: "Lexer \<Rightarrow> Lexer" where
  "skipComment lx =
     (if peek lx = CHR ''/'' \<and> position lx + 1 < length (source lx) then
        (if source lx ! (position lx + 1) = CHR ''/'' then skipLineComment lx
         else if source lx ! (position lx + 1) = CHR ''*''
           then skipBlockComment (snd (lx_advance (snd (lx_advance lx))))
         else lx)
      else lx)"

text \<open>\<^verbatim>\<open>identifier\<close> (here \<open>identifier'\<close>) and its loop.\<close>

function identifier_loop :: "Lexer \<Rightarrow> string \<Rightarrow> string \<times> Lexer" where
  "identifier_loop lx lxm =
     (if isalnum (peek lx) \<or> peek lx = CHR ''_''
      then (let (c, lx1) = lx_advance lx in identifier_loop lx1 (lxm @ [c]))
      else (lxm, lx))"
  by pat_completeness auto
termination
  by (relation "measure (\<lambda>(lx, lxm). length (source lx) - position lx)")
     (auto simp: isalnum_def lx_advance_def Let_def
           dest: isalpha_inside isdigit_inside dest!: peek_char_inside)

declare identifier_loop.simps [simp del]

definition identifier' :: "Lexer \<Rightarrow> Token \<times> Lexer" where
  "identifier' lx =
     (let (lxm, lx1) = identifier_loop lx []
      in case lx_keywords lxm of
           Some t \<Rightarrow> (mkToken t lxm (lineNo lx1), lx1)
         | None \<Rightarrow> (mkToken IDENTIFIER lxm (lineNo lx1), lx1))"

text \<open>\<^verbatim>\<open>number\<close> and its loop, which stops in front of a second dot.\<close>

function number_loop :: "Lexer \<Rightarrow> string \<Rightarrow> bool \<Rightarrow> string \<times> bool \<times> Lexer" where
  "number_loop lx lxm isFloat =
     (if isdigit (peek lx) \<or> peek lx = CHR ''.'' then
        (if peek lx = CHR ''.'' \<and> isFloat then (lxm, isFloat, lx)
         else (let isFloat1 = (if peek lx = CHR ''.'' then True else isFloat);
                   (c, lx1) = lx_advance lx
               in number_loop lx1 (lxm @ [c]) isFloat1))
      else (lxm, isFloat, lx))"
  by pat_completeness auto
termination
  by (relation "measure (\<lambda>(lx, lxm, isFloat). length (source lx) - position lx)")
     (auto simp: lx_advance_def Let_def dest: isdigit_inside dest!: peek_char_inside)

declare number_loop.simps [simp del]

definition number :: "Lexer \<Rightarrow> Token \<times> Lexer" where
  "number lx =
     (let (lxm, isFloat, lx1) = number_loop lx [] False
      in (mkToken (if isFloat then FLOAT_LITERAL else INTEGER_LITERAL) lxm (lineNo lx1), lx1))"

text \<open>
  \<^verbatim>\<open>string\<close> (here \<open>string'\<close>) and its loop; the opening quote has been consumed by
  the caller.
\<close>

function string_loop :: "Lexer \<Rightarrow> string \<Rightarrow> string \<times> Lexer" where
  "string_loop lx lxm =
     (if peek lx \<noteq> CHR 0x22 \<and> peek lx \<noteq> CHR 0x00 then
        (if peek lx = CHR 0x5C then
           (let lx1 = snd (lx_advance lx);
                c = peek lx1;
                d = (if c = CHR ''n'' then CHR 0x0A
                     else if c = CHR ''t'' then CHR 0x09
                     else if c = CHR ''r'' then CHR 0x0D
                     else if c = CHR 0x5C then CHR 0x5C
                     else if c = CHR 0x22 then CHR 0x22
                     else c)
            in string_loop (snd (lx_advance lx1)) (lxm @ [d]))
         else (let (c, lx1) = lx_advance lx in string_loop lx1 (lxm @ [c])))
      else (lxm, lx))"
  by pat_completeness auto
termination
  by (relation "measure (\<lambda>(lx, lxm). length (source lx) - position lx)")
     (auto simp: lx_advance_def Let_def dest: peek_inside dest!: peek_char_inside)

declare string_loop.simps [simp del]

definition string' :: "Lexer \<Rightarrow> (LexError + Token) \<times> Lexer" where
  "string' lx =
     (let (lxm, lx1) = string_loop lx []
      in if peek lx1 = CHR 0x22
         then (let lx2 = snd (lx_advance lx1)
               in (Inr (mkToken STRING_LITERAL lxm (lineNo lx2)), lx2))
         else (Inl UnterminatedString, lx1))"

definition character :: "Lexer \<Rightarrow> (LexError + Token) \<times> Lexer" where
  "character lx =
     (let (v, lx2) =
            (if peek lx = CHR 0x5C then
               (let lx1 = snd (lx_advance lx);
                    c = peek lx1;
                    d = (if c = CHR ''n'' then CHR 0x0A
                         else if c = CHR ''t'' then CHR 0x09
                         else if c = CHR ''r'' then CHR 0x0D
                         else if c = CHR 0x5C then CHR 0x5C
                         else if c = CHR 0x27 then CHR 0x27
                         else c)
                in ([d], snd (lx_advance lx1)))
             else (let (c, lx1) = lx_advance lx in ([c], lx1)))
      in if peek lx2 = CHR 0x27
         then (let lx3 = snd (lx_advance lx2)
               in (Inr (mkToken CHAR_LITERAL v (lineNo lx3)), lx3))
         else (Inl InvalidCharacterLiteral, lx2))"

text \<open>\<^verbatim>\<open>preprocessorDirective\<close> and its two loops.\<close>

function directive_loop :: "Lexer \<Rightarrow> string \<Rightarrow> string \<times> Lexer" where
  "directive_loop lx lxm =
     (if isalpha (peek lx)
      then (let (c, lx1) = lx_advance lx in directive_loop lx1 (lxm @ [c]))
      else (lxm, lx))"
  by pat_completeness auto
termination
  by (relation "measure (\<lambda>(lx, lxm). length (source lx) - position lx)")
     (auto simp: lx_advance_def Let_def dest: isalpha_inside)

declare directive_loop.simps [simp del]

function header_loop :: "char \<Rightarrow> Lexer \<Rightarrow> string \<Rightarrow> string \<times> Lexer" where
  "header_loop terminator lx header =
     (if peek lx \<noteq> terminator \<and> peek lx \<noteq> CHR 0x00
      then (let (c, lx1) = lx_advance lx in header_loop terminator lx1 (header @ [c]))
      else (header, lx))"
  by pat_completeness auto
termination
  by (relation "measure (\<lambda>(terminator, lx, header). length (source lx) - position lx)")
     (auto simp: lx_advance_def Let_def dest: peek_inside)

declare header_loop.simps [simp del]

definition preprocessorDirective :: "Lexer \<Rightarrow> Token \<times> Lexer" where
  "preprocessorDirective lx =
     (let lx1 = skipWhitespace (snd (lx_advance lx));
          (lxm, lx2) = directive_loop lx1 []
      in if lxm = ''include'' then
           (let lx3 = skipWhitespace lx2
            in if peek lx3 = CHR ''<'' \<or> peek lx3 = CHR 0x22 then
                 (let terminator = (if peek lx3 = CHR ''<'' then CHR ''>'' else CHR 0x22);
                      (header, lx4) = header_loop terminator (snd (lx_advance lx3)) [];
                      lx5 = (if peek lx4 = terminator then snd (lx_advance lx4) else lx4)
                  in (mkToken INCLUDE header (lineNo lx5), lx5))
               else (mkToken HASH lxm (lineNo lx3), lx3))
         else (mkToken HASH lxm (lineNo lx2), lx2))"

text \<open>
  The \<^verbatim>\<open>switch\<close> at the end of \<^verbatim>\<open>getNextToken\<close>, entered after the character \<open>c\<close>
  has been consumed.
\<close>

definition punctuation :: "char \<Rightarrow> Lexer \<Rightarrow> (LexError + Token) \<times> Lexer" where
  "punctuation c lx =
     (let one = (\<lambda>t l. (Inr (mkToken t l (lineNo lx)), lx));
          two = (\<lambda>t l. (let lx1 = snd (lx_advance lx) in (Inr (mkToken t l (lineNo lx1)), lx1)))
      in if c = CHR ''+'' then
           (if peek lx = CHR ''+'' then two INCREMENT ''++''
            else if peek lx = CHR ''='' then two PLUS_EQUAL ''+=''
            else one PLUS ''+'')
         else if c = CHR ''-'' then
           (if peek lx = CHR ''-'' then two DECREMENT ''--''
            else if peek lx = CHR ''='' then two MINUS_EQUAL ''-=''
            else if peek lx = CHR ''>'' then two ARROW ''->''
            else one MINUS ''-'')
         else if c = CHR ''*'' then
           (if peek lx = CHR ''='' then two MULTIPLY_EQUAL ''*='' else one MULTIPLY ''*'')
         else if c = CHR ''/'' then
           (if peek lx = CHR ''='' then two DIVIDE_EQUAL ''/='' else one SLASH ''/'')
         else if c = CHR ''('' then one LPAREN ''(''
         else if c = CHR '')'' then one RPAREN '')''
         else if c = CHR ''{'' then one LBRACE ''{''
         else if c = CHR ''}'' then one RBRACE ''}''
         else if c = CHR ''['' then one LBRACKET ''[''
         else if c = CHR '']'' then one RBRACKET '']''
         else if c = CHR '';'' then one SEMICOLON '';''
         else if c = CHR '','' then one COMMA '',''
         else if c = CHR ''.'' then one DOT ''.''
         else if c = CHR ''&'' then
           (if peek lx = CHR ''&'' then two AND ''&&'' else one AMPERSAND ''&'')
         else if c = CHR ''|'' then
           (if peek lx = CHR ''|'' then two OR ''||'' else one PIPE ''|'')
         else if c = CHR ''<'' then
           (if peek lx = CHR ''='' then two LESS_EQUAL ''<=''
            else if peek lx = CHR ''<'' then two LEFT_SHIFT ''<<''
            else one LESS ''<'')
         else if c = CHR ''>'' then
           (if peek lx = CHR ''='' then two GREATER_EQUAL ''>=''
            else if peek lx = CHR ''>'' then two RIGHT_SHIFT ''>>''
            else one GREATER ''>'')
         else if c = CHR ''='' then
           (if peek lx = CHR ''='' then two EQUAL_EQUAL ''=='' else one EQUAL ''='')
         else if c = CHR ''!'' then
           (if peek lx = CHR ''='' then two NOT_EQUAL ''!='' else one NOT ''!'')
         else if c = CHR 0x22 then string' lx
         else if c = CHR 0x27 then character lx
         else (Inl (UnexpectedCharacter c), lx))"

lemma source_skipWhitespace [simp]: "source (skipWhitespace lx) = source lx"
  by (induction lx rule: skipWhitespace.induct) (subst skipWhitespace.simps, simp)

lemma position_skipWhitespace: "position lx \<le> position (skipWhitespace lx)"
proof (induction lx rule: skipWhitespace.induct)
  case (1 lx)
  show ?case
  proof (cases "isspace (peek lx)")
    case True
    with 1 show ?thesis by (subst skipWhitespace.simps) (simp add: Suc_leD)
  next
    case False
    then show ?thesis by (subst skipWhitespace.simps) simp
  qed
qed

lemma source_skipLineComment [simp]: "source (skipLineComment lx) = source lx"
  by (induction lx rule: skipLineComment.induct) (subst skipLineComment.simps, simp)

lemma position_skipLineComment: "position lx \<le> position (skipLineComment lx)"
proof (induction lx rule: skipLineComment.induct)
  case (1 lx)
  show ?case
  proof (cases "peek lx \<noteq> CHR 0x0A \<and> peek lx \<noteq> CHR 0x00")
    case True
    with 1 show ?thesis by (subst skipLineComment.simps) (simp add: Suc_leD)
  next
    case False
    then show ?thesis by (subst skipLineComment.simps) auto
  qed
qed

lemma source_skipBlockComment [simp]: "source (skipBlockComment lx) = source lx"
  by (induction lx rule: skipBlockComment.induct) (subst skipBlockComment.simps, simp)

lemma position_skipBlockComment: "position lx \<le> position (skipBlockComment lx)"
proof (induction lx rule: skipBlockComment.induct)
  case (1 lx)
  show ?case
  proof (cases "position lx + 1 < length (source lx)
                \<and> \<not> (peek lx = CHR ''*'' \<and> source lx ! (position lx + 1) = CHR ''/'')")
    case True
    with 1 show ?thesis by (subst skipBlockComment.simps) (auto simp: Suc_leD)
  next
    case False
    then show ?thesis by (subst skipBlockComment.simps) auto
  qed
qed

lemma source_skipComment [simp]: "source (skipComment lx) = source lx"
  by (simp add: skipComment_def)

lemma position_skipComment:
  assumes "peek lx = CHR ''/''" "position lx + 1 < length (source lx)"
    "source lx ! (position lx + 1) = CHR ''/'' \<or> source lx ! (position lx + 1) = CHR ''*''"
  shows "position lx < position (skipComment lx)"
proof (cases "source lx ! (position lx + 1) = CHR ''/''")
  case True
  have "skipLineComment lx = skipLineComment (snd (lx_advance lx))"
    using assms(1) by (subst skipLineComment.simps) simp
  moreover have "Suc (position lx) \<le> position (skipLineComment (snd (lx_advance lx)))"
    using position_skipLineComment [of "snd (lx_advance lx)"] by simp
  ultimately show ?thesis using assms True by (simp add: skipComment_def)
next
  case False
  have "Suc (Suc (position lx)) \<le> position (skipBlockComment (snd (lx_advance (snd (lx_advance lx)))))"
    using position_skipBlockComment [of "snd (lx_advance (snd (lx_advance lx)))"] by simp
  then show ?thesis using assms False by (simp add: skipComment_def)
qed

text \<open>\<^verbatim>\<open>getNextToken\<close>; it calls itself after a comment.\<close>

function getNextToken :: "Lexer \<Rightarrow> (LexError + Token) \<times> Lexer" where
  "getNextToken lx0 =
     (let lx = skipWhitespace lx0
      in if position lx \<ge> length (source lx) then (Inr (mkToken END_OF_FILE [] (lineNo lx)), lx)
         else
           (let c = peek lx
            in if c = CHR ''/'' \<and> position lx + 1 < length (source lx)
                  \<and> (source lx ! (position lx + 1) = CHR ''/''
                     \<or> source lx ! (position lx + 1) = CHR ''*'')
               then getNextToken (skipComment lx)
               else if c = CHR ''#'' then
                 (let (tok, lx1) = preprocessorDirective lx in (Inr tok, lx1))
               else if isalpha c \<or> c = CHR ''_'' then
                 (let (tok, lx1) = identifier' lx in (Inr tok, lx1))
               else if isdigit c then
                 (let (tok, lx1) = number lx in (Inr tok, lx1))
               else punctuation c (snd (lx_advance lx))))"
  by pat_completeness auto
termination
proof (relation "measure (\<lambda>lx. length (source lx) - position lx)")
  show "wf (measure (\<lambda>lx. length (source lx) - position lx))" by simp
next
  fix lx0 lx c
  assume lx: "lx = skipWhitespace lx0"
    and c: "c = peek lx"
    and comment: "c = CHR ''/'' \<and> position lx + 1 < length (source lx)
       \<and> (source lx ! (position lx + 1) = CHR ''/'' \<or> source lx ! (position lx + 1) = CHR ''*'')"
  have "position lx0 \<le> position lx"
    using lx position_skipWhitespace by simp
  moreover have "position lx < position (skipComment lx)"
    using position_skipComment [of lx] c comment by simp
  moreover have "source (skipComment lx) = source lx0"
    using lx by simp
  moreover have "position lx + 1 < length (source lx0)"
    using comment lx by simp
  ultimately show "(skipComment lx, lx0) \<in> measure (\<lambda>lx. length (source lx) - position lx)"
    by simp
qed

declare getNextToken.simps [simp del]

section \<open>Parser (parser.h, parser.cpp)\<close>

text \<open>
  The parser pulls its tokens from a lexer through \<^verbatim>\<open>getNextToken\<close>.  Here the lexer
  is a state of any type \<open>'l\<close> together with the function \<open>next\<close> that yields the next
  token, or the error thrown instead, and the new state; for the compiler itself \<open>next\<close>
  is \<open>getNextToken\<close>.  An exception is its message: the parser throws and catches
  \<^verbatim>\<open>std::runtime_error\<close> only, and the lexer's errors are of that class.
\<close>

record 'l Parser =
  lexer :: 'l
  currentToken :: Token

definition what :: "LexError \<Rightarrow> string" where
  "what e = (case e of
       UnterminatedString \<Rightarrow> ''Unterminated string''
     | InvalidCharacterLiteral \<Rightarrow> ''Invalid character literal''
     | UnexpectedCharacter c \<Rightarrow> ''Unexpected character: '' @ [c])"

text \<open>
  A parsing function maps the parser's state to the value returned or the message
  thrown, and the state it leaves.  Loops and recursion are bounded by a fuel argument,
  and \<open>None\<close> says that the fuel ran out.
\<close>

type_synonym ('a, 'l) parsing = "'l Parser \<Rightarrow> ((string + 'a) \<times> 'l Parser) option"

definition pm_return :: "'a \<Rightarrow> ('a, 'l) parsing" where
  "pm_return a p = Some (Inr a, p)"

definition pm_throw :: "string \<Rightarrow> ('a, 'l) parsing" where
  "pm_throw msg p = Some (Inl msg, p)"

definition pm_bind :: "('a, 'l) parsing \<Rightarrow> ('a \<Rightarrow> ('b, 'l) parsing) \<Rightarrow> ('b, 'l) parsing" where
  "pm_bind m f p =
     (case m p of
        None \<Rightarrow> None
      | Some (Inl msg, p1) \<Rightarrow> Some (Inl msg, p1)
      | Some (Inr a, p1) \<Rightarrow> f a p1)"

definition out_of_fuel :: "('a, 'l) parsing" where
  "out_of_fuel p = None"

text \<open>
  \<^verbatim>\<open>advance\<close>: when the lexer throws, the assignment to \<^verbatim>\<open>currentToken\<close> does not
  happen and the lexer has moved on.
\<close>

definition advance :: "('l \<Rightarrow> (LexError + Token) \<times> 'l) \<Rightarrow> (unit, 'l) parsing" where
  "advance next p =
     (case next (lexer p) of
        (Inr tok, l1) \<Rightarrow> Some (Inr (), p\<lparr>lexer := l1, currentToken := tok\<rparr>)
      | (Inl e, l1) \<Rightarrow> Some (Inl (what e), p\<lparr>lexer := l1\<rparr>))"

definition check_token :: "'l Parser \<Rightarrow> TokenType \<Rightarrow> bool" where
  "check_token p t = (type (currentToken p) = t)"

text \<open>
  Where a function branches on \<^verbatim>\<open>check(...)\<close> or reads \<^verbatim>\<open>currentToken\<close>, \<open>pm_peek\<close> hands
  it the current token.
\<close>

definition pm_peek :: "(Token \<Rightarrow> ('a, 'l) parsing) \<Rightarrow> ('a, 'l) parsing" where
  "pm_peek f p = f (currentToken p) p"

definition match_token :: "('l \<Rightarrow> (LexError + Token) \<times> 'l) \<Rightarrow> TokenType \<Rightarrow> (bool, 'l) parsing" where
  "match_token next t p =
     (if check_token p t then pm_bind (advance next) (\<lambda>u. pm_return True) p
      else pm_return False p)"

definition consume ::
  "('l \<Rightarrow> (LexError + Token) \<times> 'l) \<Rightarrow> TokenType \<Rightarrow> string \<Rightarrow> (unit, 'l) parsing" where
  "consume next t msg p = (if check_token p t then advance next p else pm_throw msg p)"

text \<open>
  \<^verbatim>\<open>synchronize\<close>: one \<^verbatim>\<open>advance\<close>, then its loop.  A loop is its body, which gets
  the remaining rounds as \<open>rest\<close>, iterated by recursion on the fuel.
\<close>

definition synchronize_loop_body ::
  "('l \<Rightarrow> (LexError + Token) \<times> 'l) \<Rightarrow> (unit, 'l) parsing \<Rightarrow> (unit, 'l) parsing" where
  "synchronize_loop_body next rest p =
     (if check_token p END_OF_FILE then pm_return () p
      else if type (currentToken p) = SEMICOLON \<or> type (currentToken p) = RBRACE
        then advance next p
      else if type (currentToken p) \<in> {INT', FLOAT, CHAR', VOID, IF, WHILE, FOR, RETURN}
        then pm_return () p
      else pm_bind (advance next) (\<lambda>u. rest) p)"

primrec synchronize_loop :: "('l \<Rightarrow> (LexError + Token) \<times> 'l) \<Rightarrow> nat \<Rightarrow> (unit, 'l) parsing" where
  "synchronize_loop next 0 = out_of_fuel"
| "synchronize_loop next (Suc n) = synchronize_loop_body next (synchronize_loop next n)"

definition synchronize :: "('l \<Rightarrow> (LexError + Token) \<times> 'l) \<Rightarrow> nat \<Rightarrow> (unit, 'l) parsing" where
  "synchronize next n p = pm_bind (advance next) (\<lambda>u. synchronize_loop next n) p"

text \<open>
  \<^verbatim>\<open>try { ... } catch (const std::runtime_error& e) { synchronize(); throw; }\<close>
  around the body \<open>m\<close>: on a throw the parser synchronizes and throws the same message
  again, unless \<^verbatim>\<open>synchronize\<close> throws itself.
\<close>

definition catch_synchronize ::
  "('l \<Rightarrow> (LexError + Token) \<times> 'l) \<Rightarrow> nat \<Rightarrow> ('a, 'l) parsing \<Rightarrow> ('a, 'l) parsing" where
  "catch_synchronize next n m p =
     (case m p of
        None \<Rightarrow> None
      | Some (Inr a, p1) \<Rightarrow> Some (Inr a, p1)
      | Some (Inl msg, p1) \<Rightarrow> pm_bind (synchronize next n) (\<lambda>u. pm_throw msg) p1)"

text \<open>\<^verbatim>\<open>try { ... } catch (const std::runtime_error& e) { ... }\<close> with the handler \<open>h\<close>.\<close>

definition pm_try :: "('a, 'l) parsing \<Rightarrow> (string \<Rightarrow> ('a, 'l) parsing) \<Rightarrow> ('a, 'l) parsing" where
  "pm_try m h p =
     (case m p of
        None \<Rightarrow> None
      | Some (Inr a, p1) \<Rightarrow> Some (Inr a, p1)
      | Some (Inl msg, p1) \<Rightarrow> h msg p1)"

text \<open>The operator that a compound assignment stands for.\<close>

definition binaryOp :: "TokenType \<Rightarrow> TokenType" where
  "binaryOp op =
     (if op = PLUS_EQUAL then PLUS
      else if op = MINUS_EQUAL then MINUS
      else if op = MULTIPLY_EQUAL then MULTIPLY
      else SLASH)"

text \<open>
  The value of a character literal and of a string literal in \<^verbatim>\<open>parsePrimary\<close>: the
  first and the last character of the lexeme are dropped when it has two or more, and
  escapes are decoded.
\<close>

definition charLiteralValue :: "string \<Rightarrow> string" where
  "charLiteralValue v =
     (if length v \<ge> 2 then
        (let v1 = take (length v - 2) (drop 1 v)
         in if v1 \<noteq> [] \<and> hd v1 = CHR 0x5C \<and> length v1 > 1 then
              (let c = v1 ! 1
               in if c = CHR ''n'' then [CHR 0x0A]
                  else if c = CHR ''t'' then [CHR 0x09]
                  else if c = CHR 0x5C then [CHR 0x5C]
                  else if c = CHR 0x27 then [CHR 0x27]
                  else if c = CHR 0x22 then [CHR 0x22]
                  else drop 1 v1)
            else v1)
      else v)"

fun unescape :: "string \<Rightarrow> string" where
  "unescape [] = []"
| "unescape [c] = [c]"
| "unescape (c # d # cs) =
     (if c = CHR 0x5C then
        (if d = CHR ''n'' then CHR 0x0A
         else if d = CHR ''t'' then CHR 0x09
         else d) # unescape cs
      else c # unescape (d # cs))"

definition stringLiteralValue :: "string \<Rightarrow> string" where
  "stringLiteralValue v =
     (if length v \<ge> 2 then unescape (take (length v - 2) (drop 1 v)) else v)"

text \<open>
  The loop of the handler in the argument list of a call: skip to the next
  \<^verbatim>\<open>)\<close>, \<^verbatim>\<open>,\<close> or the end of input.
\<close>

definition skipArgument_loop_body ::
  "('l \<Rightarrow> (LexError + Token) \<times> 'l) \<Rightarrow> (unit, 'l) parsing \<Rightarrow> (unit, 'l) parsing" where
  "skipArgument_loop_body next rest p =
     (if \<not> check_token p RPAREN \<and> \<not> check_token p COMMA \<and> \<not> check_token p END_OF_FILE
      then pm_bind (advance next) (\<lambda>u. rest) p
      else pm_return () p)"

primrec skipArgument_loop :: "('l \<Rightarrow> (LexError + Token) \<times> 'l) \<Rightarrow> nat \<Rightarrow> (unit, 'l) parsing" where
  "skipArgument_loop next 0 = out_of_fuel"
| "skipArgument_loop next (Suc n) = skipArgument_loop_body next (skipArgument_loop next n)"

subsection \<open>The expression grammar\<close>

text \<open>
  The functions of the expression grammar call each other in a cycle.  They are defined
  by recursion on the fuel, all at once: \<open>exprParsers next n\<close> holds every one of
  them with fuel \<open>n\<close>, and the body of a function with fuel \<open>n + 1\<close> calls the
  functions in \<open>r = exprParsers next n\<close>.
\<close>

record 'l ExprParsers =
  pExpression :: "(Expression, 'l) parsing"
  pAssignment :: "(Expression, 'l) parsing"
  pLogicalOr :: "(Expression, 'l) parsing"
  pLogicalOr_loop :: "Expression \<Rightarrow> (Expression, 'l) parsing"
  pLogicalAnd :: "(Expression, 'l) parsing"
  pLogicalAnd_loop :: "Expression \<Rightarrow> (Expression, 'l) parsing"
  pEquality :: "(Expression, 'l) parsing"
  pEquality_loop :: "Expression \<Rightarrow> (Expression, 'l) parsing"
  pComparison :: "(Expression, 'l) parsing"
  pComparison_loop :: "Expression \<Rightarrow> (Expression, 'l) parsing"
  pTerm :: "(Expression, 'l) parsing"
  pTerm_loop :: "Expression \<Rightarrow> (Expression, 'l) parsing"
  pFactor :: "(Expression, 'l) parsing"
  pFactor_loop :: "Expression \<Rightarrow> (Expression, 'l) parsing"
  pPrimary :: "(Expression, 'l) parsing"
  pArguments :: "Expression list \<Rightarrow> (Expression list, 'l) parsing"
  pStream_loop :: "Expression \<Rightarrow> (Expression, 'l) parsing"

text \<open>
  Each \<open>f_body\<close> is the body of the source function \<open>f\<close>; \<open>f_loop_body\<close> is one
  round of the \<^verbatim>\<open>while\<close> loop of \<open>f\<close>, with the expression built so far.
  \<open>parseArguments\<close> is the \<^verbatim>\<open>do\<close> loop over the arguments of a call and
  \<open>parseStream_loop\<close> the \<^verbatim>\<open>do\<close> loop over a chain of stream operators, both in
  \<^verbatim>\<open>parsePrimary\<close>.  No parsing function returns a null pointer, so the tests
  \<^verbatim>\<open>if (!right) throw ...\<close> never fire and are left out.
\<close>

definition parseExpression_body ::
  "('l \<Rightarrow> (LexError + Token) \<times> 'l) \<Rightarrow> nat \<Rightarrow> 'l ExprParsers \<Rightarrow> (Expression, 'l) parsing" where
  "parseExpression_body next n r p = catch_synchronize next n (pAssignment r) p"

definition parseAssignment_body ::
  "('l \<Rightarrow> (LexError + Token) \<times> 'l) \<Rightarrow> nat \<Rightarrow> 'l ExprParsers \<Rightarrow> (Expression, 'l) parsing" where
  "parseAssignment_body next n r p =
     catch_synchronize next n
       (pm_bind (pLogicalOr r) (\<lambda>expr.
          pm_peek (\<lambda>tok.
            if type tok = EQUAL \<or> type tok = PLUS_EQUAL \<or> type tok = MINUS_EQUAL
               \<or> type tok = MULTIPLY_EQUAL \<or> type tok = DIVIDE_EQUAL then
              (let op = type tok
               in pm_bind (advance next) (\<lambda>u.
                    case expr of
                      IdentifierExpression varName \<Rightarrow>
                        pm_bind (pAssignment r) (\<lambda>v.
                          pm_return
                            (if op \<noteq> EQUAL
                             then AssignExpression varName EQUAL
                                    (BinaryExpression (IdentifierExpression varName) (binaryOp op) v)
                             else AssignExpression varName op v))
                    | _ \<Rightarrow> pm_throw ''Invalid assignment target.''))
            else if type tok = INCREMENT \<or> type tok = DECREMENT then
              (case expr of
                 IdentifierExpression varName \<Rightarrow>
                   (let op = type tok
                    in pm_bind (advance next) (\<lambda>u.
                         pm_return (UnaryExpression op (IdentifierExpression varName))))
               | _ \<Rightarrow> pm_throw ''Invalid increment/decrement target.'')
            else pm_return expr))) p"

definition parseLogicalOr_body ::
  "('l \<Rightarrow> (LexError + Token) \<times> 'l) \<Rightarrow> nat \<Rightarrow> 'l ExprParsers \<Rightarrow> (Expression, 'l) parsing" where
  "parseLogicalOr_body next n r p =
     catch_synchronize next n (pm_bind (pLogicalAnd r) (\<lambda>expr. pLogicalOr_loop r expr)) p"

definition parseLogicalOr_loop_body ::
  "('l \<Rightarrow> (LexError + Token) \<times> 'l) \<Rightarrow> 'l ExprParsers \<Rightarrow> Expression \<Rightarrow> (Expression, 'l) parsing" where
  "parseLogicalOr_loop_body next r expr p =
     pm_peek (\<lambda>tok.
       if type tok = OR then
         (let op = type tok
          in pm_bind (advance next) (\<lambda>u.
               pm_bind (pLogicalAnd r) (\<lambda>right.
                 pLogicalOr_loop r (LogicalExpression expr op right))))
       else pm_return expr) p"

definition parseLogicalAnd_body ::
  "('l \<Rightarrow> (LexError + Token) \<times> 'l) \<Rightarrow> nat \<Rightarrow> 'l ExprParsers \<Rightarrow> (Expression, 'l) parsing" where
  "parseLogicalAnd_body next n r p =
     catch_synchronize next n (pm_bind (pEquality r) (\<lambda>expr. pLogicalAnd_loop r expr)) p"

definition parseLogicalAnd_loop_body ::
  "('l \<Rightarrow> (LexError + Token) \<times> 'l) \<Rightarrow> 'l ExprParsers \<Rightarrow> Expression \<Rightarrow> (Expression, 'l) parsing" where
  "parseLogicalAnd_loop_body next r expr p =
     pm_peek (\<lambda>tok.
       if type tok = AND then
         (let op = type tok
          in pm_bind (advance next) (\<lambda>u.
               pm_bind (pEquality r) (\<lambda>right.
                 pLogicalAnd_loop r (LogicalExpression expr op right))))
       else pm_return expr) p"

definition parseEquality_body ::
  "('l \<Rightarrow> (LexError + Token) \<times> 'l) \<Rightarrow> nat \<Rightarrow> 'l ExprParsers \<Rightarrow> (Expression, 'l) parsing" where
  "parseEquality_body next n r p =
     catch_synchronize next n (pm_bind (pComparison r) (\<lambda>expr. pEquality_loop r expr)) p"

definition parseEquality_loop_body ::
  "('l \<Rightarrow> (LexError + Token) \<times> 'l) \<Rightarrow> 'l ExprParsers \<Rightarrow> Expression \<Rightarrow> (Expression, 'l) parsing" where
  "parseEquality_loop_body next r expr p =
     pm_peek (\<lambda>tok.
       if type tok = EQUAL_EQUAL \<or> type tok = NOT_EQUAL then
         (let op = type tok
          in pm_bind (advance next) (\<lambda>u.
               pm_bind (pComparison r) (\<lambda>right.
                 pEquality_loop r (BinaryExpression expr op right))))
       else pm_return expr) p"

definition parseComparison_body ::
  "('l \<Rightarrow> (LexError + Token) \<times> 'l) \<Rightarrow> nat \<Rightarrow> 'l ExprParsers \<Rightarrow> (Expression, 'l) parsing" where
  "parseComparison_body next n r p =
     catch_synchronize next n (pm_bind (pTerm r) (\<lambda>expr. pComparison_loop r expr)) p"

definition parseComparison_loop_body ::
  "('l \<Rightarrow> (LexError + Token) \<times> 'l) \<Rightarrow> 'l ExprParsers \<Rightarrow> Expression \<Rightarrow> (Expression, 'l) parsing" where
  "parseComparison_loop_body next r expr p =
     pm_peek (\<lambda>tok.
       if type tok = LESS \<or> type tok = LESS_EQUAL
          \<or> type tok = GREATER \<or> type tok = GREATER_EQUAL then
         (let op = type tok
          in pm_bind (advance next) (\<lambda>u.
               pm_bind (pTerm r) (\<lambda>right.
                 pComparison_loop r (BinaryExpression expr op right))))
       else pm_return expr) p"

definition parseTerm_body ::
  "('l \<Rightarrow> (LexError + Token) \<times> 'l) \<Rightarrow> nat \<Rightarrow> 'l ExprParsers \<Rightarrow> (Expression, 'l) parsing" where
  "parseTerm_body next n r p =
     catch_synchronize next n (pm_bind (pFactor r) (\<lambda>expr. pTerm_loop r expr)) p"

definition parseTerm_loop_body ::
  "('l \<Rightarrow> (LexError + Token) \<times> 'l) \<Rightarrow> 'l ExprParsers \<Rightarrow> Expression \<Rightarrow> (Expression, 'l) parsing" where
  "parseTerm_loop_body next r expr p =
     pm_peek (\<lambda>tok.
       if type tok = PLUS \<or> type tok = MINUS then
         (let op = type tok
          in pm_bind (advance next) (\<lambda>u.
               pm_bind (pFactor r) (\<lambda>right.
                 pTerm_loop r (BinaryExpression expr op right))))
       else pm_return expr) p"

definition parseFactor_body ::
  "('l \<Rightarrow> (LexError + Token) \<times> 'l) \<Rightarrow> nat \<Rightarrow> 'l ExprParsers \<Rightarrow> (Expression, 'l) parsing" where
  "parseFactor_body next n r p =
     catch_synchronize next n (pm_bind (pPrimary r) (\<lambda>expr. pFactor_loop r expr)) p"

definition parseFactor_loop_body ::
  "('l \<Rightarrow> (LexError + Token) \<times> 'l) \<Rightarrow> 'l ExprParsers \<Rightarrow> Expression \<Rightarrow> (Expression, 'l) parsing" where
  "parseFactor_loop_body next r expr p =
     pm_peek (\<lambda>tok.
       if type tok = MULTIPLY \<or> type tok = SLASH then
         (let op = type tok
          in pm_bind (advance next) (\<lambda>u.
               pm_bind (pPrimary r) (\<lambda>right.
                 pFactor_loop r (BinaryExpression expr op right))))
       else pm_return expr) p"

definition parsePrimary_body ::
  "('l \<Rightarrow> (LexError + Token) \<times> 'l) \<Rightarrow> nat \<Rightarrow> 'l ExprParsers \<Rightarrow> (Expression, 'l) parsing" where
  "parsePrimary_body next n r p =
     catch_synchronize next n
       (pm_peek (\<lambda>tok.
          if type tok = NOT \<or> type tok = MULTIPLY \<or> type tok = AMPERSAND
             \<or> type tok = INCREMENT \<or> type tok = DECREMENT
             \<or> type tok = PLUS \<or> type tok = MINUS then
            (let op = type tok
             in pm_bind (advance next) (\<lambda>u.
                  pm_bind (pPrimary r) (\<lambda>expr.
                    pm_return (UnaryExpression op expr))))
          else if type tok = TRUE then
            pm_bind (advance next) (\<lambda>u.
              pm_return (LiteralExpression ''true'' BOOL_LITERAL))
          else if type tok = FALSE then
            pm_bind (advance next) (\<lambda>u.
              pm_return (LiteralExpression ''false'' BOOL_LITERAL))
          else if type tok = INTEGER_LITERAL \<or> type tok = FLOAT_LITERAL then
            (let v = lexeme tok;
                 t = type tok
             in pm_bind (advance next) (\<lambda>u. pm_return (LiteralExpression v t)))
          else if type tok = CHAR_LITERAL then
            (let v = charLiteralValue (lexeme tok)
             in pm_bind (advance next) (\<lambda>u.
                  pm_return (LiteralExpression v CHAR_LITERAL)))
          else if type tok = STRING_LITERAL then
            (let v = stringLiteralValue (lexeme tok)
             in pm_bind (advance next) (\<lambda>u.
                  pm_return (LiteralExpression v STRING_LITERAL)))
          else if type tok = IDENTIFIER then
            (let ident = lexeme tok
             in pm_bind (advance next) (\<lambda>u.
                  pm_peek (\<lambda>tok1.
                    if type tok1 = INCREMENT \<or> type tok1 = DECREMENT then
                      (let op = type tok1
                       in pm_bind (advance next) (\<lambda>u.
                            pm_return (UnaryExpression op (IdentifierExpression ident))))
                    else if type tok1 = LPAREN then
                      pm_bind (advance next) (\<lambda>u.
                        pm_bind
                          (pm_peek (\<lambda>tok2.
                             if type tok2 \<noteq> RPAREN then pArguments r []
                             else pm_return []))
                          (\<lambda>arguments.
                             pm_bind (consume next RPAREN ''Expect ')' after arguments.'') (\<lambda>u.
                               pm_return (CallExpression ident arguments))))
                    else if type tok1 = LEFT_SHIFT \<or> type tok1 = RIGHT_SHIFT then
                      pStream_loop r (IdentifierExpression ident)
                    else pm_return (IdentifierExpression ident))))
          else if type tok = LPAREN then
            pm_bind (advance next) (\<lambda>u.
              pm_bind (pExpression r) (\<lambda>expr.
                pm_bind (consume next RPAREN ''Expect ')' after expression.'') (\<lambda>u.
                  pm_return expr)))
          else pm_throw ''Expect expression.'')) p"

text \<open>
  One round of the \<^verbatim>\<open>do\<close> loop over the arguments: the \<^verbatim>\<open>try\<close> block (a comma is
  skipped, anything else is parsed as an argument), its handler, then the loop test.
\<close>

definition parseArguments_body ::
  "('l \<Rightarrow> (LexError + Token) \<times> 'l) \<Rightarrow> nat \<Rightarrow> 'l ExprParsers \<Rightarrow> Expression list
    \<Rightarrow> (Expression list, 'l) parsing" where
  "parseArguments_body next n r arguments p =
     pm_bind
       (pm_try
          (pm_peek (\<lambda>tok.
             if type tok = COMMA
             then pm_bind (advance next) (\<lambda>u. pm_return arguments)
             else pm_bind (pExpression r) (\<lambda>arg. pm_return (arguments @ [arg]))))
          (\<lambda>msg.
             pm_bind (skipArgument_loop next n) (\<lambda>u.
               pm_peek (\<lambda>tok.
                 if type tok = COMMA
                 then pm_bind (advance next) (\<lambda>u. pm_return arguments)
                 else pm_return arguments))))
       (\<lambda>arguments1.
          pm_peek (\<lambda>tok.
            if type tok \<noteq> RPAREN \<and> type tok \<noteq> END_OF_FILE
            then pArguments r arguments1
            else pm_return arguments1)) p"

definition parseStream_loop_body ::
  "('l \<Rightarrow> (LexError + Token) \<times> 'l) \<Rightarrow> 'l ExprParsers \<Rightarrow> Expression \<Rightarrow> (Expression, 'l) parsing" where
  "parseStream_loop_body next r left p =
     pm_peek (\<lambda>tok.
       let op = type tok
       in pm_bind (advance next) (\<lambda>u.
            pm_bind
              (pm_peek (\<lambda>tok1.
                 if type tok1 = ENDL
                 then pm_bind (advance next) (\<lambda>u. pm_return (IdentifierExpression ''endl''))
                 else pExpression r))
              (\<lambda>right.
                 pm_peek (\<lambda>tok2.
                   if type tok2 = LEFT_SHIFT \<or> type tok2 = RIGHT_SHIFT
                   then pStream_loop r (BinaryExpression left op right)
                   else pm_return (BinaryExpression left op right))))) p"

primrec exprParsers :: "('l \<Rightarrow> (LexError + Token) \<times> 'l) \<Rightarrow> nat \<Rightarrow> 'l ExprParsers" where
  "exprParsers next 0 =
     \<lparr>pExpression = out_of_fuel, pAssignment = out_of_fuel,
      pLogicalOr = out_of_fuel, pLogicalOr_loop = (\<lambda>expr. out_of_fuel),
      pLogicalAnd = out_of_fuel, pLogicalAnd_loop = (\<lambda>expr. out_of_fuel),
      pEquality = out_of_fuel, pEquality_loop = (\<lambda>expr. out_of_fuel),
      pComparison = out_of_fuel, pComparison_loop = (\<lambda>expr. out_of_fuel),
      pTerm = out_of_fuel, pTerm_loop = (\<lambda>expr. out_of_fuel),
      pFactor = out_of_fuel, pFactor_loop = (\<lambda>expr. out_of_fuel),
      pPrimary = out_of_fuel, pArguments = (\<lambda>arguments. out_of_fuel),
      pStream_loop = (\<lambda>left. out_of_fuel)\<rparr>"
| "exprParsers next (Suc n) =
     (let r = exprParsers next n in
     \<lparr>pExpression = parseExpression_body next n r,
      pAssignment = parseAssignment_body next n r,
      pLogicalOr = parseLogicalOr_body next n r,
      pLogicalOr_loop = parseLogicalOr_loop_body next r,
      pLogicalAnd = parseLogicalAnd_body next n r,
      pLogicalAnd_loop = parseLogicalAnd_loop_body next r,
      pEquality = parseEquality_body next n r,
      pEquality_loop = parseEquality_loop_body next r,
      pComparison = parseComparison_body next n r,
      pComparison_loop = parseComparison_loop_body next r,
      pTerm = parseTerm_body next n r,
      pTerm_loop = parseTerm_loop_body next r,
      pFactor = parseFactor_body next n r,
      pFactor_loop = parseFactor_loop_body next r,
      pPrimary = parsePrimary_body next n r,
      pArguments = parseArguments_body next n r,
      pStream_loop = parseStream_loop_body next r\<rparr>)"

text \<open>The source functions, with fuel.\<close>

definition parseExpression :: "('l \<Rightarrow> (LexError + Token) \<times> 'l) \<Rightarrow> nat \<Rightarrow> (Expression, 'l) parsing" where
  "parseExpression next n = pExpression (exprParsers next n)"

definition parseAssignment :: "('l \<Rightarrow> (LexError + Token) \<times> 'l) \<Rightarrow> nat \<Rightarrow> (Expression, 'l) parsing" where
  "parseAssignment next n = pAssignment (exprParsers next n)"

definition parseLogicalOr :: "('l \<Rightarrow> (LexError + Token) \<times> 'l) \<Rightarrow> nat \<Rightarrow> (Expression, 'l) parsing" where
  "parseLogicalOr next n = pLogicalOr (exprParsers next n)"

definition parseLogicalAnd :: "('l \<Rightarrow> (LexError + Token) \<times> 'l) \<Rightarrow> nat \<Rightarrow> (Expression, 'l) parsing" where
  "parseLogicalAnd next n = pLogicalAnd (exprParsers next n)"

definition parseEquality :: "('l \<Rightarrow> (LexError + Token) \<times> 'l) \<Rightarrow> nat \<Rightarrow> (Expression, 'l) parsing" where
  "parseEquality next n = pEquality (exprParsers next n)"

definition parseComparison :: "('l \<Rightarrow> (LexError + Token) \<times> 'l) \<Rightarrow> nat \<Rightarrow> (Expression, 'l) parsing" where
  "parseComparison next n = pComparison (exprParsers next n)"

definition parseTerm :: "('l \<Rightarrow> (LexError + Token) \<times> 'l) \<Rightarrow> nat \<Rightarrow> (Expression, 'l) parsing" where
  "parseTerm next n = pTerm (exprParsers next n)"

definition parseFactor :: "('l \<Rightarrow> (LexError + Token) \<times> 'l) \<Rightarrow> nat \<Rightarrow> (Expression, 'l) parsing" where
  "parseFactor next n = pFactor (exprParsers next n)"

definition parsePrimary :: "('l \<Rightarrow> (LexError + Token) \<times> 'l) \<Rightarrow> nat \<Rightarrow> (Expression, 'l) parsing" where
  "parsePrimary next n = pPrimary (exprParsers next n)"

lemma exprParsers_0:
  "pExpression (exprParsers next 0) = out_of_fuel"
  "pAssignment (exprParsers next 0) = out_of_fuel"
  "pLogicalOr (exprParsers next 0) = out_of_fuel"
  "pLogicalOr_loop (exprParsers next 0) expr = out_of_fuel"
  "pLogicalAnd (exprParsers next 0) = out_of_fuel"
  "pLogicalAnd_loop (exprParsers next 0) expr = out_of_fuel"
  "pEquality (exprParsers next 0) = out_of_fuel"
  "pEquality_loop (exprParsers next 0) expr = out_of_fuel"
  "pComparison (exprParsers next 0) = out_of_fuel"
  "pComparison_loop (exprParsers next 0) expr = out_of_fuel"
  "pTerm (exprParsers next 0) = out_of_fuel"
  "pTerm_loop (exprParsers next 0) expr = out_of_fuel"
  "pFactor (exprParsers next 0) = out_of_fuel"
  "pFactor_loop (exprParsers next 0) expr = out_of_fuel"
  "pPrimary (exprParsers next 0) = out_of_fuel"
  "pArguments (exprParsers next 0) arguments = out_of_fuel"
  "pStream_loop (exprParsers next 0) expr = out_of_fuel"
  by simp_all

lemma exprParsers_Suc:
  "pExpression (exprParsers next (Suc n)) = parseExpression_body next n (exprParsers next n)"
  "pAssignment (exprParsers next (Suc n)) = parseAssignment_body next n (exprParsers next n)"
  "pLogicalOr (exprParsers next (Suc n)) = parseLogicalOr_body next n (exprParsers next n)"
  "pLogicalOr_loop (exprParsers next (Suc n)) = parseLogicalOr_loop_body next (exprParsers next n)"
  "pLogicalAnd (exprParsers next (Suc n)) = parseLogicalAnd_body next n (exprParsers next n)"
  "pLogicalAnd_loop (exprParsers next (Suc n)) = parseLogicalAnd_loop_body next (exprParsers next n)"
  "pEquality (exprParsers next (Suc n)) = parseEquality_body next n (exprParsers next n)"
  "pEquality_loop (exprParsers next (Suc n)) = parseEquality_loop_body next (exprParsers next n)"
  "pComparison (exprParsers next (Suc n)) = parseComparison_body next n (exprParsers next n)"
  "pComparison_loop (exprParsers next (Suc n)) = parseComparison_loop_body next (exprParsers next n)"
  "pTerm (exprParsers next (Suc n)) = parseTerm_body next n (exprParsers next n)"
  "pTerm_loop (exprParsers next (Suc n)) = parseTerm_loop_body next (exprParsers next n)"
  "pFactor (exprParsers next (Suc n)) = parseFactor_body next n (exprParsers next n)"
  "pFactor_loop (exprParsers next (Suc n)) = parseFactor_loop_body next (exprParsers next n)"
  "pPrimary (exprParsers next (Suc n)) = parsePrimary_body next n (exprParsers next n)"
  "pArguments (exprParsers next (Suc n)) = parseArguments_body next n (exprParsers next n)"
  "pStream_loop (exprParsers next (Suc n)) = parseStream_loop_body next (exprParsers next n)"
  by (simp_all add: Let_def)

declare exprParsers.simps [simp del]

lemma exprParsers_numeral:
  "pExpression (exprParsers next (numeral k)) = parseExpression_body next (pred_numeral k) (exprParsers next (pred_numeral k))"
  "pAssignment (exprParsers next (numeral k)) = parseAssignment_body next (pred_numeral k) (exprParsers next (pred_numeral k))"
  "pLogicalOr (exprParsers next (numeral k)) = parseLogicalOr_body next (pred_numeral k) (exprParsers next (pred_numeral k))"
  "pLogicalOr_loop (exprParsers next (numeral k)) = parseLogicalOr_loop_body next (exprParsers next (pred_numeral k))"
  "pLogicalAnd (exprParsers next (numeral k)) = parseLogicalAnd_body next (pred_numeral k) (exprParsers next (pred_numeral k))"
  "pLogicalAnd_loop (exprParsers next (numeral k)) = parseLogicalAnd_loop_body next (exprParsers next (pred_numeral k))"
  "pEquality (exprParsers next (numeral k)) = parseEquality_body next (pred_numeral k) (exprParsers next (pred_numeral k))"
  "pEquality_loop (exprParsers next (numeral k)) = parseEquality_loop_body next (exprParsers next (pred_numeral k))"
  "pComparison (exprParsers next (numeral k)) = parseComparison_body next (pred_numeral k) (exprParsers next (pred_numeral k))"
  "pComparison_loop (exprParsers next (numeral k)) = parseComparison_loop_body next (exprParsers next (pred_numeral k))"
  "pTerm (exprParsers next (numeral k)) = parseTerm_body next (pred_numeral k) (exprParsers next (pred_numeral k))"
  "pTerm_loop (exprParsers next (numeral k)) = parseTerm_loop_body next (exprParsers next (pred_numeral k))"
  "pFactor (exprParsers next (numeral k)) = parseFactor_body next (pred_numeral k) (exprParsers next (pred_numeral k))"
  "pFactor_loop (exprParsers next (numeral k)) = parseFactor_loop_body next (exprParsers next (pred_numeral k))"
  "pPrimary (exprParsers next (numeral k)) = parsePrimary_body next (pred_numeral k) (exprParsers next (pred_numeral k))"
  "pArguments (exprParsers next (numeral k)) = parseArguments_body next (pred_numeral k) (exprParsers next (pred_numeral k))"
  "pStream_loop (exprParsers next (numeral k)) = parseStream_loop_body next (exprParsers next (pred_numeral k))"
  by (simp_all only: numeral_eq_Suc exprParsers_Suc)

subsection \<open>The statement grammar\<close>

text \<open>The loop \<^verbatim>\<open>while (match(TokenType::SEMICOLON));\<close> of \<^verbatim>\<open>parseStatement\<close>.\<close>

definition skipSemicolons_body ::
  "('l \<Rightarrow> (LexError + Token) \<times> 'l) \<Rightarrow> (unit, 'l) parsing \<Rightarrow> (unit, 'l) parsing" where
  "skipSemicolons_body next rest p =
     pm_bind (match_token next SEMICOLON) (\<lambda>matched. if matched then rest else pm_return ()) p"

primrec skipSemicolons :: "('l \<Rightarrow> (LexError + Token) \<times> 'l) \<Rightarrow> nat \<Rightarrow> (unit, 'l) parsing" where
  "skipSemicolons next 0 = out_of_fuel"
| "skipSemicolons next (Suc n) = skipSemicolons_body next (skipSemicolons next n)"

text \<open>\<^verbatim>\<open>parsePreprocessorDirective\<close> and the loop that collects a system header.\<close>

definition includeHeader_loop_body ::
  "('l \<Rightarrow> (LexError + Token) \<times> 'l) \<Rightarrow> (string \<Rightarrow> (string, 'l) parsing) \<Rightarrow> string
    \<Rightarrow> (string, 'l) parsing" where
  "includeHeader_loop_body next rest header p =
     (if \<not> check_token p GREATER \<and> \<not> check_token p END_OF_FILE
      then pm_bind (advance next) (\<lambda>u. rest (header @ lexeme (currentToken p))) p
      else pm_return header p)"

primrec includeHeader_loop ::
  "('l \<Rightarrow> (LexError + Token) \<times> 'l) \<Rightarrow> nat \<Rightarrow> string \<Rightarrow> (string, 'l) parsing" where
  "includeHeader_loop next 0 = (\<lambda>header. out_of_fuel)"
| "includeHeader_loop next (Suc n) = includeHeader_loop_body next (includeHeader_loop next n)"

definition parsePreprocessorDirective ::
  "('l \<Rightarrow> (LexError + Token) \<times> 'l) \<Rightarrow> nat \<Rightarrow> (Statement, 'l) parsing" where
  "parsePreprocessorDirective next n p =
     pm_bind (advance next) (\<lambda>u.
       pm_bind (match_token next INCLUDE) (\<lambda>isInclude.
         if isInclude then
           pm_bind (match_token next LESS) (\<lambda>isSystem.
             if isSystem then
               pm_bind (includeHeader_loop next n []) (\<lambda>header.
                 pm_bind (consume next GREATER ''Expect '>' after include path'') (\<lambda>u.
                   pm_return (ExpressionStatement (LiteralExpression header STRING_LITERAL))))
             else
               pm_bind (match_token next STRING_LITERAL) (\<lambda>isLocal p1.
                 if isLocal
                 then pm_return (ExpressionStatement
                        (LiteralExpression (lexeme (currentToken p1)) STRING_LITERAL)) p1
                 else pm_throw ''Expect header name after #include'' p1))
         else pm_throw ''Unsupported preprocessor directive'')) p"

definition parseUsingDirective ::
  "('l \<Rightarrow> (LexError + Token) \<times> 'l) \<Rightarrow> (Statement, 'l) parsing" where
  "parseUsingDirective next p =
     pm_bind (advance next) (\<lambda>u.
       pm_bind (match_token next NAMESPACE) (\<lambda>isNamespace.
         if isNamespace then
           pm_bind (match_token next STD) (\<lambda>isStd.
             if isStd then
               pm_bind (consume next SEMICOLON ''Expect ';' after namespace std'') (\<lambda>u.
                 pm_return (ExpressionStatement (IdentifierExpression ''using_namespace_std'')))
             else pm_throw ''Unsupported using directive'')
         else pm_throw ''Unsupported using directive'')) p"

text \<open>
  The parameter list of a function declaration: one round of the \<^verbatim>\<open>do\<close> loop reads
  a type, an optional \<^verbatim>\<open>*\<close> and a name, and goes on after a comma.
\<close>

definition parseParameters_body ::
  "('l \<Rightarrow> (LexError + Token) \<times> 'l)
    \<Rightarrow> ((string \<times> TokenType) list \<Rightarrow> ((string \<times> TokenType) list, 'l) parsing)
    \<Rightarrow> (string \<times> TokenType) list \<Rightarrow> ((string \<times> TokenType) list, 'l) parsing" where
  "parseParameters_body next rest params p =
     (let paramType =
            (if type (currentToken p) = IDENTIFIER \<and> lexeme (currentToken p) = ''string''
             then STRING_LITERAL else type (currentToken p))
      in pm_bind (advance next) (\<lambda>u.
           pm_bind (match_token next MULTIPLY) (\<lambda>isParamPointer p1.
             if \<not> check_token p1 IDENTIFIER then pm_throw ''Expect parameter name.'' p1
             else
               (let paramName = lexeme (currentToken p1);
                    params1 = params @ [(paramName, if isParamPointer then POINTER else paramType)]
                in pm_bind (advance next) (\<lambda>u.
                     pm_bind (match_token next COMMA) (\<lambda>more.
                       if more then rest params1 else pm_return params1)) p1))) p)"

primrec parseParameters ::
  "('l \<Rightarrow> (LexError + Token) \<times> 'l) \<Rightarrow> nat \<Rightarrow> (string \<times> TokenType) list
    \<Rightarrow> ((string \<times> TokenType) list, 'l) parsing" where
  "parseParameters next 0 = (\<lambda>params. out_of_fuel)"
| "parseParameters next (Suc n) = parseParameters_body next (parseParameters next n)"

text \<open>
  The initializer of a declarator, with the \<^verbatim>\<open>try\<close> block of its own around
  \<^verbatim>\<open>parseExpression\<close>, and the loop over the further declarators of a declaration.
\<close>

definition parseInitializer ::
  "('l \<Rightarrow> (LexError + Token) \<times> 'l) \<Rightarrow> nat \<Rightarrow> (Expression, 'l) parsing
    \<Rightarrow> (Expression option, 'l) parsing" where
  "parseInitializer next n expression p =
     (if check_token p EQUAL then
        pm_bind (advance next) (\<lambda>u.
          pm_bind (catch_synchronize next n expression) (\<lambda>initializer.
            pm_return (Some initializer))) p
      else pm_return None p)"

definition parseDeclarators_body ::
  "('l \<Rightarrow> (LexError + Token) \<times> 'l) \<Rightarrow> nat \<Rightarrow> (Expression, 'l) parsing \<Rightarrow> TokenType \<Rightarrow> bool
    \<Rightarrow> (Statement list \<Rightarrow> (Statement list, 'l) parsing)
    \<Rightarrow> Statement list \<Rightarrow> (Statement list, 'l) parsing" where
  "parseDeclarators_body next n expression t isPtr rest declarations p =
     pm_bind (match_token next COMMA) (\<lambda>more p1.
       if more then
         (if \<not> check_token p1 IDENTIFIER then pm_throw ''Expect identifier after ','.'' p1
          else
            (let nextName = lexeme (currentToken p1)
             in pm_bind (advance next) (\<lambda>u.
                  pm_bind (parseInitializer next n expression) (\<lambda>nextInitializer.
                    rest (declarations
                          @ [VariableDeclaration t isPtr nextName nextInitializer]))) p1))
       else pm_return declarations p1) p"

primrec parseDeclarators ::
  "('l \<Rightarrow> (LexError + Token) \<times> 'l) \<Rightarrow> nat \<Rightarrow> TokenType \<Rightarrow> bool
    \<Rightarrow> Statement list \<Rightarrow> (Statement list, 'l) parsing" where
  "parseDeclarators next 0 t isPtr = (\<lambda>declarations. out_of_fuel)"
| "parseDeclarators next (Suc n) t isPtr =
     parseDeclarators_body next n (parseExpression next n) t isPtr (parseDeclarators next n t isPtr)"

text \<open>
  \<^verbatim>\<open>parseStatement\<close>, \<^verbatim>\<open>parseBlock\<close> and \<^verbatim>\<open>parseFunctionOrVariableDeclaration\<close>
  call each other and are defined like the expression grammar; \<open>r\<close> holds them with
  one unit of fuel less and \<open>expression\<close> is \<^verbatim>\<open>parseExpression\<close>.
\<close>

record 'l StmtParsers =
  pStatement :: "(Statement, 'l) parsing"
  pBlock :: "(Statement, 'l) parsing"
  pBlock_loop :: "Statement list \<Rightarrow> (Statement, 'l) parsing"
  pFunctionOrVariableDeclaration :: "(Statement, 'l) parsing"

text \<open>The branches of \<^verbatim>\<open>parseStatement\<close> for return, if, while and for.\<close>

definition parseReturn ::
  "('l \<Rightarrow> (LexError + Token) \<times> 'l) \<Rightarrow> (Expression, 'l) parsing \<Rightarrow> (Statement, 'l) parsing" where
  "parseReturn next expression p =
     pm_bind (advance next) (\<lambda>u p1.
       pm_bind
         (if \<not> check_token p1 SEMICOLON
          then pm_bind expression (\<lambda>v. pm_return (Some v))
          else pm_return None)
         (\<lambda>v. pm_bind (consume next SEMICOLON ''Expect ';' after return value.'') (\<lambda>u.
                 pm_return (ReturnStatement v))) p1) p"

definition parseIf ::
  "('l \<Rightarrow> (LexError + Token) \<times> 'l) \<Rightarrow> (Expression, 'l) parsing \<Rightarrow> 'l StmtParsers
    \<Rightarrow> (Statement, 'l) parsing" where
  "parseIf next expression r p =
     pm_bind (advance next) (\<lambda>u.
     pm_bind (consume next LPAREN ''Expect '(' after 'if'.'') (\<lambda>u.
     pm_bind expression (\<lambda>condition.
     pm_bind (consume next RPAREN ''Expect ')' after if condition.'') (\<lambda>u.
     pm_bind (consume next LBRACE ''Expect '{' before if body.'') (\<lambda>u.
     pm_bind (pBlock r) (\<lambda>thenBranch.
     pm_bind (consume next RBRACE ''Expect '}' after if body.'') (\<lambda>u.
     pm_bind (match_token next ELSE) (\<lambda>hasElse.
       if hasElse then
         pm_bind (consume next LBRACE ''Expect '{' before else body.'') (\<lambda>u.
         pm_bind (pBlock r) (\<lambda>elseBranch.
         pm_bind (consume next RBRACE ''Expect '}' after else body.'') (\<lambda>u.
           pm_return (IfStatement condition thenBranch (Some elseBranch)))))
       else pm_return (IfStatement condition thenBranch None))))))))) p"

definition parseWhile ::
  "('l \<Rightarrow> (LexError + Token) \<times> 'l) \<Rightarrow> (Expression, 'l) parsing \<Rightarrow> 'l StmtParsers
    \<Rightarrow> (Statement, 'l) parsing" where
  "parseWhile next expression r p =
     pm_bind (advance next) (\<lambda>u.
     pm_bind (consume next LPAREN ''Expect '(' after 'while'.'') (\<lambda>u.
     pm_bind expression (\<lambda>condition.
     pm_bind (consume next RPAREN ''Expect ')' after condition.'') (\<lambda>u.
     pm_bind (consume next LBRACE ''Expect '{' before while body.'') (\<lambda>u.
     pm_bind (pBlock r) (\<lambda>body.
     pm_bind (consume next RBRACE ''Expect '}' after while body.'') (\<lambda>u.
       pm_return (WhileStatement condition body)))))))) p"

definition parseFor ::
  "('l \<Rightarrow> (LexError + Token) \<times> 'l) \<Rightarrow> (Expression, 'l) parsing \<Rightarrow> 'l StmtParsers
    \<Rightarrow> (Statement, 'l) parsing" where
  "parseFor next expression r p =
     pm_bind (advance next) (\<lambda>u.
     pm_bind (consume next LPAREN ''Expect '(' after 'for'.'') (\<lambda>u p1.
     pm_bind
       (if \<not> check_token p1 SEMICOLON then
          (if check_token p1 INT' \<or> check_token p1 FLOAT \<or> check_token p1 CHAR'
              \<or> check_token p1 BOOL \<or> check_token p1 STRING_LITERAL
              \<or> (check_token p1 IDENTIFIER \<and> lexeme (currentToken p1) = ''string'')
           then pm_bind (pFunctionOrVariableDeclaration r) (\<lambda>s. pm_return (Some s))
           else pm_bind expression (\<lambda>expr.
                  pm_bind (consume next SEMICOLON ''Expect ';' after for initializer.'') (\<lambda>u.
                    pm_return (Some (ExpressionStatement expr)))))
        else pm_bind (advance next) (\<lambda>u. pm_return None))
       (\<lambda>initializer p2.
     pm_bind
       (if \<not> check_token p2 SEMICOLON
        then pm_bind expression (\<lambda>c. pm_return (Some c))
        else pm_return None)
       (\<lambda>condition.
     pm_bind (consume next SEMICOLON ''Expect ';' after for condition.'') (\<lambda>u p3.
     pm_bind
       (if \<not> check_token p3 RPAREN
        then pm_bind expression (\<lambda>i. pm_return (Some i))
        else pm_return None)
       (\<lambda>increment.
     pm_bind (consume next RPAREN ''Expect ')' after for clauses.'') (\<lambda>u.
     pm_bind (consume next LBRACE ''Expect '{' before for body.'') (\<lambda>u.
     pm_bind (pBlock r) (\<lambda>body.
     pm_bind (consume next RBRACE ''Expect '}' after for body.'') (\<lambda>u.
       pm_return (ForStatement initializer condition increment body)))))) p3)) p2) p1)) p"

definition parseStatement_body ::
  "('l \<Rightarrow> (LexError + Token) \<times> 'l) \<Rightarrow> nat \<Rightarrow> 'l StmtParsers \<Rightarrow> (Statement, 'l) parsing" where
  "parseStatement_body next n r p =
     catch_synchronize next n
       (pm_bind (skipSemicolons next n) (\<lambda>u p1.
          if check_token p1 HASH then parsePreprocessorDirective next n p1
          else if check_token p1 USING then parseUsingDirective next p1
          else if check_token p1 RETURN then parseReturn next (parseExpression next n) p1
          else if check_token p1 IF then parseIf next (parseExpression next n) r p1
          else if check_token p1 WHILE then parseWhile next (parseExpression next n) r p1
          else if check_token p1 FOR then parseFor next (parseExpression next n) r p1
          else if check_token p1 INT' \<or> check_token p1 FLOAT \<or> check_token p1 CHAR'
                  \<or> check_token p1 VOID \<or> check_token p1 BOOL
                  \<or> check_token p1 STRING_LITERAL
                  \<or> (check_token p1 IDENTIFIER \<and> lexeme (currentToken p1) = ''string'')
            then pFunctionOrVariableDeclaration r p1
          else pm_bind (parseExpression next n) (\<lambda>expr.
                 pm_bind (consume next SEMICOLON ''Expect ';' after expression.'') (\<lambda>u.
                   pm_return (ExpressionStatement expr))) p1)) p"

definition parseBlock_body :: "'l StmtParsers \<Rightarrow> (Statement, 'l) parsing" where
  "parseBlock_body r p = pBlock_loop r [] p"

definition parseBlock_loop_body :: "'l StmtParsers \<Rightarrow> Statement list \<Rightarrow> (Statement, 'l) parsing" where
  "parseBlock_loop_body r statements p =
     (if \<not> check_token p RBRACE \<and> \<not> check_token p END_OF_FILE
      then pm_bind (pStatement r) (\<lambda>s. pBlock_loop r (statements @ [s])) p
      else pm_return (BlockStatement statements) p)"

definition parseFunctionOrVariableDeclaration_body ::
  "('l \<Rightarrow> (LexError + Token) \<times> 'l) \<Rightarrow> nat \<Rightarrow> 'l StmtParsers \<Rightarrow> (Statement, 'l) parsing" where
  "parseFunctionOrVariableDeclaration_body next n r p =
     catch_synchronize next n
       (\<lambda>p. let t = (if type (currentToken p) = IDENTIFIER
                        \<and> lexeme (currentToken p) = ''string''
                     then STRING_LITERAL else type (currentToken p))
            in pm_bind (advance next) (\<lambda>u.
                 pm_bind (match_token next MULTIPLY) (\<lambda>isPtr p1.
                   if \<not> check_token p1 IDENTIFIER
                   then pm_throw ''Expect identifier after type.'' p1
                   else
                     (let declName = lexeme (currentToken p1)
                      in pm_bind (advance next) (\<lambda>u p2.
                           if check_token p2 LPAREN then
                             pm_bind (advance next) (\<lambda>u p3.
                               pm_bind
                                 (if \<not> check_token p3 RPAREN then parseParameters next n []
                                  else pm_return [])
                                 (\<lambda>params.
                                    pm_bind (consume next RPAREN
                                               ''Expect ')' after parameters.'') (\<lambda>u.
                                    pm_bind (consume next LBRACE
                                               ''Expect '{' before function body.'') (\<lambda>u.
                                    pm_bind (pBlock r) (\<lambda>body.
                                    pm_bind (consume next RBRACE
                                               ''Expect '}' after function body.'') (\<lambda>u.
                                      pm_return (FunctionDeclaration declName t params body))))))
                                 p3) p2
                           else
                             pm_bind (parseInitializer next n (parseExpression next n))
                               (\<lambda>initializer.
                                  pm_bind (parseDeclarators next n t isPtr
                                             [VariableDeclaration t isPtr declName initializer])
                                    (\<lambda>declarations p4.
                                       if \<not> check_token p4 SEMICOLON
                                       then pm_throw ''Expect ';' after variable declaration.'' p4
                                       else pm_bind (advance next) (\<lambda>u.
                                              pm_return
                                                (if length declarations = 1 then declarations ! 0
                                                 else BlockStatement declarations)) p4)) p2) p1)))
                 p) p"

primrec stmtParsers :: "('l \<Rightarrow> (LexError + Token) \<times> 'l) \<Rightarrow> nat \<Rightarrow> 'l StmtParsers" where
  "stmtParsers next 0 =
     \<lparr>pStatement = out_of_fuel, pBlock = out_of_fuel,
      pBlock_loop = (\<lambda>statements. out_of_fuel),
      pFunctionOrVariableDeclaration = out_of_fuel\<rparr>"
| "stmtParsers next (Suc n) =
     (let r = stmtParsers next n in
     \<lparr>pStatement = parseStatement_body next n r,
      pBlock = parseBlock_body r,
      pBlock_loop = parseBlock_loop_body r,
      pFunctionOrVariableDeclaration = parseFunctionOrVariableDeclaration_body next n r\<rparr>)"

definition parseStatement :: "('l \<Rightarrow> (LexError + Token) \<times> 'l) \<Rightarrow> nat \<Rightarrow> (Statement, 'l) parsing" where
  "parseStatement next n = pStatement (stmtParsers next n)"

definition parseBlock :: "('l \<Rightarrow> (LexError + Token) \<times> 'l) \<Rightarrow> nat \<Rightarrow> (Statement, 'l) parsing" where
  "parseBlock next n = pBlock (stmtParsers next n)"

definition parseFunctionOrVariableDeclaration ::
  "('l \<Rightarrow> (LexError + Token) \<times> 'l) \<Rightarrow> nat \<Rightarrow> (Statement, 'l) parsing" where
  "parseFunctionOrVariableDeclaration next n = pFunctionOrVariableDeclaration (stmtParsers next n)"

text \<open>
  \<^verbatim>\<open>parse\<close>.  One round of its loop runs the \<^verbatim>\<open>try\<close> block; its handler prints the
  message, here appended to \<open>diagnostics\<close>, and synchronizes.  The result is the
  statements returned, or the message of an exception that leaves \<^verbatim>\<open>parse\<close> (only
  \<^verbatim>\<open>synchronize\<close> in the handler can throw one), with the diagnostics printed and the
  final state.
\<close>

type_synonym 'l parse_result =
  "((string + Statement list) \<times> string list \<times> 'l Parser) option"

definition parse_loop_body ::
  "('l \<Rightarrow> (LexError + Token) \<times> 'l) \<Rightarrow> nat \<Rightarrow> (Statement, 'l) parsing
    \<Rightarrow> (Statement list \<Rightarrow> string list \<Rightarrow> 'l Parser \<Rightarrow> 'l parse_result)
    \<Rightarrow> Statement list \<Rightarrow> string list \<Rightarrow> 'l Parser \<Rightarrow> 'l parse_result" where
  "parse_loop_body next n statement rest statements diagnostics p =
     (if \<not> check_token p END_OF_FILE then
        (case (if check_token p SEMICOLON
               then pm_bind (advance next) (\<lambda>u. pm_return None) p
               else pm_bind statement (\<lambda>s. pm_return (Some s)) p) of
           None \<Rightarrow> None
         | Some (Inr stmt, p1) \<Rightarrow>
             rest (statements @ (case stmt of Some s \<Rightarrow> [s] | None \<Rightarrow> [])) diagnostics p1
         | Some (Inl msg, p1) \<Rightarrow>
             (case synchronize next n p1 of
                None \<Rightarrow> None
              | Some (Inl msg1, p2) \<Rightarrow> Some (Inl msg1, diagnostics @ [msg], p2)
              | Some (Inr u, p2) \<Rightarrow> rest statements (diagnostics @ [msg]) p2))
      else Some (Inr statements, diagnostics, p))"

primrec parse_loop ::
  "('l \<Rightarrow> (LexError + Token) \<times> 'l) \<Rightarrow> nat
    \<Rightarrow> Statement list \<Rightarrow> string list \<Rightarrow> 'l Parser \<Rightarrow> 'l parse_result" where
  "parse_loop next 0 = (\<lambda>statements diagnostics p. None)"
| "parse_loop next (Suc n) =
     parse_loop_body next n (parseStatement next n) (parse_loop next n)"

definition parse :: "('l \<Rightarrow> (LexError + Token) \<times> 'l) \<Rightarrow> nat \<Rightarrow> 'l Parser \<Rightarrow> 'l parse_result" where
  "parse next n p = parse_loop next n [] [] p"

text \<open>
  The constructor \<^verbatim>\<open>Parser(Lexer&)\<close>: the current token starts as the default
  token and the first token is pulled.
\<close>

definition Parser_new ::
  "('l \<Rightarrow> (LexError + Token) \<times> 'l) \<Rightarrow> 'l \<Rightarrow> ((string + unit) \<times> 'l Parser) option" where
  "Parser_new next l = advance next \<lparr>lexer = l, currentToken = mkToken END_OF_FILE [] 0\<rparr>"

section \<open>Driver (main.cpp)\<close>

text \<open>
  What one run of \<^verbatim>\<open>main\<close> on a readable source file does: the exit code, the parse
  diagnostics printed, the messages of the type checker, the exception that reached the
  outer handler of \<^verbatim>\<open>main\<close>, if any, and the instructions dumped, if the emitter was run.
\<close>

record CompilerRun =
  exitCode :: nat
  parseDiagnostics :: "string list"
  semanticErrors :: "TypeError list"
  escaped :: "string option"
  emitted :: "Instruction list option"

text \<open>The parser constructed on a source text and run on it.\<close>

definition parseSource :: "nat \<Rightarrow> string \<Rightarrow> Lexer parse_result" where
  "parseSource fuel src =
     (case Parser_new getNextToken (Lexer_new src) of
        None \<Rightarrow> None
      | Some (Inl msg, p) \<Rightarrow> Some (Inl msg, [], p)
      | Some (Inr u, p) \<Rightarrow> parse getNextToken fuel p)"

definition compile :: "nat \<Rightarrow> string \<Rightarrow> CompilerRun option" where
  "compile fuel src =
     (case parseSource fuel src of
        None \<Rightarrow> None
      | Some (Inl msg, diagnostics, p1) \<Rightarrow>
          Some \<lparr>exitCode = 1, parseDiagnostics = diagnostics, semanticErrors = [],
                escaped = Some msg, emitted = None\<rparr>
      | Some (Inr ast, diagnostics, p1) \<Rightarrow>
          (let (errors, tc) = check ast TypeChecker_new;
               hasErrors = (errors \<noteq> [])
           in if \<not> hasErrors
              then Some \<lparr>exitCode = 0, parseDiagnostics = diagnostics, semanticErrors = [],
                         escaped = None,
                         emitted = Some (instructions
                           (optimize (generate ast CodeGenerator_new)))\<rparr>
              else Some \<lparr>exitCode = 1, parseDiagnostics = diagnostics,
                         semanticErrors = errors, escaped = None, emitted = None\<rparr>))"

section \<open>Token streams\<close>

text \<open>
  A lexer that hands out the tokens of a list and then END_OF_FILE for ever, for
  statements about the parser on any sequence of tokens.  \<open>startAt ts\<close> is the parser
  that has just pulled the first token of \<open>ts\<close>.  The parser never reads the line of
  a token.
\<close>

fun listNext :: "Token list \<Rightarrow> (LexError + Token) \<times> Token list" where
  "listNext [] = (Inr (mkToken END_OF_FILE [] 0), [])"
| "listNext (t # ts) = (Inr t, ts)"

definition startAt :: "Token list \<Rightarrow> Token list Parser" where
  "startAt ts = \<lparr>lexer = snd (listNext ts), currentToken = projr (fst (listNext ts))\<rparr>"

subsection \<open>Two token streams that differ behind an expression\<close>

text \<open>
  \<open>parserAt S i\<close> is the parser that has pulled the token at position \<open>i\<close> of the
  list \<open>S\<close>.  \<open>twin S S' k\<close>: the lists \<open>S\<close> and \<open>S'\<close> have the same tokens before
  position \<open>k\<close>, where \<open>S\<close> has a semicolon and \<open>S'\<close> a right parenthesis.
\<close>

definition parserAt :: "Token list \<Rightarrow> nat \<Rightarrow> Token list Parser" where
  "parserAt S i = startAt (drop i S)"

definition twin :: "Token list \<Rightarrow> Token list \<Rightarrow> nat \<Rightarrow> bool" where
  "twin S S' k \<longleftrightarrow>
     k < length S \<and> k < length S' \<and> take k S = take k S'
     \<and> type (S ! k) = SEMICOLON \<and> type (S' ! k) = RPAREN"

text \<open>
  \<open>forward m\<close>: the parsing function \<open>m\<close> only moves the parser on through the list.
  \<open>follows S S' k m\<close>: a run of \<open>m\<close> on \<open>S\<close> that stops at or before position \<open>k\<close> (before
  it, when it ends in a throw) is a run of \<open>m\<close> on \<open>S'\<close> too, with the same result.
  \<open>steady\<close> is both.  \<open>moves S k m\<close>: started at position \<open>k\<close> of \<open>S\<close>, \<open>m\<close> does not
  return a value there; \<open>leaves S k m\<close>: it ends behind position \<open>k\<close>.
\<close>

definition forward :: "('a, Token list) parsing \<Rightarrow> bool" where
  "forward m \<longleftrightarrow> (\<forall>S i r q. m (parserAt S i) = Some (r, q) \<longrightarrow> (\<exists>j\<ge>i. q = parserAt S j))"

definition follows :: "Token list \<Rightarrow> Token list \<Rightarrow> nat \<Rightarrow> ('a, Token list) parsing \<Rightarrow> bool" where
  "follows S S' k m \<longleftrightarrow>
     (\<forall>i j r. j \<le> k \<longrightarrow> m (parserAt S i) = Some (r, parserAt S j) \<longrightarrow> (isl r \<longrightarrow> j < k)
        \<longrightarrow> m (parserAt S' i) = Some (r, parserAt S' j))"

definition moves :: "Token list \<Rightarrow> nat \<Rightarrow> ('a, Token list) parsing \<Rightarrow> bool" where
  "moves S k m \<longleftrightarrow> (\<forall>a. m (parserAt S k) \<noteq> Some (Inr a, parserAt S k))"

definition steady :: "Token list \<Rightarrow> Token list \<Rightarrow> nat \<Rightarrow> ('a, Token list) parsing \<Rightarrow> bool" where
  "steady S S' k m \<longleftrightarrow> forward m \<and> follows S S' k m"

definition leaves :: "Token list \<Rightarrow> nat \<Rightarrow> ('a, Token list) parsing \<Rightarrow> bool" where
  "leaves S k m \<longleftrightarrow> (\<forall>r q. m (parserAt S k) = Some (r, q) \<longrightarrow> (\<exists>j>k. q = parserAt S j))"

text \<open>\<open>fails m\<close>: at a semicolon, \<open>m\<close> returns no value.\<close>

definition fails :: "('a, 'l) parsing \<Rightarrow> bool" where
  "fails m \<longleftrightarrow> (\<forall>p a q. type (currentToken p) = SEMICOLON \<longrightarrow> m p \<noteq> Some (Inr a, q))"

definition failsR :: "'l ExprParsers \<Rightarrow> bool" where
  "failsR r \<longleftrightarrow>
     fails (pPrimary r) \<and> fails (pFactor r) \<and> fails (pTerm r) \<and> fails (pComparison r)
     \<and> fails (pEquality r) \<and> fails (pLogicalAnd r) \<and> fails (pLogicalOr r)
     \<and> fails (pAssignment r) \<and> fails (pExpression r)"

text \<open>\<open>steadyR\<close>: all the functions of the expression grammar are steady.\<close>

definition steadyR :: "Token list \<Rightarrow> Token list \<Rightarrow> nat \<Rightarrow> Token list ExprParsers \<Rightarrow> bool" where
  "steadyR S S' k r \<longleftrightarrow>
     steady S S' k (pExpression r) \<and> steady S S' k (pAssignment r)
     \<and> steady S S' k (pLogicalOr r) \<and> (\<forall>e. steady S S' k (pLogicalOr_loop r e))
     \<and> steady S S' k (pLogicalAnd r) \<and> (\<forall>e. steady S S' k (pLogicalAnd_loop r e))
     \<and> steady S S' k (pEquality r) \<and> (\<forall>e. steady S S' k (pEquality_loop r e))
     \<and> steady S S' k (pComparison r) \<and> (\<forall>e. steady S S' k (pComparison_loop r e))
     \<and> steady S S' k (pTerm r) \<and> (\<forall>e. steady S S' k (pTerm_loop r e))
     \<and> steady S S' k (pFactor r) \<and> (\<forall>e. steady S S' k (pFactor_loop r e))
     \<and> steady S S' k (pPrimary r) \<and> (\<forall>a. steady S S' k (pArguments r a))
     \<and> (\<forall>e. steady S S' k (pStream_loop r e)) \<and> (\<forall>a. leaves S k (pArguments r a))"

subsection \<open>Unfolding the parser by one unit of fuel\<close>

lemma stmtParsers_Suc:
  "pStatement (stmtParsers next (Suc n)) = parseStatement_body next n (stmtParsers next n)"
  "pBlock (stmtParsers next (Suc n)) = parseBlock_body (stmtParsers next n)"
  "pBlock_loop (stmtParsers next (Suc n)) = parseBlock_loop_body (stmtParsers next n)"
  "pFunctionOrVariableDeclaration (stmtParsers next (Suc n))
     = parseFunctionOrVariableDeclaration_body next n (stmtParsers next n)"
  by (simp_all add: Let_def)

lemma stmtParsers_0:
  "pStatement (stmtParsers next 0) = out_of_fuel"
  "pBlock (stmtParsers next 0) = out_of_fuel"
  "pBlock_loop (stmtParsers next 0) statements = out_of_fuel"
  "pFunctionOrVariableDeclaration (stmtParsers next 0) = out_of_fuel"
  by simp_all

declare stmtParsers.simps [simp del]

lemma stmtParsers_numeral:
  "pStatement (stmtParsers next (numeral k))
     = parseStatement_body next (pred_numeral k) (stmtParsers next (pred_numeral k))"
  "pBlock (stmtParsers next (numeral k)) = parseBlock_body (stmtParsers next (pred_numeral k))"
  "pBlock_loop (stmtParsers next (numeral k))
     = parseBlock_loop_body (stmtParsers next (pred_numeral k))"
  "pFunctionOrVariableDeclaration (stmtParsers next (numeral k))
     = parseFunctionOrVariableDeclaration_body next (pred_numeral k)
         (stmtParsers next (pred_numeral k))"
  by (simp_all only: numeral_eq_Suc stmtParsers_Suc)

lemma loops_numeral:
  "synchronize_loop next (numeral k) p
     = synchronize_loop_body next (synchronize_loop next (pred_numeral k)) p"
  "skipArgument_loop next (numeral k) p
     = skipArgument_loop_body next (skipArgument_loop next (pred_numeral k)) p"
  "skipSemicolons next (numeral k) p
     = skipSemicolons_body next (skipSemicolons next (pred_numeral k)) p"
  "includeHeader_loop next (numeral k) header p
     = includeHeader_loop_body next (includeHeader_loop next (pred_numeral k)) header p"
  "parseParameters next (numeral k) params p
     = parseParameters_body next (parseParameters next (pred_numeral k)) params p"
  "parseDeclarators next (numeral k) t isPtr declarations p
     = parseDeclarators_body next (pred_numeral k) (parseExpression next (pred_numeral k)) t isPtr
         (parseDeclarators next (pred_numeral k) t isPtr) declarations p"
  "parse_loop next (numeral k) statements diagnostics p
     = parse_loop_body next (pred_numeral k) (parseStatement next (pred_numeral k))
         (parse_loop next (pred_numeral k)) statements diagnostics p"
  by (simp_all only: numeral_eq_Suc synchronize_loop.simps skipArgument_loop.simps
      skipSemicolons.simps includeHeader_loop.simps parseParameters.simps
      parseDeclarators.simps parse_loop.simps)

lemma loops_Suc:
  "synchronize_loop next (Suc n) p = synchronize_loop_body next (synchronize_loop next n) p"
  "skipArgument_loop next (Suc n) p = skipArgument_loop_body next (skipArgument_loop next n) p"
  "skipSemicolons next (Suc n) p = skipSemicolons_body next (skipSemicolons next n) p"
  "includeHeader_loop next (Suc n) header p
     = includeHeader_loop_body next (includeHeader_loop next n) header p"
  "parseParameters next (Suc n) params p
     = parseParameters_body next (parseParameters next n) params p"
  "parseDeclarators next (Suc n) t isPtr declarations p
     = parseDeclarators_body next n (parseExpression next n) t isPtr
         (parseDeclarators next n t isPtr) declarations p"
  "parse_loop next (Suc n) statements diagnostics p
     = parse_loop_body next n (parseStatement next n) (parse_loop next n) statements diagnostics p"
  by simp_all

lemma loops_0:
  "synchronize_loop next 0 p = None"
  "skipArgument_loop next 0 p = None"
  "skipSemicolons next 0 p = None"
  "includeHeader_loop next 0 header p = None"
  "parseParameters next 0 params p = None"
  "parseDeclarators next 0 t isPtr declarations p = None"
  "parse_loop next 0 statements diagnostics p = None"
  by (simp_all add: out_of_fuel_def)

declare synchronize_loop.simps [simp del] skipArgument_loop.simps [simp del]
  skipSemicolons.simps [simp del] includeHeader_loop.simps [simp del]
  parseParameters.simps [simp del] parseDeclarators.simps [simp del] parse_loop.simps [simp del]

text \<open>The rules that run the parser on a given input, step by step.\<close>

lemmas parser_functions =
  parseExpression_def parseAssignment_def parseLogicalOr_def parseLogicalAnd_def
  parseEquality_def parseComparison_def parseTerm_def parseFactor_def parsePrimary_def
  parseStatement_def parseBlock_def parseFunctionOrVariableDeclaration_def parse_def

lemmas parser_bodies =
  parseExpression_body_def parseAssignment_body_def parseLogicalOr_body_def
  parseLogicalOr_loop_body_def parseLogicalAnd_body_def parseLogicalAnd_loop_body_def
  parseEquality_body_def parseEquality_loop_body_def parseComparison_body_def
  parseComparison_loop_body_def parseTerm_body_def parseTerm_loop_body_def parseFactor_body_def
  parseFactor_loop_body_def parsePrimary_body_def parseArguments_body_def
  parseStream_loop_body_def synchronize_loop_body_def skipArgument_loop_body_def
  skipSemicolons_body_def includeHeader_loop_body_def parsePreprocessorDirective_def
  parseUsingDirective_def parseParameters_body_def parseInitializer_def
  parseDeclarators_body_def parseReturn_def parseIf_def parseWhile_def parseFor_def
  parseStatement_body_def parseBlock_body_def parseBlock_loop_body_def
  parseFunctionOrVariableDeclaration_body_def parse_loop_body_def

lemmas parser_steps =
  pm_bind_def pm_return_def pm_throw_def out_of_fuel_def advance_def check_token_def
  pm_peek_def pm_try_def match_token_def consume_def catch_synchronize_def synchronize_def binaryOp_def
  Parser_new_def

lemmas parser_run =
  parser_functions parser_bodies parser_steps
  exprParsers_numeral exprParsers_Suc exprParsers_0
  stmtParsers_numeral stmtParsers_Suc stmtParsers_0
  loops_numeral loops_Suc loops_0

text \<open>The parse of \<^verbatim>\<open>void f() { x; }\<close>: a function whose body uses an undeclared name.\<close>

definition leak_program :: "Statement list" where
  "leak_program =
     [FunctionDeclaration ''f'' VOID []
        (BlockStatement [ExpressionStatement (IdentifierExpression ''x'')])]"

section \<open>Properties of the peephole pass\<close>

lemma erase_twice:
  "it + 1 < length ins \<Longrightarrow> erase it (erase it ins) = take it ins @ drop (it + 2) ins"
  by (simp add: erase_def min_def)

lemma peephole_scan_keep:
  "\<not> (opcode i = LOAD \<and> rest \<noteq> [] \<and> opcode (hd rest) = STORE) \<Longrightarrow>
   peephole_scan (i # rest) = i # peephole_scan rest"
  by (cases rest) auto

lemma optimize_loop_scan:
  "it \<le> length ins \<Longrightarrow> optimize_loop ins it = take it ins @ peephole_scan (drop it ins)"
proof (induction ins it rule: optimize_loop.induct)
  case (1 ins it)
  show ?case
  proof (cases "it < length ins")
    case False
    with "1.prems" show ?thesis by (simp add: optimize_loop.simps)
  next
    case inside: True
    then have here: "drop it ins = ins ! it # drop (Suc it) ins"
      by (simp add: Cons_nth_drop_Suc)
    show ?thesis
    proof (cases "opcode (ins ! it) = LOAD \<and> it + 1 < length ins \<and> opcode (ins ! (it + 1)) = STORE")
      case pair: True
      then have next_one: "drop (Suc it) ins = ins ! (it + 1) # drop (it + 2) ins"
        by (simp add: Cons_nth_drop_Suc)
      have shorter: "it \<le> length (erase it (erase it ins))"
        using pair by (auto simp: erase_twice)
      have "optimize_loop ins it = optimize_loop (erase it (erase it ins)) it"
        using inside pair by (subst optimize_loop.simps) simp
      also have "\<dots> = take it (erase it (erase it ins)) @
                       peephole_scan (drop it (erase it (erase it ins)))"
        using "1.IH"(1) [OF inside pair shorter] .
      also have "\<dots> = take it ins @ peephole_scan (drop (it + 2) ins)"
        using pair by (simp add: erase_twice)
      also have "\<dots> = take it ins @ peephole_scan (drop it ins)"
        using pair by (simp add: here next_one)
      finally show ?thesis .
    next
      case keep: False
      have hd_rest: "drop (Suc it) ins \<noteq> [] \<Longrightarrow> hd (drop (Suc it) ins) = ins ! (it + 1)"
        by (simp add: hd_drop_conv_nth)
      have "optimize_loop ins it = optimize_loop ins (it + 1)"
        using inside keep by (subst optimize_loop.simps) auto
      also have "\<dots> = take (it + 1) ins @ peephole_scan (drop (it + 1) ins)"
        using "1.IH"(2) [OF inside keep] inside by simp
      also have "\<dots> = take it ins @ (ins ! it # peephole_scan (drop (Suc it) ins))"
        using inside by (simp add: take_Suc_conv_app_nth)
      also have "ins ! it # peephole_scan (drop (Suc it) ins) = peephole_scan (drop it ins)"
        unfolding here using keep hd_rest
        by (intro peephole_scan_keep [symmetric]) auto
      finally show ?thesis .
    qed
  qed
qed

text \<open>
  Claim C4.  The peephole pass \<open>optimize\<close> is one scan from the left that drops every
  LOAD directly followed by a STORE together with that STORE and goes on behind the pair:
  it computes \<open>peephole_scan\<close> and touches neither counter.  It is one pass and not a
  fixpoint: from LOAD, LOAD, STORE, STORE it leaves LOAD, STORE, an adjacency made by
  the deletion, which a second pass would delete.
\<close>

theorem optimize_is_single_scan:
  "instructions (optimize g) = peephole_scan (instructions g)
   \<and> tempVarCounter (optimize g) = tempVarCounter g
   \<and> labelCounter (optimize g) = labelCounter g
   \<and> instructions (optimize \<lparr>instructions =
        [Instr LOAD ''a'' [] ''t1'', Instr LOAD ''b'' [] ''t2'',
         Instr STORE ''t3'' [] ''c'', Instr STORE ''t4'' [] ''d''],
        tempVarCounter = 4, labelCounter = 0\<rparr>)
      = [Instr LOAD ''a'' [] ''t1'', Instr STORE ''t4'' [] ''d'']
   \<and> instructions (optimize (optimize \<lparr>instructions =
        [Instr LOAD ''a'' [] ''t1'', Instr LOAD ''b'' [] ''t2'',
         Instr STORE ''t3'' [] ''c'', Instr STORE ''t4'' [] ''d''],
        tempVarCounter = 4, labelCounter = 0\<rparr>)) = []"
  by (simp add: optimize_def optimize_loop_scan Instr_def)

section \<open>Properties of the emitter\<close>

text \<open>
  Claim C10.  Lowering a variable declaration without initializer appends exactly one
  instruction, a STORE with the empty string as first operand and the variable's name as
  result, and changes nothing else of the emitter: no temporary is minted.  For
  \<^verbatim>\<open>int x;\<close> a fresh emitter holds that single instruction, printed as
  \<^verbatim>\<open>STORE  -> x\<close>.
\<close>

theorem declaration_without_initializer:
  "generateStatement (VariableDeclaration t p n None) g
     = g\<lparr>instructions := instructions g @ [Instr STORE [] [] n]\<rparr>
   \<and> tempVarCounter (generateStatement (VariableDeclaration t p n None) g) = tempVarCounter g
   \<and> generate [VariableDeclaration INT' False ''x'' None] CodeGenerator_new
     = \<lparr>instructions = [Instr STORE [] [] ''x''], tempVarCounter = 0, labelCounter = 0\<rparr>
   \<and> dumpCode (generate [VariableDeclaration INT' False ''x'' None] CodeGenerator_new)
     = [''  STORE  -> x'']"
  by (simp add: emplace_back_def generate_def CodeGenerator_new_def dumpCode_def
      dumpInstruction_def Instr_def)

section \<open>Properties of the symbol table\<close>

lemma scopes_enterScope: "length (scopes (enterScope st)) = Suc (length (scopes st))"
  by (simp add: enterScope_def)

lemma scopes_exitScope:
  "length (scopes (exitScope st)) = (if length (scopes st) > 1 then length (scopes st) - 1
                                    else length (scopes st))"
  by (simp add: exitScope_def)

lemma global_enterScope: "scopes st \<noteq> [] \<Longrightarrow> hd (scopes (enterScope st)) = hd (scopes st)"
  by (simp add: enterScope_def)

lemma global_exitScope: "hd (scopes (exitScope st)) = hd (scopes st)"
  by (cases "scopes st" rule: rev_cases) (auto simp: exitScope_def butlast_append hd_append)

lemma applyCalls_depth:
  "open_after d ops = Some d' \<Longrightarrow> length (scopes st) = Suc d \<Longrightarrow>
   length (scopes (applyCalls ops st)) = Suc d' \<and> hd (scopes (applyCalls ops st)) = hd (scopes st)"
proof (induction d ops arbitrary: st rule: open_after.induct)
  case (1 d)
  then show ?case by (simp add: applyCalls_def)
next
  case (2 d ops)
  have "length (scopes (enterScope st)) = Suc (Suc d)"
    using "2.prems"(2) by (simp add: scopes_enterScope)
  moreover have "scopes st \<noteq> []"
    using "2.prems"(2) by auto
  ultimately show ?case
    using "2.IH" [of "enterScope st"] "2.prems"(1)
    by (simp add: applyCalls_def global_enterScope)
next
  case (3 d ops)
  from "3.prems"(1) obtain k where d: "d = Suc k" and rest: "open_after k ops = Some d'"
    by (cases d) auto
  have "length (scopes (exitScope st)) = Suc k"
    using "3.prems"(2) d by (simp add: scopes_exitScope)
  then show ?case
    using "3.IH" [OF d rest, of "exitScope st"]
    by (simp add: applyCalls_def global_exitScope)
qed

text \<open>
  Claim C8.  \<open>exitScope\<close> never removes the global scope: with only the global scope
  left it changes nothing, and in any table with a scope it keeps the first scope and at
  least one scope.  After every balanced sequence of enter and exit calls on a freshly
  constructed table exactly one scope is live, and it is the global scope the table was
  constructed with.
\<close>

theorem scope_stack_discipline:
  "(length (scopes st) = 1 \<longrightarrow> exitScope st = st)
   \<and> (scopes st \<noteq> [] \<longrightarrow> scopes (exitScope st) \<noteq> []
        \<and> hd (scopes (exitScope st)) = hd (scopes st))
   \<and> (balanced ops \<longrightarrow> length (scopes (applyCalls ops SymbolTable_new)) = 1
        \<and> hd (scopes (applyCalls ops SymbolTable_new)) = hd (scopes SymbolTable_new))"
proof (intro conjI impI)
  assume "length (scopes st) = 1"
  then show "exitScope st = st" by (simp add: exitScope_def)
next
  assume "scopes st \<noteq> []"
  then show "scopes (exitScope st) \<noteq> []"
    by (cases "scopes st" rule: rev_cases) (auto simp: exitScope_def)
next
  show "hd (scopes (exitScope st)) = hd (scopes st)" by (rule global_exitScope)
next
  assume b: "balanced ops"
  have fresh: "length (scopes SymbolTable_new) = Suc 0"
    by (simp add: SymbolTable_new_def enterScope_def)
  from b have "open_after 0 ops = Some 0" by (simp add: balanced_def)
  from applyCalls_depth [OF this fresh]
  show "length (scopes (applyCalls ops SymbolTable_new)) = 1"
    and "hd (scopes (applyCalls ops SymbolTable_new)) = hd (scopes SymbolTable_new)"
    by simp_all
qed

theorem scope_stack_discipline_witness:
  "length (scopes SymbolTable_new) = 1
   \<and> scopes SymbolTable_new \<noteq> []
   \<and> balanced [EnterScope, EnterScope, ExitScope, ExitScope, EnterScope, ExitScope]
   \<and> exitScope SymbolTable_new = SymbolTable_new
   \<and> length (scopes (applyCalls
        [EnterScope, EnterScope, ExitScope, ExitScope, EnterScope, ExitScope]
        SymbolTable_new)) = 1"
proof -
  have one: "length (scopes SymbolTable_new) = 1"
    by (simp add: SymbolTable_new_def enterScope_def)
  have b: "balanced [EnterScope, EnterScope, ExitScope, ExitScope, EnterScope, ExitScope]"
    by (simp add: balanced_def)
  show ?thesis
    using one b
      scope_stack_discipline [of SymbolTable_new
        "[EnterScope, EnterScope, ExitScope, ExitScope, EnterScope, ExitScope]"]
    by auto
qed

section \<open>Properties of the type checker\<close>

text \<open>
  Claim C3 says that every scope the checker pushes is popped on every path, so that the
  depth of the scope stack after a top-level statement is the depth before it, errors or
  not.  The code leaves a scope by a call at the end of \<^verbatim>\<open>checkBlock\<close>,
  \<^verbatim>\<open>checkFunctionDeclaration\<close> and \<^verbatim>\<open>checkForStatement\<close>, which a throw skips.
  On \<^verbatim>\<open>void f() { x; }\<close> the first pass leaves one scope; checking the function
  throws for the undeclared \<^verbatim>\<open>x\<close> with the scope of the function and the scope of
  its block still on the stack, three in all, and with the checker still inside a
  function body; this is the state \<^verbatim>\<open>check\<close> ends in.
\<close>

theorem scope_leak_on_error:
  "length (scopes (symbolTable (snd (registerFunctions leak_program ([], TypeChecker_new))))) = 1
   \<and> fst (checkStatement (hd leak_program)
            (snd (registerFunctions leak_program ([], TypeChecker_new))))
       = Some (UndefinedVariable ''x'')
   \<and> length (scopes (symbolTable (snd (checkStatement (hd leak_program)
            (snd (registerFunctions leak_program ([], TypeChecker_new))))))) = 3
   \<and> inFunctionBody (snd (checkStatement (hd leak_program)
            (snd (registerFunctions leak_program ([], TypeChecker_new)))))
   \<and> fst (check leak_program TypeChecker_new) = [UndefinedVariable ''x'']
   \<and> length (scopes (symbolTable (snd (check leak_program TypeChecker_new)))) = 3"
  by (simp add: leak_program_def check_def TypeChecker_new_def SymbolTable_new_def
      enterScope_def SymbolTable_define_def Scope_define_def Scope_contains_def
      Symbol_function_def resolve_def Scope_resolve_def tc_enterScope_def
      defineParameters_def checkIdentifier_def)

section \<open>Properties of the lexer\<close>

text \<open>
  Claim C9 says that after a comment opener with no closer, nothing at or behind the
  opener becomes a token and the next token is END_OF_FILE.  The loop of
  \<^verbatim>\<open>skipComment\<close> runs while \<^verbatim>\<open>position + 1 < source.length()\<close>, so it stops in
  front of the last byte of the input, and \<^verbatim>\<open>getNextToken\<close> goes on from that byte:
  for \<^verbatim>\<open>/*x\<close> the next token is the identifier \<^verbatim>\<open>x\<close>, and for \<^verbatim>\<open>/* abc @\<close> the
  lexer throws on the last byte.
\<close>

theorem unterminated_comment_last_byte:
  "fst (getNextToken (Lexer_new ''/*x'')) = Inr (mkToken IDENTIFIER ''x'' 1)
   \<and> fst (getNextToken (Lexer_new ''/* abc @'')) = Inl (UnexpectedCharacter CHR ''@'')"
  by code_simp

section \<open>Properties of the parser\<close>

lemma startAt_Cons [simp]: "startAt (t # ts) = \<lparr>lexer = ts, currentToken = t\<rparr>"
  by (simp add: startAt_def)

lemma startAt_Nil: "startAt [] = \<lparr>lexer = [], currentToken = mkToken END_OF_FILE [] 0\<rparr>"
  by (simp add: startAt_def)

lemma advance_listNext:
  "advance listNext \<lparr>lexer = ts, currentToken = c\<rparr> = Some (Inr (), startAt ts)"
  by (cases ts) (simp_all add: advance_def startAt_def)

lemmas parser_steps0 =
  pm_bind_def pm_return_def pm_throw_def out_of_fuel_def check_token_def
  pm_peek_def pm_try_def match_token_def consume_def catch_synchronize_def

text \<open>
  A level of the binary operators hands the result of the level below through when the
  token behind it is none of its operators.
\<close>

lemma parseFactor_through:
  assumes "pPrimary (exprParsers next (Suc n)) p = Some (Inr ex, q)"
    and "type (currentToken q) \<noteq> MULTIPLY" "type (currentToken q) \<noteq> SLASH"
  shows "pFactor (exprParsers next (Suc (Suc n))) p = Some (Inr ex, q)"
  using assms
  by (simp add: exprParsers_Suc(13,14) parseFactor_body_def parseFactor_loop_body_def
      parser_steps0)

lemma parseTerm_through:
  assumes "pFactor (exprParsers next (Suc n)) p = Some (Inr ex, q)"
    and "type (currentToken q) \<noteq> PLUS" "type (currentToken q) \<noteq> MINUS"
  shows "pTerm (exprParsers next (Suc (Suc n))) p = Some (Inr ex, q)"
  using assms
  by (simp add: exprParsers_Suc(11,12) parseTerm_body_def parseTerm_loop_body_def
      parser_steps0)

lemma parseComparison_through:
  assumes "pTerm (exprParsers next (Suc n)) p = Some (Inr ex, q)"
    and "type (currentToken q) \<notin> {LESS, LESS_EQUAL, GREATER, GREATER_EQUAL}"
  shows "pComparison (exprParsers next (Suc (Suc n))) p = Some (Inr ex, q)"
  using assms
  by (simp add: exprParsers_Suc(9,10) parseComparison_body_def parseComparison_loop_body_def
      parser_steps0)

lemma parseEquality_through:
  assumes "pComparison (exprParsers next (Suc n)) p = Some (Inr ex, q)"
    and "type (currentToken q) \<noteq> EQUAL_EQUAL" "type (currentToken q) \<noteq> NOT_EQUAL"
  shows "pEquality (exprParsers next (Suc (Suc n))) p = Some (Inr ex, q)"
  using assms
  by (simp add: exprParsers_Suc(7,8) parseEquality_body_def parseEquality_loop_body_def
      parser_steps0)

lemma parseLogicalAnd_through:
  assumes "pEquality (exprParsers next (Suc n)) p = Some (Inr ex, q)"
    and "type (currentToken q) \<noteq> AND"
  shows "pLogicalAnd (exprParsers next (Suc (Suc n))) p = Some (Inr ex, q)"
  using assms
  by (simp add: exprParsers_Suc(5,6) parseLogicalAnd_body_def parseLogicalAnd_loop_body_def
      parser_steps0)

lemma parseLogicalOr_through:
  assumes "pLogicalAnd (exprParsers next (Suc n)) p = Some (Inr ex, q)"
    and "type (currentToken q) \<noteq> OR"
  shows "pLogicalOr (exprParsers next (Suc (Suc n))) p = Some (Inr ex, q)"
  using assms
  by (simp add: exprParsers_Suc(3,4) parseLogicalOr_body_def parseLogicalOr_loop_body_def
      parser_steps0)

text \<open>The tokens that continue an expression behind an operand.\<close>

definition continuesExpression :: "TokenType \<Rightarrow> bool" where
  "continuesExpression t =
     (t \<in> {MULTIPLY, SLASH, PLUS, MINUS, LESS, LESS_EQUAL, GREATER, GREATER_EQUAL,
           EQUAL_EQUAL, NOT_EQUAL, AND, OR, EQUAL, PLUS_EQUAL, MINUS_EQUAL, MULTIPLY_EQUAL,
           DIVIDE_EQUAL, INCREMENT, DECREMENT})"

lemma term_to_logicalOr:
  assumes "pTerm (exprParsers next (Suc n)) p = Some (Inr ex, q)"
    and "type (currentToken q) \<notin> {LESS, LESS_EQUAL, GREATER, GREATER_EQUAL,
           EQUAL_EQUAL, NOT_EQUAL, AND, OR}"
  shows "pLogicalOr (exprParsers next (Suc (Suc (Suc (Suc (Suc n)))))) p = Some (Inr ex, q)"
  using assms
  by (intro parseLogicalOr_through parseLogicalAnd_through parseEquality_through
      parseComparison_through) auto

lemma primary_to_term:
  assumes "pPrimary (exprParsers next (Suc n)) p = Some (Inr ex, q)"
    and "type (currentToken q) \<notin> {MULTIPLY, SLASH, PLUS, MINUS}"
  shows "pTerm (exprParsers next (Suc (Suc (Suc n)))) p = Some (Inr ex, q)"
  using assms
  by (intro parseTerm_through parseFactor_through) auto

lemma primary_to_logicalOr:
  assumes "pPrimary (exprParsers next (Suc n)) p = Some (Inr ex, q)"
    and "type (currentToken q) \<notin> {MULTIPLY, SLASH, PLUS, MINUS, LESS, LESS_EQUAL, GREATER,
           GREATER_EQUAL, EQUAL_EQUAL, NOT_EQUAL, AND, OR}"
  shows "pLogicalOr (exprParsers next (Suc (Suc (Suc (Suc (Suc (Suc (Suc n)))))))) p
         = Some (Inr ex, q)"
  using assms
  by (intro term_to_logicalOr primary_to_term) auto

text \<open>A name with no call, postfix operator or stream operator behind it.\<close>

lemma parsePrimary_identifier:
  assumes "type c = IDENTIFIER"
    and "type t \<notin> {INCREMENT, DECREMENT, LPAREN, LEFT_SHIFT, RIGHT_SHIFT}"
  shows "pPrimary (exprParsers listNext (Suc n)) \<lparr>lexer = t # ts, currentToken = c\<rparr>
         = Some (Inr (IdentifierExpression (lexeme c)), \<lparr>lexer = ts, currentToken = t\<rparr>)"
  using assms
  by (simp add: exprParsers_Suc(15) parsePrimary_body_def parser_steps0 advance_listNext Let_def)

text \<open>An expression in parentheses.\<close>

lemma parsePrimary_parenthesized:
  assumes "type c = LPAREN"
    and "pExpression (exprParsers listNext n) (startAt ts) = Some (Inr ex, \<lparr>lexer = ts1, currentToken = c1\<rparr>)"
    and "type c1 = RPAREN"
  shows "pPrimary (exprParsers listNext (Suc n)) \<lparr>lexer = ts, currentToken = c\<rparr>
         = Some (Inr ex, startAt ts1)"
  using assms
  by (simp add: exprParsers_Suc(15) parsePrimary_body_def parser_steps0 advance_listNext)

text \<open>An expression statement that starts with a name.\<close>

lemma parseStatement_expression:
  assumes "type c = IDENTIFIER" "lexeme c \<noteq> ''string''"
    and "pAssignment (exprParsers listNext (Suc n)) \<lparr>lexer = ts, currentToken = c\<rparr>
         = Some (Inr ex, \<lparr>lexer = ts1, currentToken = c1\<rparr>)"
    and "type c1 = SEMICOLON"
  shows "parseStatement listNext (Suc (Suc (Suc n))) \<lparr>lexer = ts, currentToken = c\<rparr>
         = Some (Inr (ExpressionStatement ex), startAt ts1)"
  using assms
  by (simp add: parseStatement_def stmtParsers_Suc(1) parseStatement_body_def
      loops_Suc(3) skipSemicolons_body_def parseExpression_def exprParsers_Suc(1)
      parseExpression_body_def parser_steps0 advance_listNext)

text \<open>The compound assignment \<^verbatim>\<open>x op= e\<close>, given the parse of \<^verbatim>\<open>e\<close>.\<close>

lemma parseAssignment_compound:
  assumes "type tx = IDENTIFIER"
    and "type tkop \<in> {PLUS_EQUAL, MINUS_EQUAL, MULTIPLY_EQUAL, DIVIDE_EQUAL}"
    and e: "pAssignment (exprParsers listNext (Suc (Suc (Suc (Suc (Suc (Suc (Suc n))))))))
              (startAt es) = Some (Inr ex, q)"
  shows "pAssignment (exprParsers listNext (Suc (Suc (Suc (Suc (Suc (Suc (Suc (Suc n)))))))))
           \<lparr>lexer = tkop # es, currentToken = tx\<rparr>
         = Some (Inr (AssignExpression (lexeme tx) EQUAL
                        (BinaryExpression (IdentifierExpression (lexeme tx))
                           (binaryOp (type tkop)) ex)), q)"
proof -
  have name: "pLogicalOr (exprParsers listNext (Suc (Suc (Suc (Suc (Suc (Suc (Suc n))))))))
                \<lparr>lexer = tkop # es, currentToken = tx\<rparr>
              = Some (Inr (IdentifierExpression (lexeme tx)), \<lparr>lexer = es, currentToken = tkop\<rparr>)"
    using assms(1,2)
    by (intro primary_to_logicalOr parsePrimary_identifier) auto
  show ?thesis
    using assms(2) e name
    by (simp add: exprParsers_Suc(2) parseAssignment_body_def parser_steps0 advance_listNext
          Let_def)
       auto
qed

text \<open>
  The plain assignment \<^verbatim>\<open>x = x op (e)\<close>, given the parse of \<^verbatim>\<open>e\<close> between the
  parentheses.  First its right-hand side \<^verbatim>\<open>x op (e)\<close>, for an operator of a term and
  for an operator of a factor.
\<close>

lemma parseLogicalOr_name_op_parenthesized:
  assumes "type tx = IDENTIFIER"
    and "type tkop \<in> {PLUS, MINUS, MULTIPLY, SLASH}"
    and "type tlp = LPAREN"
    and e: "pExpression (exprParsers listNext n) (startAt es)
            = Some (Inr ex, \<lparr>lexer = t # ts, currentToken = trp\<rparr>)"
    and "type trp = RPAREN"
    and "\<not> continuesExpression (type t)"
  shows "pLogicalOr (exprParsers listNext (Suc (Suc (Suc (Suc (Suc (Suc (Suc (Suc n)))))))))
           \<lparr>lexer = tkop # tlp # es, currentToken = tx\<rparr>
         = Some (Inr (BinaryExpression (IdentifierExpression (lexeme tx)) (type tkop) ex),
                 \<lparr>lexer = ts, currentToken = t\<rparr>)"
proof -
  let ?after = "\<lparr>lexer = ts, currentToken = t\<rparr>"
  let ?atOp = "\<lparr>lexer = tlp # es, currentToken = tkop\<rparr>"
  let ?atParen = "\<lparr>lexer = es, currentToken = tlp\<rparr>"
  have t: "type t \<notin> {MULTIPLY, SLASH, PLUS, MINUS, LESS, LESS_EQUAL, GREATER, GREATER_EQUAL,
             EQUAL_EQUAL, NOT_EQUAL, AND, OR}"
    using assms(6) by (auto simp: continuesExpression_def)
  have paren: "pPrimary (exprParsers listNext (Suc n)) ?atParen = Some (Inr ex, ?after)"
    using parsePrimary_parenthesized [OF assms(3) e assms(5)] by simp
  have name: "\<And>k. pPrimary (exprParsers listNext (Suc k))
                \<lparr>lexer = tkop # tlp # es, currentToken = tx\<rparr>
              = Some (Inr (IdentifierExpression (lexeme tx)), ?atOp)"
    using assms(1,2) by (intro parsePrimary_identifier) auto
  have "pTerm (exprParsers listNext (Suc (Suc (Suc (Suc n)))))
          \<lparr>lexer = tkop # tlp # es, currentToken = tx\<rparr>
        = Some (Inr (BinaryExpression (IdentifierExpression (lexeme tx)) (type tkop) ex), ?after)"
  proof (cases "type tkop \<in> {PLUS, MINUS}")
    case True
    have operand: "pFactor (exprParsers listNext (Suc (Suc n))) ?atParen = Some (Inr ex, ?after)"
      using paren t by (intro parseFactor_through) auto
    have left: "pFactor (exprParsers listNext (Suc (Suc (Suc n))))
                  \<lparr>lexer = tkop # tlp # es, currentToken = tx\<rparr>
                = Some (Inr (IdentifierExpression (lexeme tx)), ?atOp)"
      using name True by (intro parseFactor_through) auto
    show ?thesis
      using True t operand left
      by (simp add: exprParsers_Suc(11,12) parseTerm_body_def parseTerm_loop_body_def
          parser_steps0 advance_listNext)
  next
    case False
    with assms(2) have op: "type tkop \<in> {MULTIPLY, SLASH}" by auto
    have "pFactor (exprParsers listNext (Suc (Suc (Suc n))))
            \<lparr>lexer = tkop # tlp # es, currentToken = tx\<rparr>
          = Some (Inr (BinaryExpression (IdentifierExpression (lexeme tx)) (type tkop) ex), ?after)"
      using op t paren name [of "Suc n"]
      by (simp add: exprParsers_Suc(13,14) parseFactor_body_def parseFactor_loop_body_def
          parser_steps0 advance_listNext)
    then show ?thesis
      using t by (intro parseTerm_through) auto
  qed
  then show ?thesis
    using t by (intro term_to_logicalOr) auto
qed

lemma parseAssignment_plain:
  assumes "type tx = IDENTIFIER" "type tx2 = IDENTIFIER"
    and "type teq = EQUAL"
    and "type tkop \<in> {PLUS, MINUS, MULTIPLY, SLASH}"
    and "type tlp = LPAREN"
    and e: "pExpression (exprParsers listNext n) (startAt es)
            = Some (Inr ex, \<lparr>lexer = t # ts, currentToken = trp\<rparr>)"
    and "type trp = RPAREN"
    and "\<not> continuesExpression (type t)"
  shows "pAssignment (exprParsers listNext
           (Suc (Suc (Suc (Suc (Suc (Suc (Suc (Suc (Suc (Suc n)))))))))))
           \<lparr>lexer = teq # tx2 # tkop # tlp # es, currentToken = tx\<rparr>
         = Some (Inr (AssignExpression (lexeme tx) EQUAL
                        (BinaryExpression (IdentifierExpression (lexeme tx2)) (type tkop) ex)),
                 \<lparr>lexer = ts, currentToken = t\<rparr>)"
proof -
  let ?n8 = "Suc (Suc (Suc (Suc (Suc (Suc (Suc (Suc n)))))))"
  have t: "type t \<notin> {EQUAL, PLUS_EQUAL, MINUS_EQUAL, MULTIPLY_EQUAL, DIVIDE_EQUAL,
             INCREMENT, DECREMENT}"
    using assms(8) by (auto simp: continuesExpression_def)
  have rhs: "pLogicalOr (exprParsers listNext ?n8) \<lparr>lexer = tkop # tlp # es, currentToken = tx2\<rparr>
             = Some (Inr (BinaryExpression (IdentifierExpression (lexeme tx2)) (type tkop) ex),
                     \<lparr>lexer = ts, currentToken = t\<rparr>)"
    using assms by (intro parseLogicalOr_name_op_parenthesized) auto
  have inner: "pAssignment (exprParsers listNext (Suc ?n8))
                 \<lparr>lexer = tkop # tlp # es, currentToken = tx2\<rparr>
               = Some (Inr (BinaryExpression (IdentifierExpression (lexeme tx2)) (type tkop) ex),
                       \<lparr>lexer = ts, currentToken = t\<rparr>)"
    using rhs t
    by (simp add: exprParsers_Suc(2) parseAssignment_body_def parser_steps0)
  have name: "pLogicalOr (exprParsers listNext (Suc ?n8))
                \<lparr>lexer = teq # tx2 # tkop # tlp # es, currentToken = tx\<rparr>
              = Some (Inr (IdentifierExpression (lexeme tx)),
                      \<lparr>lexer = tx2 # tkop # tlp # es, currentToken = teq\<rparr>)"
    using assms(1,3)
    by (intro primary_to_logicalOr parsePrimary_identifier) auto
  show ?thesis
    using assms(3) inner name
    by (simp add: exprParsers_Suc(2) parseAssignment_body_def parser_steps0 advance_listNext)
qed

subsection \<open>The token behind an expression\<close>

text \<open>
  An expression that the parser reads up to a semicolon, without pulling the semicolon
  in, it reads in the same way up to a right parenthesis.  Where the expression grammar
  tells the two tokens apart (the tests for \<^verbatim>\<open>)\<close> in a call and in \<^verbatim>\<open>consume\<close>, the
  test for \<^verbatim>\<open>;\<close> in \<^verbatim>\<open>synchronize\<close>, the operator that the loop over a chain of stream
  operators reads), the parser at the semicolon pulls it in or throws.
\<close>

lemma parserAt_inside: "i < length S \<Longrightarrow> parserAt S i = \<lparr>lexer = drop (Suc i) S, currentToken = S ! i\<rparr>"
  by (simp add: parserAt_def Cons_nth_drop_Suc [symmetric])

lemma parserAt_outside: "length S \<le> i \<Longrightarrow> parserAt S i = startAt []"
  by (simp add: parserAt_def)

lemma lexer_parserAt: "lexer (parserAt S i) = drop (Suc i) S"
  by (cases "i < length S") (simp_all add: parserAt_inside parserAt_outside startAt_Nil)

lemma advance_parserAt: "advance listNext (parserAt S i) = Some (Inr (), parserAt S (Suc i))"
proof (cases "i < length S")
  case True
  then show ?thesis by (simp add: parserAt_inside advance_listNext) (simp add: parserAt_def)
next
  case False
  then show ?thesis by (simp add: parserAt_outside startAt_Nil advance_listNext)
qed

lemma parserAt_0: "parserAt S 0 = startAt S"
  by (simp add: parserAt_def)

lemma parserAt_append: "parserAt (e @ t # post) (length e) = startAt (t # post)"
  by (simp add: parserAt_def)

lemma parserAt_inj:
  assumes "k < length S" "type (S ! k) \<noteq> END_OF_FILE" "j \<le> k" "parserAt S j = parserAt S j'"
  shows "j' = j"
proof (rule ccontr)
  assume ne: "j' \<noteq> j"
  from assms(4) have "lexer (parserAt S j) = lexer (parserAt S j')" by simp
  then have len: "length S - Suc j = length S - Suc j'" 
    by (simp add: lexer_parserAt) (metis length_drop)
  show False
  proof (cases "j' < length S")
    case True
    with len assms(1,3) ne show False by arith
  next
    case False
    with len assms(1,3) have "j = k" by arith
    then show False
      using False assms(1,2,4) by (simp add: parserAt_inside parserAt_outside startAt_Nil mkToken_def)
  qed
qed

lemma twin_inj: "twin S S' k \<Longrightarrow> j \<le> k \<Longrightarrow> parserAt S j = parserAt S j' \<Longrightarrow> j' = j"
  by (rule parserAt_inj [of k S]) (simp_all add: twin_def)

lemma twin_token: "twin S S' k \<Longrightarrow> i < k \<Longrightarrow> currentToken (parserAt S i) = currentToken (parserAt S' i)"
  unfolding twin_def
  by (simp add: parserAt_inside) (metis nth_take)

lemma twin_token_k:
  "twin S S' k \<Longrightarrow> currentToken (parserAt S k) = S ! k"
  "twin S S' k \<Longrightarrow> currentToken (parserAt S' k) = S' ! k"
  by (simp_all add: twin_def parserAt_inside)

lemma forwardD: "forward m \<Longrightarrow> m (parserAt S i) = Some (r, q) \<Longrightarrow> \<exists>j\<ge>i. q = parserAt S j"
  unfolding forward_def by blast

lemma followsI:
  assumes "\<And>i j r. j \<le> k \<Longrightarrow> m (parserAt S i) = Some (r, parserAt S j) \<Longrightarrow> (isl r \<Longrightarrow> j < k)
             \<Longrightarrow> m (parserAt S' i) = Some (r, parserAt S' j)"
  shows "follows S S' k m"
  unfolding follows_def using assms by blast

lemma followsD:
  "follows S S' k m \<Longrightarrow> j \<le> k \<Longrightarrow> m (parserAt S i) = Some (r, parserAt S j) \<Longrightarrow> (isl r \<Longrightarrow> j < k)
   \<Longrightarrow> m (parserAt S' i) = Some (r, parserAt S' j)"
  unfolding follows_def by blast

lemma steady_forward: "steady S S' k m \<Longrightarrow> forward m"
  by (simp add: steady_def)

lemma steady_follows: "steady S S' k m \<Longrightarrow> follows S S' k m"
  by (simp add: steady_def)

lemma forward_pos:
  assumes "forward m" "twin S S' k" "j \<le> k" "m (parserAt S i) = Some (r, parserAt S j)"
  shows "i \<le> j"
proof -
  from forwardD [OF assms(1,4)] obtain j' where "j' \<ge> i" "parserAt S j = parserAt S j'"
    by blast
  with twin_inj [OF assms(2,3)] show ?thesis by auto
qed

lemma steady_return: "twin S S' k \<Longrightarrow> steady S S' k (pm_return a)"
  unfolding steady_def
proof
  show "forward (pm_return a)"
    unfolding forward_def pm_return_def by auto
  assume tw: "twin S S' k"
  show "follows S S' k (pm_return a)"
  proof (rule followsI)
    fix i j r
    assume "j \<le> k" "pm_return a (parserAt S i) = Some (r, parserAt S j)"
    with twin_inj [OF tw, of j i] show "pm_return a (parserAt S' i) = Some (r, parserAt S' j)"
      by (auto simp: pm_return_def)
  qed
qed

lemma steady_throw: "twin S S' k \<Longrightarrow> steady S S' k (pm_throw msg)"
  unfolding steady_def
proof
  show "forward (pm_throw msg)"
    unfolding forward_def pm_throw_def by auto
  assume tw: "twin S S' k"
  show "follows S S' k (pm_throw msg)"
  proof (rule followsI)
    fix i j r
    assume "j \<le> k" "pm_throw msg (parserAt S i) = Some (r, parserAt S j)"
    with twin_inj [OF tw, of j i] show "pm_throw msg (parserAt S' i) = Some (r, parserAt S' j)"
      by (auto simp: pm_throw_def)
  qed
qed

lemma steady_out_of_fuel: "steady S S' k out_of_fuel"
  unfolding steady_def forward_def follows_def out_of_fuel_def by simp

lemma steady_advance: "twin S S' k \<Longrightarrow> steady S S' k (advance listNext)"
  unfolding steady_def
proof
  show "forward (advance listNext)"
    unfolding forward_def
  proof (intro allI impI)
    fix S :: "Token list" and i r q
    assume "advance listNext (parserAt S i) = Some (r, q)"
    then have "q = parserAt S (Suc i)" by (simp add: advance_parserAt)
    then show "\<exists>j\<ge>i. q = parserAt S j" by (intro exI [of _ "Suc i"]) simp
  qed
  assume tw: "twin S S' k"
  show "follows S S' k (advance listNext)"
  proof (rule followsI)
    fix i j r
    assume "j \<le> k" "advance listNext (parserAt S i) = Some (r, parserAt S j)"
    with twin_inj [OF tw, of j "Suc i"] show "advance listNext (parserAt S' i) = Some (r, parserAt S' j)"
      by (auto simp: advance_parserAt)
  qed
qed

lemma steady_bind:
  assumes tw: "twin S S' k" and m: "steady S S' k m" and f: "\<And>a. steady S S' k (f a)"
  shows "steady S S' k (pm_bind m f)"
  unfolding steady_def
proof
  show "forward (pm_bind m f)"
    unfolding forward_def
  proof (intro allI impI)
    fix S i r q
    assume run: "pm_bind m f (parserAt S i) = Some (r, q)"
    show "\<exists>j\<ge>i. q = parserAt S j"
    proof (cases "m (parserAt S i)")
      case None
      with run show ?thesis by (simp add: pm_bind_def)
    next
      case (Some res)
      obtain r1 q1 where res: "res = (r1, q1)" by (cases res)
      from forwardD [OF steady_forward [OF m]] Some res obtain j1 where j1: "j1 \<ge> i" "q1 = parserAt S j1"
        by blast
      show ?thesis
      proof (cases r1)
        case (Inl msg)
        with run Some res j1 show ?thesis by (auto simp: pm_bind_def)
      next
        case (Inr a)
        with run Some res j1 have "f a (parserAt S j1) = Some (r, q)" by (simp add: pm_bind_def)
        from forwardD [OF steady_forward [OF f] this] obtain j where "j \<ge> j1" "q = parserAt S j"
          by blast
        with j1 show ?thesis by (intro exI [of _ j]) simp
      qed
    qed
  qed
  show "follows S S' k (pm_bind m f)"
  proof (rule followsI)
    fix i j r
    assume j: "j \<le> k" and run: "pm_bind m f (parserAt S i) = Some (r, parserAt S j)"
      and r: "isl r \<Longrightarrow> j < k"
    show "pm_bind m f (parserAt S' i) = Some (r, parserAt S' j)"
    proof (cases "m (parserAt S i)")
      case None
      with run show ?thesis by (simp add: pm_bind_def)
    next
      case (Some res)
      obtain r1 q1 where res: "res = (r1, q1)" by (cases res)
      from forwardD [OF steady_forward [OF m]] Some res obtain j1 where j1: "j1 \<ge> i" "q1 = parserAt S j1"
        by blast
      show ?thesis
      proof (cases r1)
        case (Inl msg)
        with run Some res j1 have eq: "r = Inl msg" "parserAt S j = parserAt S j1" by (auto simp: pm_bind_def)
        with twin_inj [OF tw j] have "j1 = j" by simp
        with Some res Inl j1 have "m (parserAt S i) = Some (Inl msg, parserAt S j)" by simp
        from followsD [OF steady_follows [OF m] j this] r eq
        have "m (parserAt S' i) = Some (Inl msg, parserAt S' j)" by simp
        with eq show ?thesis by (simp add: pm_bind_def)
      next
        case (Inr a)
        with run Some res j1 have fa: "f a (parserAt S j1) = Some (r, parserAt S j)" by (simp add: pm_bind_def)
        from forward_pos [OF steady_forward [OF f] tw j fa] have "j1 \<le> j" .
        with j have "j1 \<le> k" by simp
        from Some res Inr j1 have "m (parserAt S i) = Some (Inr a, parserAt S j1)" by simp
        from followsD [OF steady_follows [OF m] \<open>j1 \<le> k\<close> this]
        have "m (parserAt S' i) = Some (Inr a, parserAt S' j1)" by simp
        moreover from followsD [OF steady_follows [OF f] j fa] r
        have "f a (parserAt S' j1) = Some (r, parserAt S' j)" by simp
        ultimately show ?thesis by (simp add: pm_bind_def)
      qed
    qed
  qed
qed

lemma leaves_moves:
  assumes "twin S S' k" "leaves S k m"
  shows "moves S k m"
  unfolding moves_def
proof (intro allI notI)
  fix a
  assume "m (parserAt S k) = Some (Inr a, parserAt S k)"
  with assms(2) obtain j where "j > k" "parserAt S k = parserAt S j"
    unfolding leaves_def by blast
  with twin_inj [OF assms(1), of k j] show False by simp
qed

lemma moves_throw: "moves S k (pm_throw msg)"
  unfolding moves_def pm_throw_def by simp

lemma leaves_advance: "leaves S k (advance listNext)"
  unfolding leaves_def by (auto simp: advance_parserAt intro!: exI [of _ "Suc k"])

lemma leaves_bind:
  assumes "leaves S k m" "\<And>a. forward (f a)"
  shows "leaves S k (pm_bind m f)"
  unfolding leaves_def
proof (intro allI impI)
  fix r q
  assume run: "pm_bind m f (parserAt S k) = Some (r, q)"
  show "\<exists>j>k. q = parserAt S j"
  proof (cases "m (parserAt S k)")
    case None
    with run show ?thesis by (simp add: pm_bind_def)
  next
    case (Some res)
    obtain r1 q1 where res: "res = (r1, q1)" by (cases res)
    from assms(1) Some res obtain j1 where j1: "j1 > k" "q1 = parserAt S j1"
      unfolding leaves_def by blast
    show ?thesis
    proof (cases r1)
      case (Inl msg)
      with run Some res j1 show ?thesis by (auto simp: pm_bind_def)
    next
      case (Inr a)
      with run Some res j1 have "f a (parserAt S j1) = Some (r, q)" by (simp add: pm_bind_def)
      from forwardD [OF assms(2) this] obtain j where "j \<ge> j1" "q = parserAt S j"
        by blast
      with j1 show ?thesis by (intro exI [of _ j]) simp
    qed
  qed
qed

lemma leaves_peek:
  assumes "twin S S' k" "leaves S k (f (S ! k))"
  shows "leaves S k (pm_peek f)"
  using assms(2) unfolding leaves_def pm_peek_def by (simp add: twin_token_k [OF assms(1)])

lemma steady_if: "steady S S' k m1 \<Longrightarrow> steady S S' k m2 \<Longrightarrow> steady S S' k (if b then m1 else m2)"
  by simp

lemma steady_try:
  assumes tw: "twin S S' k" and m: "steady S S' k m" and h: "\<And>msg. steady S S' k (h msg)"
    and mv: "\<And>msg. moves S k (h msg)"
  shows "steady S S' k (pm_try m h)"
  unfolding steady_def
proof
  show "forward (pm_try m h)"
    unfolding forward_def
  proof (intro allI impI)
    fix S i r q
    assume run: "pm_try m h (parserAt S i) = Some (r, q)"
    show "\<exists>j\<ge>i. q = parserAt S j"
    proof (cases "m (parserAt S i)")
      case None
      with run show ?thesis by (simp add: pm_try_def)
    next
      case (Some res)
      obtain r1 q1 where res: "res = (r1, q1)" by (cases res)
      from forwardD [OF steady_forward [OF m]] Some res obtain j1 where j1: "j1 \<ge> i" "q1 = parserAt S j1"
        by blast
      show ?thesis
      proof (cases r1)
        case (Inr a)
        with run Some res j1 show ?thesis by (auto simp: pm_try_def)
      next
        case (Inl msg)
        with run Some res j1 have "h msg (parserAt S j1) = Some (r, q)" by (simp add: pm_try_def)
        from forwardD [OF steady_forward [OF h] this] obtain j where "j \<ge> j1" "q = parserAt S j"
          by blast
        with j1 show ?thesis by (intro exI [of _ j]) simp
      qed
    qed
  qed
  show "follows S S' k (pm_try m h)"
  proof (rule followsI)
    fix i j r
    assume j: "j \<le> k" and run: "pm_try m h (parserAt S i) = Some (r, parserAt S j)"
      and r: "isl r \<Longrightarrow> j < k"
    show "pm_try m h (parserAt S' i) = Some (r, parserAt S' j)"
    proof (cases "m (parserAt S i)")
      case None
      with run show ?thesis by (simp add: pm_try_def)
    next
      case (Some res)
      obtain r1 q1 where res: "res = (r1, q1)" by (cases res)
      from forwardD [OF steady_forward [OF m]] Some res obtain j1 where j1: "j1 \<ge> i" "q1 = parserAt S j1"
        by blast
      show ?thesis
      proof (cases r1)
        case (Inr a)
        with run Some res j1 have eq: "r = Inr a" "parserAt S j = parserAt S j1" by (auto simp: pm_try_def)
        with twin_inj [OF tw j] have "j1 = j" by simp
        with Some res Inr j1 have "m (parserAt S i) = Some (Inr a, parserAt S j)" by simp
        from followsD [OF steady_follows [OF m] j this]
        have "m (parserAt S' i) = Some (Inr a, parserAt S' j)" by simp
        with eq show ?thesis by (simp add: pm_try_def)
      next
        case (Inl msg)
        with run Some res j1 have hm: "h msg (parserAt S j1) = Some (r, parserAt S j)" by (simp add: pm_try_def)
        from forward_pos [OF steady_forward [OF h] tw j hm] have le: "j1 \<le> j" .
        have "j1 < k"
        proof (rule ccontr)
          assume "\<not> j1 < k"
          with le j have jk: "j1 = k" "j = k" by simp_all
          with r have "\<not> isl r" by auto
          then obtain a where "r = Inr a" by (cases r) simp_all
          with hm jk mv [of msg] show False by (simp add: moves_def)
        qed
        from Some res Inl j1 have "m (parserAt S i) = Some (Inl msg, parserAt S j1)" by simp
        from followsD [OF steady_follows [OF m] _ this] \<open>j1 < k\<close>
        have "m (parserAt S' i) = Some (Inl msg, parserAt S' j1)" by simp
        moreover from followsD [OF steady_follows [OF h] j hm] r
        have "h msg (parserAt S' j1) = Some (r, parserAt S' j)" by simp
        ultimately show ?thesis by (simp add: pm_try_def)
      qed
    qed
  qed
qed

lemma steady_peek_either:
  assumes tw: "twin S S' k" and f: "\<And>c. steady S S' k (f c)"
    and k: "f (S ! k) = f (S' ! k) \<or> moves S k (f (S ! k))"
  shows "steady S S' k (pm_peek f)"
  unfolding steady_def
proof
  show "forward (pm_peek f)"
    using steady_forward [OF f] unfolding forward_def pm_peek_def by blast
  show "follows S S' k (pm_peek f)"
  proof (rule followsI)
    fix i j r
    assume j: "j \<le> k" and run: "pm_peek f (parserAt S i) = Some (r, parserAt S j)"
      and r: "isl r \<Longrightarrow> j < k"
    from run have run': "f (currentToken (parserAt S i)) (parserAt S i) = Some (r, parserAt S j)"
      by (simp add: pm_peek_def)
    from forward_pos [OF steady_forward [OF f] tw j run'] have ij: "i \<le> j" .
    show "pm_peek f (parserAt S' i) = Some (r, parserAt S' j)"
    proof (cases "i < k")
      case True
      from followsD [OF steady_follows [OF f] j run'] r
      have "f (currentToken (parserAt S i)) (parserAt S' i) = Some (r, parserAt S' j)" by simp
      with twin_token [OF tw True] show ?thesis by (simp add: pm_peek_def)
    next
      case False
      with ij j have ik: "i = k" "j = k" by simp_all
      with r have "\<not> isl r" by auto
      then obtain a where a: "r = Inr a" by (cases r) simp_all
      from run' ik have at: "f (S ! k) (parserAt S k) = Some (r, parserAt S k)"
        by (simp add: twin_token_k [OF tw])
      with a k have same: "f (S ! k) = f (S' ! k)" by (auto simp: moves_def)
      from followsD [OF steady_follows [OF f] _ at] a
      have "f (S ! k) (parserAt S' k) = Some (r, parserAt S' k)" by simp
      with same ik show ?thesis by (simp add: pm_peek_def twin_token_k [OF tw])
    qed
  qed
qed

lemma catch_synchronize_try:
  "catch_synchronize next n m
   = pm_try m (\<lambda>msg. pm_bind (synchronize next n) (\<lambda>u. pm_throw msg))"
  by (rule ext) (simp add: catch_synchronize_def pm_try_def)

lemma synchronize_bind:
  "synchronize next n = pm_bind (advance next) (\<lambda>u. synchronize_loop next n)"
  by (rule ext) (simp add: synchronize_def)

lemma synchronize_loop_body_peek:
  "synchronize_loop_body next rest
   = pm_peek (\<lambda>c. if type c = END_OF_FILE then pm_return ()
        else if type c = SEMICOLON \<or> type c = RBRACE then advance next
        else if type c \<in> {INT', FLOAT, CHAR', VOID, IF, WHILE, FOR, RETURN} then pm_return ()
        else pm_bind (advance next) (\<lambda>u. rest))"
  by (rule ext) (simp add: synchronize_loop_body_def pm_peek_def check_token_def)

lemma skipArgument_loop_body_peek:
  "skipArgument_loop_body next rest
   = pm_peek (\<lambda>c. if type c \<noteq> RPAREN \<and> type c \<noteq> COMMA \<and> type c \<noteq> END_OF_FILE
        then pm_bind (advance next) (\<lambda>u. rest) else pm_return ())"
  by (rule ext) (simp add: skipArgument_loop_body_def pm_peek_def check_token_def)

lemma consume_peek:
  "consume next t msg = pm_peek (\<lambda>c. if type c = t then advance next else pm_throw msg)"
  by (rule ext) (simp add: consume_def pm_peek_def check_token_def)

lemma twin_types: "twin S S' k \<Longrightarrow> type (S ! k) = SEMICOLON" "twin S S' k \<Longrightarrow> type (S' ! k) = RPAREN"
  by (simp_all add: twin_def)

lemma steady_peek:
  assumes "twin S S' k" "\<And>c. steady S S' k (f c)" "f (S ! k) = f (S' ! k)"
  shows "steady S S' k (pm_peek f)"
  using assms by (intro steady_peek_either) auto

lemma steady_peek_moves:
  assumes "twin S S' k" "\<And>c. steady S S' k (f c)" "moves S k (f (S ! k))"
  shows "steady S S' k (pm_peek f)"
  using assms by (intro steady_peek_either) auto

lemma steady_case_Expression:
  assumes "\<And>v. steady S S' k (f v)" "steady S S' k g"
  shows "steady S S' k (case expr of IdentifierExpression v \<Rightarrow> f v | _ \<Rightarrow> g)"
  using assms by (cases expr) simp_all

lemma steady_synchronize_loop:
  assumes tw: "twin S S' k"
  shows "steady S S' k (synchronize_loop listNext n)"
proof (induction n)
  case 0
  show ?case by (simp add: synchronize_loop.simps steady_out_of_fuel)
next
  case (Suc n)
  show ?case
    unfolding synchronize_loop.simps synchronize_loop_body_peek
    apply (rule steady_peek_moves [OF tw])
     apply (intro steady_if steady_return steady_advance steady_bind tw Suc)
    apply (simp add: twin_types [OF tw] leaves_moves [OF tw leaves_advance])
    done
qed

lemma steady_skipArgument_loop:
  assumes tw: "twin S S' k"
  shows "steady S S' k (skipArgument_loop listNext n)"
proof (induction n)
  case 0
  show ?case by (simp add: skipArgument_loop.simps steady_out_of_fuel)
next
  case (Suc n)
  have "leaves S k (pm_bind (advance listNext) (\<lambda>u. skipArgument_loop listNext n))"
    by (intro leaves_bind leaves_advance steady_forward [OF Suc])
  from leaves_moves [OF tw this] show ?case
    unfolding skipArgument_loop.simps skipArgument_loop_body_peek
    apply (intro steady_peek_moves [OF tw])
     apply (intro steady_if steady_return steady_advance steady_bind tw Suc)
    apply (simp add: twin_types [OF tw])
    done
qed

lemma leaves_skipArgument_loop:
  assumes tw: "twin S S' k"
  shows "leaves S k (skipArgument_loop listNext n)"
proof (cases n)
  case 0
  then show ?thesis by (simp add: skipArgument_loop.simps leaves_def out_of_fuel_def)
next
  case (Suc m)
  have "leaves S k (pm_bind (advance listNext) (\<lambda>u. skipArgument_loop listNext m))"
    by (intro leaves_bind leaves_advance steady_forward [OF steady_skipArgument_loop [OF tw]])
  then show ?thesis
    unfolding Suc skipArgument_loop.simps skipArgument_loop_body_peek
    by (intro leaves_peek [OF tw]) (simp add: twin_types [OF tw])
qed

lemma steady_consume:
  assumes tw: "twin S S' k"
  shows "steady S S' k (consume listNext RPAREN msg)"
  unfolding consume_peek
  apply (intro steady_peek_moves [OF tw])
   apply (intro steady_if steady_throw steady_advance tw)
  apply (simp add: twin_types [OF tw] moves_throw)
  done

lemma moves_synchronize_throw:
  assumes tw: "twin S S' k"
  shows "moves S k (pm_bind (pm_bind (advance listNext) (\<lambda>u. synchronize_loop listNext n))
          (\<lambda>u. pm_throw msg))"
  by (intro leaves_moves [OF tw] leaves_bind leaves_advance
      steady_forward [OF steady_synchronize_loop [OF tw]] steady_forward [OF steady_throw [OF tw]])

lemma steady_catch:
  assumes tw: "twin S S' k" and m: "steady S S' k m"
  shows "steady S S' k (catch_synchronize listNext n m)"
  unfolding catch_synchronize_try synchronize_bind
  by (intro steady_try [OF tw m] steady_bind steady_advance steady_throw steady_synchronize_loop tw
      moves_synchronize_throw [OF tw])

lemma fails_out_of_fuel: "fails out_of_fuel"
  by (simp add: fails_def out_of_fuel_def)

lemma fails_bind: "fails m \<Longrightarrow> fails (pm_bind m f)"
  unfolding fails_def pm_bind_def
  by (auto split: option.splits sum.splits prod.splits)

lemma fails_catch: "fails m \<Longrightarrow> fails (catch_synchronize next n m)"
  unfolding fails_def catch_synchronize_def pm_bind_def pm_throw_def
  by (auto split: option.splits sum.splits prod.splits)

lemma fails_peek: "(\<And>c. type c = SEMICOLON \<Longrightarrow> fails (f c)) \<Longrightarrow> fails (pm_peek f)"
  unfolding fails_def pm_peek_def by blast

lemma fails_throw: "fails (pm_throw msg)"
  by (simp add: fails_def pm_throw_def)

lemma failsR_exprParsers: "failsR (exprParsers next n)"
proof (induction n)
  case 0
  show ?case by (simp add: failsR_def exprParsers_0 fails_out_of_fuel)
next
  case (Suc n)
  have "fails (parsePrimary_body next n (exprParsers next n))"
    unfolding parsePrimary_body_def [abs_def]
    by (intro fails_catch fails_peek) (simp add: fails_throw)
  with Suc show ?case
    unfolding failsR_def exprParsers_Suc
    by (simp add: parseExpression_body_def [abs_def] parseAssignment_body_def [abs_def]
        parseLogicalOr_body_def [abs_def] parseLogicalAnd_body_def [abs_def]
        parseEquality_body_def [abs_def] parseComparison_body_def [abs_def]
        parseTerm_body_def [abs_def] parseFactor_body_def [abs_def]
        fails_catch fails_bind)
qed

lemma moves_advance_bind:
  assumes "twin S S' k" "\<And>u. steady S S' k (f u)"
  shows "moves S k (pm_bind (advance listNext) f)"
  by (intro leaves_moves [OF assms(1)] leaves_bind leaves_advance steady_forward [OF assms(2)])

lemma moves_skip_bind:
  assumes "twin S S' k" "\<And>u. steady S S' k (f u)"
  shows "moves S k (pm_bind (skipArgument_loop listNext n) f)"
  by (intro leaves_moves [OF assms(1)] leaves_bind leaves_skipArgument_loop [OF assms(1)]
      steady_forward [OF assms(2)])

lemma leaves_try:
  assumes nr: "\<And>a q. m (parserAt S k) \<noteq> Some (Inr a, q)" and fm: "forward m"
    and lh: "\<And>msg. leaves S k (h msg)" and fh: "\<And>msg. forward (h msg)"
  shows "leaves S k (pm_try m h)"
  unfolding leaves_def
proof (intro allI impI)
  fix r q
  assume run: "pm_try m h (parserAt S k) = Some (r, q)"
  show "\<exists>j>k. q = parserAt S j"
  proof (cases "m (parserAt S k)")
    case None
    with run show ?thesis by (simp add: pm_try_def)
  next
    case (Some res)
    obtain r1 q1 where res: "res = (r1, q1)" by (cases res)
    from forwardD [OF fm] Some res obtain j1 where j1: "j1 \<ge> k" "q1 = parserAt S j1"
      by blast
    show ?thesis
    proof (cases r1)
      case (Inr a)
      with Some res nr [of a q1] show ?thesis by simp
    next
      case (Inl msg)
      with run Some res j1 have hm: "h msg (parserAt S j1) = Some (r, q)" by (simp add: pm_try_def)
      show ?thesis
      proof (cases "j1 = k")
        case True
        with hm lh [of msg] show ?thesis by (simp add: leaves_def)
      next
        case False
        from forwardD [OF fh hm] obtain j where "j \<ge> j1" "q = parserAt S j" by blast
        with j1 False show ?thesis by (intro exI [of _ j]) simp
      qed
    qed
  qed
qed

lemma steadyR_D:
  assumes "steadyR S S' k r"
  shows "steady S S' k (pExpression r)" "steady S S' k (pAssignment r)"
    "steady S S' k (pLogicalOr r)" "steady S S' k (pLogicalOr_loop r e)"
    "steady S S' k (pLogicalAnd r)" "steady S S' k (pLogicalAnd_loop r e)"
    "steady S S' k (pEquality r)" "steady S S' k (pEquality_loop r e)"
    "steady S S' k (pComparison r)" "steady S S' k (pComparison_loop r e)"
    "steady S S' k (pTerm r)" "steady S S' k (pTerm_loop r e)"
    "steady S S' k (pFactor r)" "steady S S' k (pFactor_loop r e)"
    "steady S S' k (pPrimary r)" "steady S S' k (pArguments r a)"
    "steady S S' k (pStream_loop r e)" "leaves S k (pArguments r a)"
  using assms by (simp_all add: steadyR_def)

lemmas steady_intros =
  steady_if steady_return steady_throw steady_advance steady_bind steady_catch steady_consume
  steady_peek_either steady_case_Expression steady_skipArgument_loop steady_try

lemma steady_parseTerm_loop_body:
  assumes tw: "twin S S' k" and R: "steadyR S S' k r"
  shows "steady S S' k (parseTerm_loop_body listNext r expr)"
  unfolding parseTerm_loop_body_def [abs_def] Let_def
  apply (intro steady_intros tw steadyR_D [OF R])
  apply (simp add: twin_types [OF tw])
  done

lemma steady_parseFactor_loop_body:
  assumes tw: "twin S S' k" and R: "steadyR S S' k r"
  shows "steady S S' k (parseFactor_loop_body listNext r expr)"
  unfolding parseFactor_loop_body_def [abs_def] Let_def
  apply (intro steady_intros tw steadyR_D [OF R])
  apply (simp add: twin_types [OF tw])
  done

lemma steady_parseComparison_loop_body:
  assumes tw: "twin S S' k" and R: "steadyR S S' k r"
  shows "steady S S' k (parseComparison_loop_body listNext r expr)"
  unfolding parseComparison_loop_body_def [abs_def] Let_def
  apply (intro steady_intros tw steadyR_D [OF R])
  apply (simp add: twin_types [OF tw])
  done

lemma steady_parseEquality_loop_body:
  assumes tw: "twin S S' k" and R: "steadyR S S' k r"
  shows "steady S S' k (parseEquality_loop_body listNext r expr)"
  unfolding parseEquality_loop_body_def [abs_def] Let_def
  apply (intro steady_intros tw steadyR_D [OF R])
  apply (simp add: twin_types [OF tw])
  done

lemma steady_parseLogicalAnd_loop_body:
  assumes tw: "twin S S' k" and R: "steadyR S S' k r"
  shows "steady S S' k (parseLogicalAnd_loop_body listNext r expr)"
  unfolding parseLogicalAnd_loop_body_def [abs_def] Let_def
  apply (intro steady_intros tw steadyR_D [OF R])
  apply (simp add: twin_types [OF tw])
  done

lemma steady_parseLogicalOr_loop_body:
  assumes tw: "twin S S' k" and R: "steadyR S S' k r"
  shows "steady S S' k (parseLogicalOr_loop_body listNext r expr)"
  unfolding parseLogicalOr_loop_body_def [abs_def] Let_def
  apply (intro steady_intros tw steadyR_D [OF R])
  apply (simp add: twin_types [OF tw])
  done

lemma steady_parseAssignment_body:
  assumes tw: "twin S S' k" and R: "steadyR S S' k r"
  shows "steady S S' k (parseAssignment_body listNext n r)"
  unfolding parseAssignment_body_def [abs_def] Let_def
  apply (intro steady_intros tw steadyR_D [OF R])
  apply (simp add: twin_types [OF tw])
  done

lemma steady_parseStream_loop_body:
  assumes tw: "twin S S' k" and R: "steadyR S S' k r"
  shows "steady S S' k (parseStream_loop_body listNext r left)"
  unfolding parseStream_loop_body_def [abs_def] Let_def
  apply (intro steady_intros tw steadyR_D [OF R])
    apply (simp_all add: twin_types [OF tw])
  apply (rule disjI2)
  apply (intro moves_advance_bind [OF tw] steady_intros tw steadyR_D [OF R])
   apply (simp_all add: twin_types [OF tw])
  done

lemma steady_parsePrimary_body:
  assumes tw: "twin S S' k" and R: "steadyR S S' k r"
  shows "steady S S' k (parsePrimary_body listNext n r)"
  unfolding parsePrimary_body_def [abs_def] Let_def
  apply (intro steady_intros tw steadyR_D [OF R])
    apply (simp_all add: twin_types [OF tw] leaves_moves [OF tw steadyR_D(18) [OF R]])
  done

lemma steady_parseArguments_body:
  assumes tw: "twin S S' k" and R: "steadyR S S' k r"
  shows "steady S S' k (parseArguments_body listNext n r arguments)"
  unfolding parseArguments_body_def [abs_def]
  apply (intro steady_intros tw steadyR_D [OF R] moves_skip_bind [OF tw])
    apply (simp_all add: twin_types [OF tw] leaves_moves [OF tw steadyR_D(18) [OF R]])
  done

lemma leaves_parseArguments_body:
  assumes tw: "twin S S' k" and R: "steadyR S S' k r" and nr: "fails (pExpression r)"
  shows "leaves S k (parseArguments_body listNext n r arguments)"
  unfolding parseArguments_body_def [abs_def]
proof (rule leaves_bind, rule leaves_try)
  fix a q
  have "type (currentToken (parserAt S k)) = SEMICOLON"
    by (simp add: twin_token_k [OF tw] twin_types [OF tw])
  with fails_bind [OF nr, of "\<lambda>arg. pm_return (arguments @ [arg])"]
  show "pm_peek (\<lambda>tok. if type tok = COMMA
            then pm_bind (advance listNext) (\<lambda>u. pm_return arguments)
            else pm_bind (pExpression r) (\<lambda>arg. pm_return (arguments @ [arg]))) (parserAt S k)
        \<noteq> Some (Inr a, q)"
    by (auto simp: pm_peek_def fails_def)
next
  show "forward (pm_peek (\<lambda>tok. if type tok = COMMA
            then pm_bind (advance listNext) (\<lambda>u. pm_return arguments)
            else pm_bind (pExpression r) (\<lambda>arg. pm_return (arguments @ [arg]))))"
    by (intro steady_forward [of S S' k] steady_intros tw steadyR_D [OF R])
       (simp add: twin_types [OF tw])
next
  fix msg
  show "leaves S k (pm_bind (skipArgument_loop listNext n) (\<lambda>u.
          pm_peek (\<lambda>tok. if type tok = COMMA
            then pm_bind (advance listNext) (\<lambda>u. pm_return arguments)
            else pm_return arguments)))"
    by (intro leaves_bind leaves_skipArgument_loop [OF tw] steady_forward [of S S' k]
        steady_intros tw) (simp add: twin_types [OF tw])
  show "forward (pm_bind (skipArgument_loop listNext n) (\<lambda>u.
          pm_peek (\<lambda>tok. if type tok = COMMA
            then pm_bind (advance listNext) (\<lambda>u. pm_return arguments)
            else pm_return arguments)))"
    by (intro steady_forward [of S S' k] steady_intros tw) (simp add: twin_types [OF tw])
next
  fix a
  show "forward (pm_peek (\<lambda>tok. if type tok \<noteq> RPAREN \<and> type tok \<noteq> END_OF_FILE
            then pArguments r a else pm_return a))"
    by (intro steady_forward [of S S' k] steady_intros tw steadyR_D [OF R])
       (simp add: twin_types [OF tw] leaves_moves [OF tw steadyR_D(18) [OF R]])
qed

lemma steadyR_exprParsers:
  assumes tw: "twin S S' k"
  shows "steadyR S S' k (exprParsers listNext n)"
proof (induction n)
  case 0
  show ?case
    by (simp add: steadyR_def exprParsers_0 steady_out_of_fuel leaves_def out_of_fuel_def)
next
  case (Suc n)
  note R = steadyR_D [OF Suc]
  have binary:
    "steady S S' k (parseExpression_body listNext n (exprParsers listNext n))"
    "steady S S' k (parseLogicalOr_body listNext n (exprParsers listNext n))"
    "steady S S' k (parseLogicalAnd_body listNext n (exprParsers listNext n))"
    "steady S S' k (parseEquality_body listNext n (exprParsers listNext n))"
    "steady S S' k (parseComparison_body listNext n (exprParsers listNext n))"
    "steady S S' k (parseTerm_body listNext n (exprParsers listNext n))"
    "steady S S' k (parseFactor_body listNext n (exprParsers listNext n))"
    unfolding parseExpression_body_def [abs_def] parseLogicalOr_body_def [abs_def]
      parseLogicalAnd_body_def [abs_def] parseEquality_body_def [abs_def]
      parseComparison_body_def [abs_def] parseTerm_body_def [abs_def]
      parseFactor_body_def [abs_def]
    by (intro steady_catch steady_bind tw R)+
  from failsR_exprParsers [of listNext n]
  have "fails (pExpression (exprParsers listNext n))" by (simp add: failsR_def)
  note leaves_parseArguments_body [OF tw Suc this]
  with binary show ?case
    unfolding steadyR_def exprParsers_Suc
    by (simp add: steady_parseTerm_loop_body [OF tw Suc] steady_parseFactor_loop_body [OF tw Suc]
        steady_parseComparison_loop_body [OF tw Suc] steady_parseEquality_loop_body [OF tw Suc]
        steady_parseLogicalAnd_loop_body [OF tw Suc] steady_parseLogicalOr_loop_body [OF tw Suc]
        steady_parseAssignment_body [OF tw Suc] steady_parseStream_loop_body [OF tw Suc]
        steady_parsePrimary_body [OF tw Suc] steady_parseArguments_body [OF tw Suc])
qed

lemma follow_independent:
  assumes "type tsemi = SEMICOLON" "type trp = RPAREN"
    and "parseAssignment listNext n (startAt (e @ tsemi # rest))
         = Some (Inr E, startAt (tsemi # rest))"
  shows "parseAssignment listNext n (startAt (e @ trp # rest'))
         = Some (Inr E, startAt (trp # rest'))"
proof -
  let ?S = "e @ tsemi # rest" and ?S' = "e @ trp # rest'"
  have tw: "twin ?S ?S' (length e)"
    using assms(1,2) by (simp add: twin_def)
  have f: "follows ?S ?S' (length e) (pAssignment (exprParsers listNext n))"
    by (intro steady_follows steadyR_D [OF steadyR_exprParsers [OF tw]])
  have "pAssignment (exprParsers listNext n) (parserAt ?S 0) = Some (Inr E, parserAt ?S (length e))"
    using assms(3) by (simp add: parserAt_0 parserAt_append parseAssignment_def del: startAt_Cons)
  from followsD [OF f _ this]
  have "pAssignment (exprParsers listNext n) (parserAt ?S' 0) = Some (Inr E, parserAt ?S' (length e))"
    by simp
  then show ?thesis
    by (simp add: parserAt_0 parserAt_append parseAssignment_def del: startAt_Cons)
qed

text \<open>
  Claim C5.  For every name \<^verbatim>\<open>x\<close> (an identifier token; \<^verbatim>\<open>string\<close> is a keyword of the
  lexer and starts a declaration), every compound operator \<^verbatim>\<open>op=\<close> with its arithmetic
  operator \<^verbatim>\<open>op\<close> and every sequence of tokens \<^verbatim>\<open>e\<close> that the parser reads as the
  expression \<open>E\<close> in front of a semicolon: the statement \<^verbatim>\<open>x op= e;\<close> and the statement
  \<^verbatim>\<open>x = x op (e);\<close> parse to the same tree, the expression statement of
  \<open>AssignExpression x EQUAL (BinaryExpression (IdentifierExpression x) op E)\<close>, and
  leave the parser behind the semicolon.  When the parse of \<^verbatim>\<open>e\<close> takes the fuel
  \<open>n + 7\<close>, 3 and 13 units more are enough for the two statements.
\<close>

theorem compound_assignment_desugars:
  assumes "type tx = IDENTIFIER" and "lexeme tx = x" and "x \<noteq> ''string''"
    and "(type tcompound, op) \<in> {(PLUS_EQUAL, PLUS), (MINUS_EQUAL, MINUS),
                                  (MULTIPLY_EQUAL, MULTIPLY), (DIVIDE_EQUAL, SLASH)}"
    and "type tkop = op" and "type teq = EQUAL" and "type tlp = LPAREN"
    and "type trp = RPAREN" and "type tsemi = SEMICOLON"
    and "parseAssignment listNext (n + 7) (startAt (e @ tsemi # rest))
         = Some (Inr E, startAt (tsemi # rest))"
  shows "parseStatement listNext (n + 10) (startAt (tx # tcompound # e @ tsemi # rest))
         = Some (Inr (ExpressionStatement
                        (AssignExpression x EQUAL
                           (BinaryExpression (IdentifierExpression x) op E))),
                 startAt rest)
       \<and> parseStatement listNext (n + 20)
           (startAt (tx # teq # tx # tkop # tlp # e @ trp # tsemi # rest))
         = Some (Inr (ExpressionStatement
                        (AssignExpression x EQUAL
                           (BinaryExpression (IdentifierExpression x) op E))),
                 startAt rest)"
proof
  define m where "m = Suc (n + 7)"
  have fuel: "n + 7 = Suc (Suc (Suc (Suc (Suc (Suc (Suc n))))))"
    "n + 10 = Suc (Suc (Suc (Suc (Suc (Suc (Suc (Suc (Suc (Suc n)))))))))"
    "n + 20 = Suc (Suc (Suc (Suc (Suc (Suc (Suc (Suc (Suc (Suc (Suc (Suc m)))))))))))"
    by (simp_all add: m_def)
  have compound: "type tcompound \<in> {PLUS_EQUAL, MINUS_EQUAL, MULTIPLY_EQUAL, DIVIDE_EQUAL}"
    and op: "binaryOp (type tcompound) = op" "op \<in> {PLUS, MINUS, MULTIPLY, SLASH}"
    using assms(4) by (auto simp: binaryOp_def)
  have e1: "pAssignment (exprParsers listNext (Suc (Suc (Suc (Suc (Suc (Suc (Suc n))))))))
              (startAt (e @ tsemi # rest))
            = Some (Inr E, \<lparr>lexer = rest, currentToken = tsemi\<rparr>)"
    using assms(10) unfolding fuel parseAssignment_def by simp
  have "pAssignment (exprParsers listNext (Suc (Suc (Suc (Suc (Suc (Suc (Suc (Suc n)))))))))
          \<lparr>lexer = tcompound # e @ tsemi # rest, currentToken = tx\<rparr>
        = Some (Inr (AssignExpression (lexeme tx) EQUAL
                       (BinaryExpression (IdentifierExpression (lexeme tx))
                          (binaryOp (type tcompound)) E)),
                \<lparr>lexer = rest, currentToken = tsemi\<rparr>)"
    using assms(1) compound e1 by (rule parseAssignment_compound)
  from parseStatement_expression [OF assms(1) _ this assms(9)] assms(2,3) op(1)
  show "parseStatement listNext (n + 10) (startAt (tx # tcompound # e @ tsemi # rest))
        = Some (Inr (ExpressionStatement
                       (AssignExpression x EQUAL
                          (BinaryExpression (IdentifierExpression x) op E))),
                startAt rest)"
    unfolding fuel by simp
  from follow_independent [OF assms(9) assms(8) assms(10), of "tsemi # rest"]
  have "pAssignment (exprParsers listNext (n + 7)) (startAt (e @ trp # tsemi # rest))
        = Some (Inr E, \<lparr>lexer = tsemi # rest, currentToken = trp\<rparr>)"
    unfolding parseAssignment_def by simp
  then have e2: "pExpression (exprParsers listNext m) (startAt (e @ trp # tsemi # rest))
            = Some (Inr E, \<lparr>lexer = tsemi # rest, currentToken = trp\<rparr>)"
    unfolding m_def exprParsers_Suc(1) parseExpression_body_def catch_synchronize_def
    by simp
  have semi: "\<not> continuesExpression (type tsemi)"
    using assms(9) by (simp add: continuesExpression_def)
  have "pAssignment (exprParsers listNext
          (Suc (Suc (Suc (Suc (Suc (Suc (Suc (Suc (Suc (Suc m)))))))))))
          \<lparr>lexer = teq # tx # tkop # tlp # e @ trp # tsemi # rest, currentToken = tx\<rparr>
        = Some (Inr (AssignExpression (lexeme tx) EQUAL
                       (BinaryExpression (IdentifierExpression (lexeme tx)) (type tkop) E)),
                \<lparr>lexer = rest, currentToken = tsemi\<rparr>)"
    using assms(1) assms(1) assms(6) _ assms(7) e2 assms(8) semi
    by (rule parseAssignment_plain) (use assms(5) op(2) in simp)
  from parseStatement_expression [OF assms(1) _ this assms(9)] assms(2,3,5)
  show "parseStatement listNext (n + 20)
          (startAt (tx # teq # tx # tkop # tlp # e @ trp # tsemi # rest))
        = Some (Inr (ExpressionStatement
                       (AssignExpression x EQUAL
                          (BinaryExpression (IdentifierExpression x) op E))),
                startAt rest)"
    unfolding fuel by simp
qed

theorem compound_assignment_desugars_witness:
  "parseAssignment listNext (1 + 7)
     (startAt ([mkToken INTEGER_LITERAL ''1'' 1] @ mkToken SEMICOLON '';'' 1 # []))
   = Some (Inr (LiteralExpression ''1'' INTEGER_LITERAL), startAt (mkToken SEMICOLON '';'' 1 # []))
   \<and> parseStatement listNext (1 + 10)
       (startAt (mkToken IDENTIFIER ''x'' 1 # mkToken PLUS_EQUAL ''+='' 1
                 # [mkToken INTEGER_LITERAL ''1'' 1] @ mkToken SEMICOLON '';'' 1 # []))
     = Some (Inr (ExpressionStatement
                    (AssignExpression ''x'' EQUAL
                       (BinaryExpression (IdentifierExpression ''x'') PLUS
                          (LiteralExpression ''1'' INTEGER_LITERAL)))),
             startAt [])
   \<and> parseStatement listNext (1 + 20)
       (startAt (mkToken IDENTIFIER ''x'' 1 # mkToken EQUAL ''='' 1 # mkToken IDENTIFIER ''x'' 1
                 # mkToken PLUS ''+'' 1 # mkToken LPAREN ''('' 1
                 # [mkToken INTEGER_LITERAL ''1'' 1] @ mkToken RPAREN '')'' 1
                 # mkToken SEMICOLON '';'' 1 # []))
     = Some (Inr (ExpressionStatement
                    (AssignExpression ''x'' EQUAL
                       (BinaryExpression (IdentifierExpression ''x'') PLUS
                          (LiteralExpression ''1'' INTEGER_LITERAL)))),
             startAt [])"
proof -
  have h1: "type (mkToken IDENTIFIER ''x'' 1) = IDENTIFIER"
    and h2: "lexeme (mkToken IDENTIFIER ''x'' 1) = ''x''"
    and h3: "''x'' \<noteq> ''string''"
    and h4: "(type (mkToken PLUS_EQUAL ''+='' 1), PLUS) \<in> {(PLUS_EQUAL, PLUS),
               (MINUS_EQUAL, MINUS), (MULTIPLY_EQUAL, MULTIPLY), (DIVIDE_EQUAL, SLASH)}"
    and h5: "type (mkToken PLUS ''+'' 1) = PLUS"
    and h6: "type (mkToken EQUAL ''='' 1) = EQUAL"
    and h7: "type (mkToken LPAREN ''('' 1) = LPAREN"
    and h8: "type (mkToken RPAREN '')'' 1) = RPAREN"
    and h9: "type (mkToken SEMICOLON '';'' 1) = SEMICOLON"
    by (simp_all add: mkToken_def)
  have h10: "parseAssignment listNext (1 + 7)
       (startAt ([mkToken INTEGER_LITERAL ''1'' 1] @ mkToken SEMICOLON '';'' 1 # []))
     = Some (Inr (LiteralExpression ''1'' INTEGER_LITERAL),
             startAt (mkToken SEMICOLON '';'' 1 # []))"
    by (simp add: parser_run mkToken_def)
  from compound_assignment_desugars [OF h1 h2 h3 h4 h5 h6 h7 h8 h9 h10] h10
  show ?thesis by blast
qed

lemmas lexer_run =
  getNextToken.simps skipWhitespace.simps skipLineComment.simps skipBlockComment.simps
  identifier_loop.simps number_loop.simps string_loop.simps directive_loop.simps
  header_loop.simps skipComment_def identifier'_def number_def string'_def character_def
  preprocessorDirective_def punctuation_def peek_def lx_advance_def lx_match_def
  isspace_def isalpha_def isdigit_def isalnum_def lx_keywords_def mkToken_def Lexer_new_def

text \<open>
  Claim C6 says that a chain of stream operators nests to the left, also with names as
  operands.  The loop in \<^verbatim>\<open>parsePrimary\<close> builds the chain to the left, but it parses each
  operand with \<^verbatim>\<open>parseExpression\<close>, and an operand that is a name followed by a stream
  operator starts a chain of its own there, which takes the rest of the statement.  So
  \<^verbatim>\<open>out << a << b;\<close> parses with the chain \<^verbatim>\<open>a << b\<close> as the right operand; with a
  literal as first operand, \<^verbatim>\<open>out << 1 << b;\<close>, the tree does nest to the left.
\<close>

theorem stream_chain_identifier_operand:
  "map_option fst (parseSource 40 ''out << a << b;'')
   = Some (Inr [ExpressionStatement
        (BinaryExpression (IdentifierExpression ''out'') LEFT_SHIFT
           (BinaryExpression (IdentifierExpression ''a'') LEFT_SHIFT
              (IdentifierExpression ''b'')))])
   \<and> map_option fst (parseSource 40 ''out << 1 << b;'')
   = Some (Inr [ExpressionStatement
        (BinaryExpression
           (BinaryExpression (IdentifierExpression ''out'') LEFT_SHIFT
              (LiteralExpression ''1'' INTEGER_LITERAL))
           LEFT_SHIFT (IdentifierExpression ''b''))])"
  by (simp add: parseSource_def parser_run lexer_run Let_def)

section \<open>Properties of the driver\<close>

text \<open>
  Claim C2 says that the driver exits with code 1 and runs no later phase whenever a
  phase reported an error, a parse error in particular.  \<^verbatim>\<open>parse\<close> prints the message of
  a parse error, recovers and returns the statements it could parse, and \<^verbatim>\<open>main\<close> has no
  way to see that it did: for \<^verbatim>\<open>int y = 1; int x = ;\<close> the parser reports
  \<^verbatim>\<open>Expect expression.\<close>, the type checker and the emitter run on the first
  declaration alone, and the exit code is 0.  An error of the type checker does stop the
  run with exit code 1: \<^verbatim>\<open>x;\<close>.
\<close>

theorem parse_error_exit_code:
  "compile 40 ''int y = 1; int x = ;''
   = Some \<lparr>exitCode = 0, parseDiagnostics = [''Expect expression.''], semanticErrors = [],
           escaped = None,
           emitted = Some [Instr STORE ''1'' [] ''t1'', Instr STORE ''t2'' [] ''y'']\<rparr>
   \<and> compile 40 ''x;''
   = Some \<lparr>exitCode = 1, parseDiagnostics = [], semanticErrors = [UndefinedVariable ''x''],
           escaped = None, emitted = None\<rparr>"
  by (simp add: compile_def parseSource_def parser_run lexer_run Let_def check_def
      TypeChecker_new_def SymbolTable_new_def enterScope_def SymbolTable_define_def
      Scope_define_def Scope_contains_def Symbol_variable_def resolve_def Scope_resolve_def
      tc_define_def checkIdentifier_def isCompatibleType_def isNumericType_def
      generate_def optimize_def CodeGenerator_new_def optimize_loop_scan
      generateLiteral_def generateTemp_def emplace_back_def to_string.simps Instr_def)

text \<open>
  Claim C1, as stated, fails for \<^verbatim>\<open>int x = 5;\<close>: the emitter does not produce
  \<^verbatim>\<open>STORE 5 -> t1\<close>, \<^verbatim>\<open>STORE t1 -> x\<close>, and the list after the peephole pass is not the
  single instruction \<^verbatim>\<open>STORE 5 -> x\<close>.
\<close>

theorem declaration_with_literal_counterexample:
  "instructions (generate [VariableDeclaration INT' False ''x''
                             (Some (LiteralExpression ''5'' INTEGER_LITERAL))] CodeGenerator_new)
   \<noteq> [Instr STORE ''5'' [] ''t1'', Instr STORE ''t1'' [] ''x'']
   \<and> instructions (optimize (generate [VariableDeclaration INT' False ''x''
                             (Some (LiteralExpression ''5'' INTEGER_LITERAL))] CodeGenerator_new))
   \<noteq> [Instr STORE ''5'' [] ''x'']"
  by (simp add: generate_def optimize_def CodeGenerator_new_def optimize_loop_scan
      generateLiteral_def generateTemp_def emplace_back_def to_string.simps Instr_def)

text \<open>
  Claim C1, amended.  The source \<^verbatim>\<open>int x = 5;\<close> parses without diagnostics to one
  declaration with the literal as initializer.  For it the emitter produces two
  instructions, \<^verbatim>\<open>STORE 5 -> t1\<close> followed by a STORE whose result is \<^verbatim>\<open>x\<close>, and the
  peephole pass, which only deletes a LOAD with the STORE behind it, leaves both as they
  are; they are what the driver dumps, with exit code 0.
\<close>

theorem declaration_with_literal:
  "map_option fst (parseSource 40 ''int x = 5;'')
   = Some (Inr [VariableDeclaration INT' False ''x''
                  (Some (LiteralExpression ''5'' INTEGER_LITERAL))])
   \<and> length (instructions (generate [VariableDeclaration INT' False ''x''
               (Some (LiteralExpression ''5'' INTEGER_LITERAL))] CodeGenerator_new)) = 2
   \<and> instructions (generate [VariableDeclaration INT' False ''x''
               (Some (LiteralExpression ''5'' INTEGER_LITERAL))] CodeGenerator_new) ! 0
     = Instr STORE ''5'' [] ''t1''
   \<and> opcode (instructions (generate [VariableDeclaration INT' False ''x''
               (Some (LiteralExpression ''5'' INTEGER_LITERAL))] CodeGenerator_new) ! 1) = STORE
   \<and> result (instructions (generate [VariableDeclaration INT' False ''x''
               (Some (LiteralExpression ''5'' INTEGER_LITERAL))] CodeGenerator_new) ! 1) = ''x''
   \<and> instructions (optimize (generate [VariableDeclaration INT' False ''x''
               (Some (LiteralExpression ''5'' INTEGER_LITERAL))] CodeGenerator_new))
     = instructions (generate [VariableDeclaration INT' False ''x''
               (Some (LiteralExpression ''5'' INTEGER_LITERAL))] CodeGenerator_new)
   \<and> map_option emitted (compile 40 ''int x = 5;'')
     = Some (Some (instructions (generate [VariableDeclaration INT' False ''x''
               (Some (LiteralExpression ''5'' INTEGER_LITERAL))] CodeGenerator_new)))
   \<and> map_option exitCode (compile 40 ''int x = 5;'') = Some 0
   \<and> map_option parseDiagnostics (compile 40 ''int x = 5;'') = Some []"
  by (simp add: compile_def parseSource_def parser_run lexer_run Let_def check_def
      TypeChecker_new_def SymbolTable_new_def enterScope_def SymbolTable_define_def
      Scope_define_def Scope_contains_def Symbol_variable_def resolve_def Scope_resolve_def
      tc_define_def checkIdentifier_def isCompatibleType_def isNumericType_def
      generate_def optimize_def CodeGenerator_new_def optimize_loop_scan
      generateLiteral_def generateTemp_def emplace_back_def to_string.simps Instr_def)

section \<open>Properties of type compatibility\<close>

text \<open>
  Claim C7, as stated, fails: the relation is not symmetric, a pointer on the left is
  compatible with an integer literal on the right and not the other way round.
\<close>

theorem isCompatibleType_not_symmetric:
  "isCompatibleType POINTER INTEGER_LITERAL \<and> \<not> isCompatibleType INTEGER_LITERAL POINTER"
  by (simp add: isCompatibleType_def isNumericType_def isBooleanType_def isPointerType_def)

text \<open>Comparing a pointer with an integer literal, in both orders.\<close>

lemma null_comparison_checked:
  assumes "op \<in> {EQUAL_EQUAL, NOT_EQUAL, LESS, LESS_EQUAL, GREATER, GREATER_EQUAL}"
    and "checkExpression tc l = Inr POINTER" and "checkExpression tc r = Inr INTEGER_LITERAL"
  shows "checkExpression tc (BinaryExpression l op r) = Inr BOOL"
    and "checkExpression tc (BinaryExpression r op l)
         = Inl (IncompatibleComparison INTEGER_LITERAL POINTER)"
  using assms
  by (auto simp: binaryResult_def isCompatibleType_def isNumericType_def isBooleanType_def
      isPointerType_def)

lemma null_comparison_compiled:
  "compile 40 ''int x = 1; &x == 0;''
   = Some \<lparr>exitCode = 0, parseDiagnostics = [], semanticErrors = [], escaped = None,
           emitted = Some [Instr STORE ''1'' [] ''t1'', Instr STORE ''t2'' [] ''x'',
                           Instr STORE ''0'' [] ''t4'', Instr CMP ''t3'' ''t5'' ''t6'']\<rparr>"
  "compile 40 ''int x = 1; 0 == &x;''
   = Some \<lparr>exitCode = 1, parseDiagnostics = [],
           semanticErrors = [IncompatibleComparison INTEGER_LITERAL POINTER],
           escaped = None, emitted = None\<rparr>"
  by (simp_all add: compile_def parseSource_def parser_run lexer_run Let_def check_def
      TypeChecker_new_def SymbolTable_new_def enterScope_def SymbolTable_define_def
      Scope_define_def Scope_contains_def Symbol_variable_def resolve_def Scope_resolve_def
      tc_define_def checkIdentifier_def symbolValueType_def unaryResult_def binaryResult_def
      isCompatibleType_def isNumericType_def isBooleanType_def isPointerType_def
      generate_def optimize_def CodeGenerator_new_def optimize_loop_scan
      generateLiteral_def generateIdentifier_def binaryInstruction_def
      generateTemp_def emplace_back_def to_string.simps Instr_def)

text \<open>
  Claim C7, amended.  The relation is symmetric on every pair of kinds other than a
  pointer with an integer literal; on that pair it holds in one direction only, pointer
  on the left, integer literal on the right.  So \<^verbatim>\<open>checkBinary\<close> accepts each of the six
  comparisons of a pointer on the left with an integer literal on the right, with type
  BOOL, and rejects the mirrored comparison with the error for incompatible types, in
  every state of the checker and for all operands of these two types.  The driver
  compiles \<^verbatim>\<open>int x = 1; &x == 0;\<close> with exit code 0 and stops at
  \<^verbatim>\<open>int x = 1; 0 == &x;\<close> with that error and exit code 1.
\<close>

theorem isCompatibleType_symmetric_except_null:
  "(\<not> (a = POINTER \<and> b = INTEGER_LITERAL) \<and> \<not> (a = INTEGER_LITERAL \<and> b = POINTER)
      \<longrightarrow> isCompatibleType a b = isCompatibleType b a)
   \<and> isCompatibleType POINTER INTEGER_LITERAL
   \<and> \<not> isCompatibleType INTEGER_LITERAL POINTER
   \<and> (op \<in> {EQUAL_EQUAL, NOT_EQUAL, LESS, LESS_EQUAL, GREATER, GREATER_EQUAL}
      \<and> checkExpression tc l = Inr POINTER \<and> checkExpression tc r = Inr INTEGER_LITERAL
      \<longrightarrow> checkExpression tc (BinaryExpression l op r) = Inr BOOL
          \<and> checkExpression tc (BinaryExpression r op l)
            = Inl (IncompatibleComparison INTEGER_LITERAL POINTER))
   \<and> compile 40 ''int x = 1; &x == 0;''
     = Some \<lparr>exitCode = 0, parseDiagnostics = [], semanticErrors = [], escaped = None,
             emitted = Some [Instr STORE ''1'' [] ''t1'', Instr STORE ''t2'' [] ''x'',
                             Instr STORE ''0'' [] ''t4'', Instr CMP ''t3'' ''t5'' ''t6'']\<rparr>
   \<and> compile 40 ''int x = 1; 0 == &x;''
     = Some \<lparr>exitCode = 1, parseDiagnostics = [],
             semanticErrors = [IncompatibleComparison INTEGER_LITERAL POINTER],
             escaped = None, emitted = None\<rparr>"
proof -
  have "\<not> (a = POINTER \<and> b = INTEGER_LITERAL) \<and> \<not> (a = INTEGER_LITERAL \<and> b = POINTER)
      \<longrightarrow> isCompatibleType a b = isCompatibleType b a"
    by (auto simp: isCompatibleType_def isNumericType_def isBooleanType_def isPointerType_def)
  moreover have "isCompatibleType POINTER INTEGER_LITERAL"
    "\<not> isCompatibleType INTEGER_LITERAL POINTER"
    by (simp_all add: isCompatibleType_def isNumericType_def isBooleanType_def isPointerType_def)
  ultimately show ?thesis
    using null_comparison_checked [of op tc l r] null_comparison_compiled
    by blast
qed

theorem isCompatibleType_symmetric_except_null_witness:
  "\<not> (INT' = POINTER \<and> FLOAT_LITERAL = INTEGER_LITERAL)
   \<and> \<not> (INT' = INTEGER_LITERAL \<and> FLOAT_LITERAL = POINTER)
   \<and> isCompatibleType INT' FLOAT_LITERAL = isCompatibleType FLOAT_LITERAL INT'
   \<and> isCompatibleType INT' FLOAT_LITERAL
   \<and> LESS \<in> {EQUAL_EQUAL, NOT_EQUAL, LESS, LESS_EQUAL, GREATER, GREATER_EQUAL}
   \<and> checkExpression TypeChecker_new
        (UnaryExpression AMPERSAND (LiteralExpression ''1'' INTEGER_LITERAL)) = Inr POINTER
   \<and> checkExpression TypeChecker_new (LiteralExpression ''0'' INTEGER_LITERAL)
     = Inr INTEGER_LITERAL
   \<and> checkExpression TypeChecker_new
        (BinaryExpression (UnaryExpression AMPERSAND (LiteralExpression ''1'' INTEGER_LITERAL))
           LESS (LiteralExpression ''0'' INTEGER_LITERAL)) = Inr BOOL
   \<and> checkExpression TypeChecker_new
        (BinaryExpression (LiteralExpression ''0'' INTEGER_LITERAL) LESS
           (UnaryExpression AMPERSAND (LiteralExpression ''1'' INTEGER_LITERAL)))
     = Inl (IncompatibleComparison INTEGER_LITERAL POINTER)"
proof -
  have h: "LESS \<in> {EQUAL_EQUAL, NOT_EQUAL, LESS, LESS_EQUAL, GREATER, GREATER_EQUAL}"
    "checkExpression TypeChecker_new
       (UnaryExpression AMPERSAND (LiteralExpression ''1'' INTEGER_LITERAL)) = Inr POINTER"
    "checkExpression TypeChecker_new (LiteralExpression ''0'' INTEGER_LITERAL)
     = Inr INTEGER_LITERAL"
    "\<not> (INT' = POINTER \<and> FLOAT_LITERAL = INTEGER_LITERAL)"
    "\<not> (INT' = INTEGER_LITERAL \<and> FLOAT_LITERAL = POINTER)"
    "isCompatibleType INT' FLOAT_LITERAL"
    by (simp_all add: unaryResult_def isCompatibleType_def isNumericType_def)
  from isCompatibleType_symmetric_except_null [of INT' FLOAT_LITERAL LESS TypeChecker_new
      "UnaryExpression AMPERSAND (LiteralExpression ''1'' INTEGER_LITERAL)"
      "LiteralExpression ''0'' INTEGER_LITERAL"] h
  show ?thesis by blast
qed

end
